theory Spec2Isabelle
  imports Complex_Main
begin

section \<open>Strings and numbers of the host language\<close>

text \<open>
  A JavaScript string is a sequence of UTF-16 code units, and \<open>length\<close>, \<open>includes\<close>,
  \<open>substring\<close> and the regular expressions of the repository (none has the \<open>u\<close> flag) all
  count code units.  A string is therefore a list of code units, each a natural number; the
  bullet sign of the analyzer's patterns is the code unit 8226, outside the range of \<open>char\<close>.
  \<open>str\<close> turns an ASCII literal into such a string.
\<close>

type_synonym jstring = "nat list"

definition str :: "string \<Rightarrow> jstring" where
  "str s = map of_char s"

text \<open>\<open>String.prototype.includes\<close>: the argument occurs as a contiguous run.\<close>

fun startsWith :: "jstring \<Rightarrow> jstring \<Rightarrow> bool" where
  "startsWith s [] = True"
| "startsWith [] (p # ps) = False"
| "startsWith (c # cs) (p # ps) = (c = p \<and> startsWith cs ps)"

fun str_includes :: "jstring \<Rightarrow> jstring \<Rightarrow> bool" where
  "str_includes [] p = (p = [])"
| "str_includes (c # cs) p = (startsWith (c # cs) p \<or> str_includes cs p)"

text \<open>
  \<open>String.prototype.toLowerCase\<close> follows the Unicode case tables of the host, which are
  no part of the repository.  Every function that lowers a string takes the lowering
  function as its first argument \<open>lc\<close>, and the theorems hold for every such function.
  For the runs on concrete ASCII input there is \<open>asciiLower\<close>, which agrees with the host
  on ASCII strings.
\<close>

definition asciiLowerUnit :: "nat \<Rightarrow> nat" where
  "asciiLowerUnit c = (if 65 \<le> c \<and> c \<le> 90 then c + 32 else c)"

definition asciiLower :: "jstring \<Rightarrow> jstring" where
  "asciiLower s = map asciiLowerUnit s"

text \<open>A template literal renders a non-negative integer in decimal.\<close>

fun decimal :: "nat \<Rightarrow> jstring" where
  "decimal n = (if n < 10 then [48 + n] else decimal (n div 10) @ [48 + n mod 10])"

declare decimal.simps [simp del]

text \<open>
  \<open>Math.round\<close> rounds to the nearest integer, a tie towards plus infinity.  A number is
  a rational here (every double is one); the confidence scorer only halves a small integer,
  which doubles do exactly.
\<close>

definition Math_round :: "rat \<Rightarrow> int" where
  "Math_round x = \<lfloor>x + 1 / 2\<rfloor>"


text \<open>
  The similarity matcher divides and multiplies numbers that are not integers, so its
  arithmetic is that of IEEE 754 doubles: each operation returns the exact result rounded
  to the nearest double, a tie to the even significand.  \<open>fl\<close> is that rounding on the
  rationals, for magnitudes in the normal range (the matcher's values lie between a
  reciprocal of a string length and 135).
\<close>

fun bits :: "nat \<Rightarrow> nat" where
  "bits n = (if n = 0 then 0 else Suc (bits (n div 2)))"

declare bits.simps [simp del]

definition ilog2 :: "rat \<Rightarrow> int" where
  "ilog2 x = (if 1 \<le> \<bar>x\<bar> then int (bits (nat \<lfloor>\<bar>x\<bar>\<rfloor>)) - 1
              else - int (bits (nat (\<lceil>1 / \<bar>x\<bar>\<rceil> - 1))))"

definition roundEven :: "rat \<Rightarrow> int" where
  "roundEven q = (let f = \<lfloor>q\<rfloor>; r = q - of_int f
                  in if r < 1 / 2 then f
                     else if 1 / 2 < r then f + 1
                     else if even f then f else f + 1)"

definition fl :: "rat \<Rightarrow> rat" where
  "fl x = (if x = 0 then 0
           else let u = 2 powi (ilog2 x - 52) in of_int (roundEven (x / u)) * u)"

definition fdiv :: "rat \<Rightarrow> rat \<Rightarrow> rat" where
  "fdiv a b = fl (a / b)"

definition fmul :: "rat \<Rightarrow> rat \<Rightarrow> rat" where
  "fmul a b = fl (a * b)"

definition fadd :: "rat \<Rightarrow> rat \<Rightarrow> rat" where
  "fadd a b = fl (a + b)"


section \<open>Regular expressions of the host language\<close>

text \<open>
  The normalizer and the signal extractor work by regular expressions.  Their meaning is the
  backtracking matcher of the ECMAScript specification: a pattern is matched against the
  input from a position, with the rest of the pattern as its continuation, and the first
  way to succeed wins (an alternative left to right, a greedy quantifier the longest
  first, a lazy one the shortest first).

  \<open>re\<close> is the abstract syntax of the patterns the repository uses.  A character class
  lists single units, ranges, \<open>\s\<close>, \<open>\S\<close> and \<open>\d\<close>, and may be negated; \<open>RRep r mn mx g\<close>
  is \<open>r{mn,mx}\<close>, greedy when \<open>g\<close>; \<open>RGrp i r\<close> is the \<open>i\<close>-th capturing group; \<open>RNeg r\<close> is
  the negative lookahead \<open>(?!r)\<close>; \<open>RBol\<close> and \<open>REol\<close> are \<open>^\<close> and \<open>$\<close>.
\<close>

text \<open>
  \<open>isSpace\<close> is the class \<open>\s\<close> (white space and line terminators of the specification,
  which is also what \<open>trim\<close> strips); \<open>.\<close> matches every unit but a line terminator.
\<close>

definition isSpace :: "nat \<Rightarrow> bool" where
  "isSpace c = (c = 9 \<or> c = 10 \<or> c = 11 \<or> c = 12 \<or> c = 13 \<or> c = 32 \<or> c = 160 \<or> c = 5760 \<or>
                (8192 \<le> c \<and> c \<le> 8202) \<or> c = 8232 \<or> c = 8233 \<or> c = 8239 \<or> c = 8287 \<or>
                c = 12288 \<or> c = 65279)"

definition isLineTerminator :: "nat \<Rightarrow> bool" where
  "isLineTerminator c = (c = 10 \<or> c = 13 \<or> c = 8232 \<or> c = 8233)"

datatype citem = CChar nat | CRange nat nat | CSpace | CNotSpace | CDigit

datatype re =
    RChr nat
  | RSet bool "citem list"
  | RAny
  | REps
  | RCat re re
  | RAlt re re
  | RRep re nat "nat option" bool
  | RGrp nat re
  | RNeg re
  | RBol
  | REol

text \<open>
  The flags \<open>i\<close> and \<open>m\<close>.  The flag \<open>g\<close> is not a property of matching: it selects the
  operation (\<open>replaceAll\<close>, \<open>allMatches\<close>) at the call.  Under \<open>i\<close> two units match when their
  canonical forms agree; all letters in the repository's patterns are ASCII, for which the
  canonical form is the upper-case letter, and a unit outside ASCII never canonicalizes to
  an ASCII one.
\<close>

record Flags =
  ignoreCase :: bool
  multiline :: bool

text \<open>
  A matcher state: the position, the unit before it (for \<open>^\<close> under \<open>m\<close>), the input from the
  position on, and the captures as (group, start, end).  The continuation is a stack of
  frames: a pattern still to match, the end of a capturing group opened at a position, or
  the re-entry of a quantifier (with the position its iteration started from and whether an
  empty iteration must fail).
\<close>

datatype mstate = St (pos: nat) (prev: "nat option") (rest: jstring) (caps: "(nat \<times> nat \<times> nat) list")

datatype frame = FRe re | FClose nat nat | FLoop nat bool re

definition canon :: "Flags \<Rightarrow> nat \<Rightarrow> nat" where
  "canon fg c = (if ignoreCase fg \<and> 97 \<le> c \<and> c \<le> 122 then c - 32 else c)"

definition swapCase :: "nat \<Rightarrow> nat" where
  "swapCase c = (if 97 \<le> c \<and> c \<le> 122 then c - 32 else if 65 \<le> c \<and> c \<le> 90 then c + 32 else c)"

fun itemHas :: "citem \<Rightarrow> nat \<Rightarrow> bool" where
  "itemHas (CChar a) c = (c = a)"
| "itemHas (CRange a b) c = (a \<le> c \<and> c \<le> b)"
| "itemHas CSpace c = isSpace c"
| "itemHas CNotSpace c = (\<not> isSpace c)"
| "itemHas CDigit c = (48 \<le> c \<and> c \<le> 57)"

definition classHas :: "Flags \<Rightarrow> bool \<Rightarrow> citem list \<Rightarrow> nat \<Rightarrow> bool" where
  "classHas fg neg items c =
     (list_ex (\<lambda>it. itemHas it c \<or> (ignoreCase fg \<and> itemHas it (swapCase c))) items \<noteq> neg)"

fun groupsOf :: "re \<Rightarrow> nat list" where
  "groupsOf (RCat a b) = groupsOf a @ groupsOf b"
| "groupsOf (RAlt a b) = groupsOf a @ groupsOf b"
| "groupsOf (RRep a mn mx g) = groupsOf a"
| "groupsOf (RGrp i a) = i # groupsOf a"
| "groupsOf (RNeg a) = groupsOf a"
| "groupsOf r = []"

definition clearCaps :: "nat list \<Rightarrow> mstate \<Rightarrow> mstate" where
  "clearCaps gs x = St (pos x) (prev x) (rest x) (filter (\<lambda>(i, se). i \<notin> set gs) (caps x))"

definition setCap :: "nat \<Rightarrow> nat \<Rightarrow> mstate \<Rightarrow> mstate" where
  "setCap i s x = St (pos x) (prev x) (rest x) ((i, s, pos x) # filter (\<lambda>(j, se). j \<noteq> i) (caps x))"

definition atLineStart :: "Flags \<Rightarrow> mstate \<Rightarrow> bool" where
  "atLineStart fg x = (pos x = 0 \<or> (multiline fg \<and> (case prev x of None \<Rightarrow> False | Some c \<Rightarrow> isLineTerminator c)))"

definition atLineEnd :: "Flags \<Rightarrow> mstate \<Rightarrow> bool" where
  "atLineEnd fg x = (case rest x of [] \<Rightarrow> True | c # cs \<Rightarrow> multiline fg \<and> isLineTerminator c)"

text \<open>The measure of the termination proof: the input left, then the weight of the stack.\<close>

fun reSize :: "re \<Rightarrow> nat" where
  "reSize (RCat a b) = reSize a + reSize b + 1"
| "reSize (RAlt a b) = reSize a + reSize b + 1"
| "reSize (RRep a mn mx g) = (mn + 1) * (reSize a + 2)"
| "reSize (RGrp i a) = reSize a + 2"
| "reSize (RNeg a) = reSize a + 1"
| "reSize r = 1"

fun frameWeight :: "nat \<Rightarrow> frame \<Rightarrow> nat" where
  "frameWeight p (FRe r) = reSize r"
| "frameWeight p (FClose i s) = 1"
| "frameWeight p (FLoop q chk r) = (if chk \<and> p = q then 1 else reSize r + 1)"

definition stackWeight :: "nat \<Rightarrow> frame list \<Rightarrow> nat" where
  "stackWeight p k = sum_list (map (frameWeight p) k)"

definition decMax :: "nat option \<Rightarrow> nat option" where
  "decMax mx = (case mx of None \<Rightarrow> None | Some n \<Rightarrow> Some (n - 1))"

function matcher :: "Flags \<Rightarrow> frame list \<Rightarrow> mstate \<Rightarrow> mstate option" where
  "matcher fg [] x = Some x"
| "matcher fg (FRe (RChr c) # k) x =
     (case rest x of
        [] \<Rightarrow> None
      | d # ds \<Rightarrow> if canon fg d = canon fg c then matcher fg k (St (Suc (pos x)) (Some d) ds (caps x))
                  else None)"
| "matcher fg (FRe (RSet neg items) # k) x =
     (case rest x of
        [] \<Rightarrow> None
      | d # ds \<Rightarrow> if classHas fg neg items d then matcher fg k (St (Suc (pos x)) (Some d) ds (caps x))
                  else None)"
| "matcher fg (FRe RAny # k) x =
     (case rest x of
        [] \<Rightarrow> None
      | d # ds \<Rightarrow> if isLineTerminator d then None
                  else matcher fg k (St (Suc (pos x)) (Some d) ds (caps x)))"
| "matcher fg (FRe REps # k) x = matcher fg k x"
| "matcher fg (FRe (RCat a b) # k) x = matcher fg (FRe a # FRe b # k) x"
| "matcher fg (FRe (RAlt a b) # k) x =
     (case matcher fg (FRe a # k) x of Some y \<Rightarrow> Some y | None \<Rightarrow> matcher fg (FRe b # k) x)"
| "matcher fg (FRe (RRep a mn mx g) # k) x =
     (if mx = Some 0 then matcher fg k x
      else if 0 < mn
      then matcher fg (FRe a # FLoop (pos x) False (RRep a (mn - 1) (decMax mx) g) # k)
             (clearCaps (groupsOf a) x)
      else if g
      then (case matcher fg (FRe a # FLoop (pos x) True (RRep a 0 (decMax mx) g) # k)
                   (clearCaps (groupsOf a) x) of
              Some y \<Rightarrow> Some y
            | None \<Rightarrow> matcher fg k x)
      else (case matcher fg k x of
              Some y \<Rightarrow> Some y
            | None \<Rightarrow> matcher fg (FRe a # FLoop (pos x) True (RRep a 0 (decMax mx) g) # k)
                        (clearCaps (groupsOf a) x)))"
| "matcher fg (FRe (RGrp i a) # k) x = matcher fg (FRe a # FClose i (pos x) # k) x"
| "matcher fg (FRe (RNeg a) # k) x =
     (case matcher fg [FRe a] x of Some y \<Rightarrow> None | None \<Rightarrow> matcher fg k x)"
| "matcher fg (FRe RBol # k) x = (if atLineStart fg x then matcher fg k x else None)"
| "matcher fg (FRe REol # k) x = (if atLineEnd fg x then matcher fg k x else None)"
| "matcher fg (FClose i s # k) x = matcher fg k (setCap i s x)"
| "matcher fg (FLoop p chk r # k) x = (if chk \<and> pos x = p then None else matcher fg (FRe r # k) x)"
  by pat_completeness auto
termination
  by (relation "measures [\<lambda>(fg, k, x). length (rest x), \<lambda>(fg, k, x). stackWeight (pos x) k]")
     (auto simp: stackWeight_def clearCaps_def setCap_def)


lemma matcher_total_length:
  "matcher fg k x = Some y \<Longrightarrow> pos y + length (rest y) = pos x + length (rest x)"
  by (induction fg k x arbitrary: y rule: matcher.induct)
     (auto simp: clearCaps_def setCap_def split: list.splits if_splits option.splits)

lemma matcher_pos_mono: "matcher fg k x = Some y \<Longrightarrow> pos x \<le> pos y"
  by (induction fg k x arbitrary: y rule: matcher.induct)
     (auto simp: clearCaps_def setCap_def split: list.splits if_splits option.splits
           dest: Suc_leD)

text \<open>
  A match is the pair of the state it started in and the state it ended in; the matched text
  and the captured groups are read off the input of the start state.
\<close>

type_synonym rmatch = "mstate \<times> mstate"

definition matched :: "rmatch \<Rightarrow> jstring" where
  "matched mt = take (pos (snd mt) - pos (fst mt)) (rest (fst mt))"

definition group :: "nat \<Rightarrow> rmatch \<Rightarrow> jstring option" where
  "group i mt =
     (case map_of (caps (snd mt)) i of
        None \<Rightarrow> None
      | Some (a, b) \<Rightarrow> Some (take (b - a) (drop (a - pos (fst mt)) (rest (fst mt)))))"

definition matchAt :: "Flags \<Rightarrow> re \<Rightarrow> mstate \<Rightarrow> mstate option" where
  "matchAt fg r x = matcher fg [FRe r] (St (pos x) (prev x) (rest x) [])"

fun searchFrom :: "Flags \<Rightarrow> re \<Rightarrow> nat \<Rightarrow> nat option \<Rightarrow> jstring \<Rightarrow> rmatch option" where
  "searchFrom fg r p pr [] =
     (case matchAt fg r (St p pr [] []) of
        Some y \<Rightarrow> Some (St p pr [] [], y)
      | None \<Rightarrow> None)"
| "searchFrom fg r p pr (d # ds) =
     (case matchAt fg r (St p pr (d # ds) []) of
        Some y \<Rightarrow> Some (St p pr (d # ds) [], y)
      | None \<Rightarrow> searchFrom fg r (Suc p) (Some d) ds)"

lemma matchAt_shorter:
  "matchAt fg r x = Some y \<Longrightarrow> pos y \<noteq> pos x \<Longrightarrow> length (rest y) < length (rest x)"
  using matcher_total_length [of fg "[FRe r]" "St (pos x) (prev x) (rest x) []" y]
        matcher_pos_mono [of fg "[FRe r]" "St (pos x) (prev x) (rest x) []" y]
  by (simp add: matchAt_def)

text \<open>
  The operations under the flag \<open>g\<close> walk the input: where the pattern matches, the match is
  taken and the walk goes on behind it (one unit further after an empty match); where it
  does not, the walk moves on by one unit, which \<open>replaceFrom\<close> copies to the output.
\<close>

function allFrom :: "Flags \<Rightarrow> re \<Rightarrow> mstate \<Rightarrow> rmatch list" where
  "allFrom fg r x =
     (case matchAt fg r x of
        Some y \<Rightarrow>
          (x, y) #
          (if pos y = pos x
           then (case rest x of [] \<Rightarrow> []
                 | d # ds \<Rightarrow> allFrom fg r (St (Suc (pos x)) (Some d) ds []))
           else allFrom fg r y)
      | None \<Rightarrow>
          (case rest x of [] \<Rightarrow> []
           | d # ds \<Rightarrow> allFrom fg r (St (Suc (pos x)) (Some d) ds [])))"
  by pat_completeness auto
termination
  by (relation "measure (\<lambda>(fg, r, x). length (rest x))") (auto dest: matchAt_shorter)

function replaceFrom :: "Flags \<Rightarrow> re \<Rightarrow> (rmatch \<Rightarrow> jstring) \<Rightarrow> mstate \<Rightarrow> jstring" where
  "replaceFrom fg r f x =
     (case matchAt fg r x of
        Some y \<Rightarrow>
          f (x, y) @
          (if pos y = pos x
           then (case rest x of [] \<Rightarrow> []
                 | d # ds \<Rightarrow> d # replaceFrom fg r f (St (Suc (pos x)) (Some d) ds []))
           else replaceFrom fg r f y)
      | None \<Rightarrow>
          (case rest x of [] \<Rightarrow> []
           | d # ds \<Rightarrow> d # replaceFrom fg r f (St (Suc (pos x)) (Some d) ds [])))"
  by pat_completeness auto
termination
  by (relation "measure (\<lambda>(fg, r, f, x). length (rest x))") (auto dest: matchAt_shorter)



declare allFrom.simps [simp del]
declare replaceFrom.simps [simp del]

definition start :: "jstring \<Rightarrow> mstate" where
  "start s = St 0 None s []"

text \<open>\<open>s.replace(/r/g, f)\<close>, \<open>s.replace(/r/, f)\<close>, \<open>s.match(/r/)\<close>, \<open>s.matchAll(/r/g)\<close>, \<open>/r/.test(s)\<close>.\<close>

definition replaceAll :: "Flags \<Rightarrow> re \<Rightarrow> (rmatch \<Rightarrow> jstring) \<Rightarrow> jstring \<Rightarrow> jstring" where
  "replaceAll fg r f s = replaceFrom fg r f (start s)"

definition firstMatch :: "Flags \<Rightarrow> re \<Rightarrow> jstring \<Rightarrow> rmatch option" where
  "firstMatch fg r s = searchFrom fg r 0 None s"

definition replaceFirst :: "Flags \<Rightarrow> re \<Rightarrow> (rmatch \<Rightarrow> jstring) \<Rightarrow> jstring \<Rightarrow> jstring" where
  "replaceFirst fg r f s =
     (case firstMatch fg r s of
        None \<Rightarrow> s
      | Some mt \<Rightarrow> take (pos (fst mt)) s @ f mt @ rest (snd mt))"

definition allMatches :: "Flags \<Rightarrow> re \<Rightarrow> jstring \<Rightarrow> rmatch list" where
  "allMatches fg r s = allFrom fg r (start s)"

definition test :: "Flags \<Rightarrow> re \<Rightarrow> jstring \<Rightarrow> bool" where
  "test fg r s = (case firstMatch fg r s of None \<Rightarrow> False | Some mt \<Rightarrow> True)"

text \<open>A replacement string \<open>$i\<close>: the text of group \<open>i\<close>, empty when the group took no part.\<close>

definition groupOrEmpty :: "nat \<Rightarrow> rmatch \<Rightarrow> jstring" where
  "groupOrEmpty i mt = (case group i mt of None \<Rightarrow> [] | Some g \<Rightarrow> g)"

definition trim :: "jstring \<Rightarrow> jstring" where
  "trim s = rev (dropWhile isSpace (rev (dropWhile isSpace s)))"

text \<open>Shorthands for writing patterns down.\<close>

definition seq :: "re list \<Rightarrow> re" where
  "seq rs = foldr RCat rs REps"

definition lit :: "string \<Rightarrow> re" where
  "lit s = seq (map (\<lambda>c. RChr (of_char c)) s)"

definition star :: "re \<Rightarrow> re" where
  "star r = RRep r 0 None True"

definition oneOrMore :: "re \<Rightarrow> re" where
  "oneOrMore r = RRep r 1 None True"

definition lazyStar :: "re \<Rightarrow> re" where
  "lazyStar r = RRep r 0 None False"

definition opt :: "re \<Rightarrow> re" where
  "opt r = RRep r 0 (Some 1) True"

definition oneOf :: "string \<Rightarrow> re" where
  "oneOf s = RSet False (map (\<lambda>c. CChar (of_char c)) s)"

definition noneOf :: "string \<Rightarrow> re" where
  "noneOf s = RSet True (map (\<lambda>c. CChar (of_char c)) s)"

definition ws :: re where
  "ws = RSet False [CSpace]"

definition anyUnit :: re where
  "anyUnit = RSet False [CSpace, CNotSpace]"

definition noFlags :: Flags where
  "noFlags = \<lparr>ignoreCase = False, multiline = False\<rparr>"

definition iFlag :: Flags where
  "iFlag = \<lparr>ignoreCase = True, multiline = False\<rparr>"

definition mFlag :: Flags where
  "mFlag = \<lparr>ignoreCase = False, multiline = True\<rparr>"


section \<open>The data model\<close>

text \<open>
  The declarations of \<open>BlockField\<close> and \<open>BlockAnalysis\<close> (\<open>interfaces.ts\<close>, \<open>types.ts\<close>) are
  read off the object literals that build them.  Of an analysis, the components the
  confidence scorer, the matcher and the field deriver read or write are kept: block type,
  block name, content structure and the signal bag under \<open>debug\<close>.  An optional property is
  an \<open>option\<close>.
\<close>

record BlockField =
  name :: jstring
  label :: jstring
  component :: jstring
  valueType :: jstring
  required :: bool
  maxLength :: "nat option"
  description :: "jstring option"

datatype CtaType = button | link

record SemanticCta =
  ctaText :: jstring
  href :: "jstring option"
  ctaType :: CtaType

record CodeSignals =
  repeatedContainerNames :: "(jstring \<times> nat) list"
  distinctHeadings :: "jstring list"
  actionButtonCount :: nat
  itemLikeContainerCount :: nat
  multiItemLikely :: bool
  semanticCtas :: "SemanticCta list option"

datatype BlockType = single | multi_item

datatype JsPattern = cards | carousel | decorated

record ContentStructure =
  containerFields :: "BlockField list"
  itemFields :: "BlockField list option"
  configurationOptions :: "jstring list"
  jsPattern :: JsPattern

record Debug =
  codeSignals :: "CodeSignals option"

record BlockAnalysis =
  blockType :: BlockType
  blockName :: jstring
  contentStructure :: ContentStructure
  debug :: "Debug option"

record ConfidenceScore =
  overall :: int
  blockTypeScore :: int
  fieldExtractionScore :: int
  reasons :: "jstring list"
  suggestions :: "jstring list"

text \<open>\<open>analysis.debug?.codeSignals\<close>\<close>

definition debugCodeSignals :: "BlockAnalysis \<Rightarrow> CodeSignals option" where
  "debugCodeSignals analysis = (case debug analysis of None \<Rightarrow> None | Some d \<Rightarrow> codeSignals d)"


section \<open>The normalizer\<close>

text \<open>
  \<open>HTMLSimplifier\<close> (preprocessors/htmlSimplifier.ts).  Each pattern stands next to the
  regular expression literal of the source it transcribes.
\<close>

text \<open>\<^verbatim>\<open>/return\s*\(([\s\S]*)\);?\s*\}/\<close> and \<^verbatim>\<open>/<div[\s\S]*<\/div>/\<close>\<close>

definition returnStatement :: re where
  "returnStatement =
     seq [lit ''return'', star ws, lit ''('', RGrp 1 (star anyUnit), lit '')'', opt (lit '';''),
          star ws, lit ''}'']"

definition outerDiv :: re where
  "outerDiv = seq [lit ''<div'', star anyUnit, lit ''</div>'']"

definition extractJSX :: "jstring \<Rightarrow> jstring" where
  "extractJSX code =
     (case firstMatch noFlags returnStatement code of
        Some mt \<Rightarrow> trim (groupOrEmpty 1 mt)
      | None \<Rightarrow>
          (case firstMatch noFlags outerDiv code of
             Some mt \<Rightarrow> matched mt
           | None \<Rightarrow> code))"

text \<open>\<^verbatim>\<open>/className=/g\<close>, \<^verbatim>\<open>/\{\`([^`]+)\`\}/g\<close> and \<^verbatim>\<open>/src=\{img[^}]+\}/g\<close>\<close>

definition templateLiteral :: re where
  "templateLiteral = seq [lit ''{`'', RGrp 1 (oneOrMore (noneOf ''`'')), lit ''`}'']"

definition imageVariable :: re where
  "imageVariable = seq [lit ''src={img'', oneOrMore (noneOf ''}''), lit ''}'']"

definition convertReactToHTML :: "jstring \<Rightarrow> jstring" where
  "convertReactToHTML html =
     replaceAll noFlags imageVariable (\<lambda>mt. str ''src=\"\"'')
       (replaceAll noFlags templateLiteral (groupOrEmpty 1)
         (replaceAll noFlags (lit ''className='') (\<lambda>mt. str ''class='') html))"

text \<open>\<^verbatim>\<open>/\s+class="[^"]*"/g\<close>\<close>

definition classAttribute :: re where
  "classAttribute = seq [oneOrMore ws, lit ''class=\"'', star (noneOf ''\"''), lit ''\"'']"

definition removeClassAttributes :: "jstring \<Rightarrow> jstring" where
  "removeClassAttributes html = replaceAll noFlags classAttribute (\<lambda>mt. []) html"

text \<open>\<^verbatim>\<open>/\s+style=\{[^}]+\}/g\<close> and \<^verbatim>\<open>/\s+style="[^"]*"/g\<close>\<close>

definition styleObject :: re where
  "styleObject = seq [oneOrMore ws, lit ''style={'', oneOrMore (noneOf ''}''), lit ''}'']"

definition styleAttribute :: re where
  "styleAttribute = seq [oneOrMore ws, lit ''style=\"'', star (noneOf ''\"''), lit ''\"'']"

definition removeInlineStyles :: "jstring \<Rightarrow> jstring" where
  "removeInlineStyles html =
     replaceAll noFlags styleAttribute (\<lambda>mt. [])
       (replaceAll noFlags styleObject (\<lambda>mt. []) html)"

text \<open>
  \<^verbatim>\<open>/<div(?![^>]*data-name)([^>]*)>\s*(<div[^>]*data-name=[^>]*>[\s\S]*?<\/div>)\s*<\/div>/g\<close>
  and
  \<^verbatim>\<open>/<div(?![^>]*data-name)([^>]*)>\s*(<(?:p|img|div\s+data-name)[^>]*>[\s\S]*?<\/(?:p|div)>)\s*<\/div>/g\<close>,
  the first applied five times and the second three times.
\<close>

definition namedDivWrapper :: re where
  "namedDivWrapper =
     seq [lit ''<div'', RNeg (seq [star (noneOf ''>''), lit ''data-name'']),
          RGrp 1 (star (noneOf ''>'')), lit ''>'', star ws,
          RGrp 2 (seq [lit ''<div'', star (noneOf ''>''), lit ''data-name='', star (noneOf ''>''),
                       lit ''>'', lazyStar anyUnit, lit ''</div>'']),
          star ws, lit ''</div>'']"

definition semanticWrapper :: re where
  "semanticWrapper =
     seq [lit ''<div'', RNeg (seq [star (noneOf ''>''), lit ''data-name'']),
          RGrp 1 (star (noneOf ''>'')), lit ''>'', star ws,
          RGrp 2 (seq [lit ''<'',
                       RAlt (lit ''p'') (RAlt (lit ''img'')
                         (seq [lit ''div'', oneOrMore ws, lit ''data-name''])),
                       star (noneOf ''>''), lit ''>'', lazyStar anyUnit,
                       lit ''</'', RAlt (lit ''p'') (lit ''div''), lit ''>'']),
          star ws, lit ''</div>'']"

definition collapseNamed :: "jstring \<Rightarrow> jstring" where
  "collapseNamed html = replaceAll noFlags namedDivWrapper (groupOrEmpty 2) html"

definition collapseSemantic :: "jstring \<Rightarrow> jstring" where
  "collapseSemantic html = replaceAll noFlags semanticWrapper (groupOrEmpty 2) html"

definition collapseLayoutWrappers :: "jstring \<Rightarrow> jstring" where
  "collapseLayoutWrappers html =
     collapseSemantic (collapseSemantic (collapseSemantic
       (collapseNamed (collapseNamed (collapseNamed (collapseNamed (collapseNamed html)))))))"

text \<open>
  \<^verbatim>\<open>/<div([^>]*data-name="Icon"[^>]*)>([\s\S]*?)<\/div>/g\<close>, the same for \<open>Image\<close>, with the
  callback that keeps the first \<^verbatim>\<open>/<img[^>]*>/\<close> of the content; then
  \<^verbatim>\<open>/<div[^>]*data-name="Vector"[^>]*>([\s\S]*?)<\/div>/g\<close>.
\<close>

definition namedContainer :: "string \<Rightarrow> re" where
  "namedContainer n =
     seq [lit ''<div'',
          RGrp 1 (seq [star (noneOf ''>''), lit ''data-name=\"'', lit n, lit ''\"'',
                       star (noneOf ''>'')]),
          lit ''>'', RGrp 2 (lazyStar anyUnit), lit ''</div>'']"

definition imgTag :: re where
  "imgTag = seq [lit ''<img'', star (noneOf ''>''), lit ''>'']"

definition firstImage :: "rmatch \<Rightarrow> jstring" where
  "firstImage mt =
     (case firstMatch noFlags imgTag (groupOrEmpty 2 mt) of
        Some imgMatch \<Rightarrow>
          str ''<div'' @ groupOrEmpty 1 mt @ str ''>'' @ matched imgMatch @ str ''</div>''
      | None \<Rightarrow> matched mt)"

definition vectorWrapper :: re where
  "vectorWrapper =
     seq [lit ''<div'', star (noneOf ''>''), lit ''data-name=\"Vector\"'', star (noneOf ''>''),
          lit ''>'', RGrp 1 (lazyStar anyUnit), lit ''</div>'']"

definition simplifyImages :: "jstring \<Rightarrow> jstring" where
  "simplifyImages html =
     replaceAll noFlags vectorWrapper (groupOrEmpty 1)
       (replaceAll noFlags (namedContainer ''Image'') firstImage
         (replaceAll noFlags (namedContainer ''Icon'') firstImage html))"

text \<open>
  \<^verbatim>\<open>/\s{2,}/g\<close>, \<^verbatim>\<open>/>\s+</g\<close>, \<open>trim\<close>, \<^verbatim>\<open>/<\/div>/g\<close> and \<^verbatim>\<open>/\n{3,}/g\<close>
\<close>

definition normalizeWhitespace :: "jstring \<Rightarrow> jstring" where
  "normalizeWhitespace html =
     replaceAll noFlags (RRep (RChr 10) 3 None True) (\<lambda>mt. [10, 10])
       (replaceAll noFlags (lit ''</div>'') (\<lambda>mt. str ''</div>'' @ [10])
         (trim
           (replaceAll noFlags (seq [lit ''>'', oneOrMore ws, lit ''<'']) (\<lambda>mt. str ''><'')
             (replaceAll noFlags (RRep ws 2 None True) (\<lambda>mt. str '' '') html))))"

definition simplify :: "jstring \<Rightarrow> jstring" where
  "simplify reactCode =
     normalizeWhitespace (simplifyImages (collapseLayoutWrappers (removeInlineStyles
       (removeClassAttributes (convertReactToHTML (extractJSX reactCode))))))"


section \<open>The analyzer: signals and classification\<close>

text \<open>
  \<open>DesignAnalyzer\<close> (figma/designAnalyzer.ts).  \<open>sanitizeBlockName\<close> applies
  \<^verbatim>\<open>/[^a-z0-9\s-]/g\<close>, \<^verbatim>\<open>/\s+/g\<close>, \<^verbatim>\<open>/-+/g\<close> and \<^verbatim>\<open>/^-|-$/g\<close> to the lowered name.
\<close>

definition nameUnit :: re where
  "nameUnit = RSet True [CRange 97 122, CRange 48 57, CSpace, CChar 45]"

definition edgeHyphen :: re where
  "edgeHyphen = RAlt (RCat RBol (RChr 45)) (RCat (RChr 45) REol)"

definition sanitizeBlockName :: "(jstring \<Rightarrow> jstring) \<Rightarrow> jstring \<Rightarrow> jstring" where
  "sanitizeBlockName lc name' =
     replaceAll noFlags edgeHyphen (\<lambda>mt. [])
       (replaceAll noFlags (oneOrMore (RChr 45)) (\<lambda>mt. [45])
         (replaceAll noFlags (oneOrMore ws) (\<lambda>mt. [45])
           (replaceAll noFlags nameUnit (\<lambda>mt. []) (lc name'))))"

text \<open>
  \<open>parseCodeSignals\<close>.  The container-name patterns are compiled from strings: every space of
  a name is replaced by the string literal \<^verbatim>\<open>'[\"\'\-\s]*'\<close>, in which \<^verbatim>\<open>\-\<close> and \<^verbatim>\<open>\s\<close> are
  no escapes, so the compiled class is \<^verbatim>\<open>["'-s]\<close>: the double quote (34) and the range from
  the apostrophe (39) to \<open>s\<close> (115).
\<close>

definition containerNamePatterns :: "string list" where
  "containerNamePatterns =
     [''accordion item'', ''card'', ''service item'', ''plan card'', ''pricing card'',
      ''tab item'', ''carousel item'', ''gallery item'']"

definition containerNameRegex :: "string \<Rightarrow> re" where
  "containerNameRegex p =
     seq (map (\<lambda>c. if c = CHR '' '' then star (RSet False [CChar 34, CRange 39 115])
                    else RChr (of_char c)) p)"

definition countContainerNames :: "jstring \<Rightarrow> (jstring \<times> nat) list" where
  "countContainerNames code =
     concat (map (\<lambda>p. let n = length (allMatches noFlags (containerNameRegex p) code)
                       in if 0 < n then [(str p, n)] else [])
                 containerNamePatterns)"

text \<open>
  \<open>quoteMark\<close> is the class \<^verbatim>\<open>["']\<close> and \<open>nonQuote\<close> the class \<^verbatim>\<open>[^"']\<close>.  The heading
  pattern is
  \<^verbatim>\<open>/<h[1-6][^>]*>(.*?)<\/h[1-6]>|class=["'][^"']*(?:font-bold|text-xl|text-2xl|heading)[^"']*["'][^>]*>(.*?)<\//g\<close>
  and tags are stripped by \<^verbatim>\<open>/<[^>]+>/g\<close>.
\<close>

definition quoteMark :: re where
  "quoteMark = RSet False [CChar 34, CChar 39]"

definition nonQuote :: re where
  "nonQuote = RSet True [CChar 34, CChar 39]"

definition headingPattern :: re where
  "headingPattern =
     RAlt (seq [lit ''<h'', RSet False [CRange 49 54], star (noneOf ''>''), lit ''>'',
                RGrp 1 (lazyStar RAny), lit ''</h'', RSet False [CRange 49 54], lit ''>''])
          (seq [lit ''class='', quoteMark, star nonQuote,
                RAlt (lit ''font-bold'') (RAlt (lit ''text-xl'')
                  (RAlt (lit ''text-2xl'') (lit ''heading''))),
                star nonQuote, quoteMark, star (noneOf ''>''), lit ''>'',
                RGrp 2 (lazyStar RAny), lit ''</''])"

definition tagPattern :: re where
  "tagPattern = seq [lit ''<'', oneOrMore (noneOf ''>''), lit ''>'']"

definition stripTags :: "jstring \<Rightarrow> jstring" where
  "stripTags s = replaceAll noFlags tagPattern (\<lambda>mt. []) s"

text \<open>\<open>m[1] || m[2] || ''\<close>: the first of the two groups that took part and is not empty.\<close>

definition headingGroup :: "rmatch \<Rightarrow> jstring" where
  "headingGroup mt = (if groupOrEmpty 1 mt \<noteq> [] then groupOrEmpty 1 mt else groupOrEmpty 2 mt)"

definition headingTexts :: "jstring \<Rightarrow> jstring list" where
  "headingTexts code =
     concat (map (\<lambda>mt. let text' = trim (stripTags (headingGroup mt))
                        in if text' \<noteq> [] \<and> length text' \<le> 60 then [text'] else [])
                 (allMatches noFlags headingPattern code))"

text \<open>\<open>Array.from(new Set(xs))\<close>: the first occurrence of each element, in order.\<close>

fun distinctInOrder :: "'a list \<Rightarrow> 'a list \<Rightarrow> 'a list" where
  "distinctInOrder seen [] = []"
| "distinctInOrder seen (x # xs) =
     (if x \<in> set seen then distinctInOrder seen xs else x # distinctInOrder (x # seen) xs)"

text \<open>
  The action-button pattern of a keyword \<open>k\<close>:
  \<^verbatim>\<open><button[^>]*>[^<]*k[^<]*<|<a[^>]*>[^<]*k[^<]*<\<close>
\<close>

definition actionKeywords :: "string list" where
  "actionKeywords =
     [''add'', ''edit'', ''remove'', ''delete'', ''view'', ''upgrade'', ''select'', ''choose'',
      ''learn more'', ''subscribe'', ''sign up'']"

definition actionPattern :: "string \<Rightarrow> re" where
  "actionPattern k =
     RAlt (seq [lit ''<button'', star (noneOf ''>''), lit ''>'', star (noneOf ''<''), lit k,
                star (noneOf ''<''), lit ''<''])
          (seq [lit ''<a'', star (noneOf ''>''), lit ''>'', star (noneOf ''<''), lit k,
                star (noneOf ''<''), lit ''<''])"

definition countActionButtons :: "jstring \<Rightarrow> nat" where
  "countActionButtons code =
     sum_list (map (\<lambda>k. length (allMatches noFlags (actionPattern k) code)) actionKeywords)"

text \<open>
  The semantic CTAs.  \<^verbatim>\<open>/<button[^>]*>(.*?)<\/button>/g\<close> and
  \<^verbatim>\<open>/<a[^>]*href=["']([^"']+)["'][^>]*>(.*?)<\/a>/g\<close> run on the lowered code,
  \<^verbatim>\<open>/<div[^>]*data-name=["']Button["'][^>]*>([\s\S]*?)<\/div>/g\<close> on the code as given, with
  \<^verbatim>\<open>/<p[^>]*>(.*?)<\/p>/i\<close>, \<^verbatim>\<open>/<span[^>]*>(.*?)<\/span>/i\<close> and \<^verbatim>\<open>/>([^<>]{1,100})</\<close>
  for its text.
\<close>

definition buttonPattern :: re where
  "buttonPattern =
     seq [lit ''<button'', star (noneOf ''>''), lit ''>'', RGrp 1 (lazyStar RAny),
          lit ''</button>'']"

definition buttonCta :: "rmatch \<Rightarrow> SemanticCta list" where
  "buttonCta mt =
     (let text' = trim (stripTags (groupOrEmpty 1 mt))
      in if text' \<noteq> [] \<and> length text' \<le> 100
         then [\<lparr>ctaText = text', href = None, ctaType = button\<rparr>] else [])"

definition linkPattern :: re where
  "linkPattern =
     seq [lit ''<a'', star (noneOf ''>''), lit ''href='', quoteMark,
          RGrp 1 (oneOrMore nonQuote), quoteMark, star (noneOf ''>''), lit ''>'',
          RGrp 2 (lazyStar RAny), lit ''</a>'']"

definition linkAdmitted :: "jstring \<Rightarrow> jstring \<Rightarrow> bool" where
  "linkAdmitted text' href' =
     (text' \<noteq> [] \<and> href' \<noteq> [] \<and> href' \<noteq> str ''#'' \<and> 1 < length href' \<and>
      \<not> startsWith href' (str ''javascript:'') \<and> length text' \<le> 100)"

definition linkCta :: "rmatch \<Rightarrow> SemanticCta list" where
  "linkCta mt =
     (let href' = groupOrEmpty 1 mt;
          text' = trim (stripTags (groupOrEmpty 2 mt))
      in if linkAdmitted text' href'
         then [\<lparr>ctaText = text', href = Some href', ctaType = link\<rparr>] else [])"

definition divButtonPattern :: re where
  "divButtonPattern =
     seq [lit ''<div'', star (noneOf ''>''), lit ''data-name='', quoteMark, lit ''Button'',
          quoteMark, star (noneOf ''>''), lit ''>'', RGrp 1 (lazyStar anyUnit),
          lit ''</div>'']"

definition paragraphPattern :: re where
  "paragraphPattern =
     seq [lit ''<p'', star (noneOf ''>''), lit ''>'', RGrp 1 (lazyStar RAny), lit ''</p>'']"

definition spanPattern :: re where
  "spanPattern =
     seq [lit ''<span'', star (noneOf ''>''), lit ''>'', RGrp 1 (lazyStar RAny), lit ''</span>'']"

definition bareTextPattern :: re where
  "bareTextPattern = seq [lit ''>'', RGrp 1 (RRep (noneOf ''<>'') 1 (Some 100) True), lit ''<'']"

definition divButtonText :: "jstring \<Rightarrow> rmatch option" where
  "divButtonText inner =
     (case firstMatch iFlag paragraphPattern inner of
        Some mt \<Rightarrow> Some mt
      | None \<Rightarrow>
          (case firstMatch iFlag spanPattern inner of
             Some mt \<Rightarrow> Some mt
           | None \<Rightarrow> firstMatch noFlags bareTextPattern inner))"

definition divButtonCta :: "rmatch \<Rightarrow> SemanticCta list" where
  "divButtonCta mt =
     (case divButtonText (groupOrEmpty 1 mt) of
        None \<Rightarrow> []
      | Some textMatch \<Rightarrow>
          (let rawText = trim (stripTags (groupOrEmpty 1 textMatch))
           in if rawText \<noteq> [] \<and> length rawText \<le> 100
              then [\<lparr>ctaText = rawText, href = None, ctaType = button\<rparr>] else []))"

definition collectCtas :: "jstring \<Rightarrow> jstring \<Rightarrow> SemanticCta list" where
  "collectCtas rawCode code =
     concat (map buttonCta (allMatches noFlags buttonPattern code)) @
     concat (map linkCta (allMatches noFlags linkPattern code)) @
     concat (map divButtonCta (allMatches noFlags divButtonPattern rawCode))"

text \<open>The filter with the set \<open>seen\<close> of lowered texts.\<close>

fun dedupCtas :: "(jstring \<Rightarrow> jstring) \<Rightarrow> jstring list \<Rightarrow> SemanticCta list \<Rightarrow> SemanticCta list" where
  "dedupCtas lc seen [] = []"
| "dedupCtas lc seen (c # cs) =
     (if lc (ctaText c) \<in> set seen then dedupCtas lc seen cs
      else c # dedupCtas lc (lc (ctaText c) # seen) cs)"

text \<open>
  \<^verbatim>\<open>/data-name=("|')(accordion item|card|service item|plan card)("|')/g\<close>,
  \<^verbatim>\<open>/data-name=["']container["']/g\<close>, \<^verbatim>\<open>/data-name=["']heading(?: \d+)?["']/g\<close> and the
  bullet pattern, a bullet sign (code unit 8226) followed by \<^verbatim>\<open>\s+[a-z0-9]\<close>.
\<close>

definition itemLikePattern :: re where
  "itemLikePattern =
     seq [lit ''data-name='', RGrp 1 (RAlt (RChr 34) (RChr 39)),
          RGrp 2 (RAlt (lit ''accordion item'') (RAlt (lit ''card'')
                   (RAlt (lit ''service item'') (lit ''plan card'')))),
          RGrp 3 (RAlt (RChr 34) (RChr 39))]"

definition genericContainerPattern :: re where
  "genericContainerPattern = seq [lit ''data-name='', quoteMark, lit ''container'', quoteMark]"

definition smallHeadingPattern :: re where
  "smallHeadingPattern =
     seq [lit ''data-name='', quoteMark, lit ''heading'',
          opt (seq [lit '' '', oneOrMore (RSet False [CDigit])]), quoteMark]"

definition bulletPattern :: re where
  "bulletPattern = seq [RChr 8226, oneOrMore ws, RSet False [CRange 97 122, CRange 48 57]]"

definition genericContainerCount :: "jstring \<Rightarrow> nat" where
  "genericContainerCount code = length (allMatches noFlags genericContainerPattern code)"

definition smallHeadingCount :: "jstring \<Rightarrow> nat" where
  "smallHeadingCount code = length (allMatches noFlags smallHeadingPattern code)"

definition bulletCount :: "jstring \<Rightarrow> nat" where
  "bulletCount code = length (allMatches noFlags bulletPattern code)"

definition genericContainerMultiItemSignal :: "jstring \<Rightarrow> bool" where
  "genericContainerMultiItemSignal code =
     (2 \<le> genericContainerCount code \<and> (2 \<le> smallHeadingCount code \<or> 4 \<le> bulletCount code))"

definition hasRepeatedContainers :: "(jstring \<times> nat) list \<Rightarrow> bool" where
  "hasRepeatedContainers names = list_ex (\<lambda>(n, c). 2 \<le> c) names"

definition emptySignals :: CodeSignals where
  "emptySignals =
     \<lparr>repeatedContainerNames = [], distinctHeadings = [], actionButtonCount = 0,
      itemLikeContainerCount = 0, multiItemLikely = False, semanticCtas = Some []\<rparr>"

definition parseCodeSignals :: "(jstring \<Rightarrow> jstring) \<Rightarrow> jstring option \<Rightarrow> CodeSignals" where
  "parseCodeSignals lc rawCode =
     (case rawCode of
        None \<Rightarrow> emptySignals
      | Some raw \<Rightarrow>
          if length raw < 40 then emptySignals
          else
            (let code = lc raw;
                 names = countContainerNames code;
                 headings = distinctInOrder [] (headingTexts code);
                 itemLike = length (allMatches noFlags itemLikePattern code)
             in \<lparr>repeatedContainerNames = names,
                 distinctHeadings = headings,
                 actionButtonCount = countActionButtons code,
                 itemLikeContainerCount = itemLike,
                 multiItemLikely =
                   (hasRepeatedContainers names \<or> 2 \<le> length headings \<or> 2 \<le> itemLike \<or>
                    genericContainerMultiItemSignal code),
                 semanticCtas = Some (dedupCtas lc [] (collectCtas raw code))\<rparr>))"


section \<open>The analyzer: design nodes\<close>

text \<open>
  A design node (\<open>FigmaNode\<close>, declared in \<open>types.ts\<close>), with the properties the analyzer
  reads.  Numbers are rationals.  An absent \<open>children\<close> array is the empty list: every
  function below treats the two alike.  Nodes are compared by identity in the source
  (\<open>includes\<close>, \<open>Set\<close>, \<open>!==\<close>); node ids are unique within a document, so two nodes of one
  tree are the same object exactly when they are equal as values.
\<close>

record Style =
  fontSize :: "rat option"
  fontWeight :: "rat option"

record Box =
  boxWidth :: rat
  boxHeight :: rat

datatype FigmaNode =
  FigmaNode (nodeId: jstring) (nodeName: jstring) (nodeType: jstring)
    (children: "FigmaNode list") (characters: "jstring option") (style: "Style option")
    (fills: "jstring list option") (absoluteBoundingBox: "Box option") (backgroundColor: bool)

lemma child_size [termination_simp]: "c \<in> set (children n) \<Longrightarrow> size c < size n"
  by (cases n) (auto simp: less_Suc_eq_le dest: size_list_estimation' [where f = size and y = "size c"])

text \<open>\<open>x || 0\<close> on an optional number, and the font size and weight of a node.\<close>

definition fontSizeOr0 :: "FigmaNode \<Rightarrow> rat" where
  "fontSizeOr0 n =
     (case style n of None \<Rightarrow> 0 | Some s \<Rightarrow> (case fontSize s of None \<Rightarrow> 0 | Some v \<Rightarrow> v))"

definition fontWeightOr400 :: "FigmaNode \<Rightarrow> rat" where
  "fontWeightOr400 n =
     (case style n of
        None \<Rightarrow> 400
      | Some s \<Rightarrow> (case fontWeight s of None \<Rightarrow> 400 | Some v \<Rightarrow> (if v = 0 then 400 else v)))"

definition charactersOrEmpty :: "FigmaNode \<Rightarrow> jstring" where
  "charactersOrEmpty n = (case characters n of None \<Rightarrow> [] | Some c \<Rightarrow> c)"

definition isContainerType :: "FigmaNode \<Rightarrow> bool" where
  "isContainerType n =
     (nodeType n = str ''FRAME'' \<or> nodeType n = str ''GROUP'' \<or> nodeType n = str ''COMPONENT'')"

fun findAllTextNodes :: "FigmaNode \<Rightarrow> FigmaNode list" where
  "findAllTextNodes n =
     (if nodeType n = str ''TEXT'' then [n] else []) @ concat (map findAllTextNodes (children n))"

declare findAllTextNodes.simps [simp del]

fun hasTextChild :: "FigmaNode \<Rightarrow> bool" where
  "hasTextChild n = (nodeType n = str ''TEXT'' \<or> list_ex hasTextChild (children n))"

declare hasTextChild.simps [simp del]

text \<open>
  \<open>findAllImageNodes\<close> walks the tree with two accumulators, the image nodes found and the
  set of icon parents.
\<close>

record ImageAcc =
  imageNodes :: "FigmaNode list"
  iconParentSet :: "FigmaNode list"

definition isVectorType :: "FigmaNode \<Rightarrow> bool" where
  "isVectorType n = (nodeType n = str ''VECTOR'' \<or> nodeType n = str ''BOOLEAN_OPERATION'')"

definition visitImage ::
  "(jstring \<Rightarrow> jstring) \<Rightarrow> FigmaNode \<Rightarrow> FigmaNode option \<Rightarrow> ImageAcc \<Rightarrow> ImageAcc" where
  "visitImage lc n parent acc =
     (let lname = lc (nodeName n);
          a1 = (if nodeType n = str ''RECTANGLE'' \<and>
                   (case fills n of None \<Rightarrow> False | Some fs \<Rightarrow> list_ex (\<lambda>f. f = str ''IMAGE'') fs)
                then acc\<lparr>imageNodes := imageNodes acc @ [n]\<rparr> else acc);
          a2 = (if isVectorType n \<and>
                   (case parent of None \<Rightarrow> True | Some p \<Rightarrow> p \<notin> set (iconParentSet a1))
                then a1\<lparr>imageNodes := imageNodes a1 @ [n]\<rparr> else a1);
          a3 = (if (nodeType n = str ''COMPONENT'' \<or> nodeType n = str ''INSTANCE'') \<and>
                   nodeName n \<noteq> [] \<and>
                   (str_includes lname (str ''icon'') \<or> str_includes lname (str ''image'') \<or>
                    str_includes lname (str ''logo'') \<or> str_includes lname (str ''svg'') \<or>
                    str_includes lname (str ''graphic''))
                then a2\<lparr>imageNodes := imageNodes a2 @ [n],
                        iconParentSet := iconParentSet a2 @ [n]\<rparr> else a2);
          a4 = (if (nodeType n = str ''FRAME'' \<or> nodeType n = str ''GROUP'') \<and>
                   nodeName n \<noteq> [] \<and>
                   (str_includes lname (str ''icon'') \<or> str_includes lname (str ''image''))
                then a3\<lparr>imageNodes := imageNodes a3 @ [n],
                        iconParentSet := iconParentSet a3 @ [n]\<rparr> else a3)
      in (case children n of
            [child] \<Rightarrow>
              (case absoluteBoundingBox n of
                 None \<Rightarrow> a4
               | Some bounds \<Rightarrow>
                   if (nodeType n = str ''FRAME'' \<or> nodeType n = str ''GROUP'') \<and>
                      isVectorType child \<and> boxWidth bounds \<le> 32 \<and> boxHeight bounds \<le> 32 \<and>
                      n \<notin> set (imageNodes a4)
                   then a4\<lparr>imageNodes := imageNodes a4 @ [n],
                           iconParentSet := iconParentSet a4 @ [n]\<rparr>
                   else a4)
          | cs \<Rightarrow> a4))"

fun traverseImages ::
  "(jstring \<Rightarrow> jstring) \<Rightarrow> FigmaNode \<Rightarrow> FigmaNode option \<Rightarrow> ImageAcc \<Rightarrow> ImageAcc" where
  "traverseImages lc n parent acc =
     fold (\<lambda>child a. traverseImages lc child (Some n) a) (children n) (visitImage lc n parent acc)"

declare traverseImages.simps [simp del]

definition findAllImageNodes :: "(jstring \<Rightarrow> jstring) \<Rightarrow> FigmaNode \<Rightarrow> FigmaNode list" where
  "findAllImageNodes lc node =
     imageNodes (traverseImages lc node None \<lparr>imageNodes = [], iconParentSet = []\<rparr>)"

text \<open>\<open>findAllButtonNodes\<close>.\<close>

definition buttonActionKeywords :: "jstring list" where
  "buttonActionKeywords =
     map str [''add'', ''edit'', ''remove'', ''delete'', ''view'', ''upgrade'', ''select'',
              ''choose'', ''learn more'', ''subscribe'', ''sign up'']"

definition serviceKeywords :: "jstring list" where
  "serviceKeywords =
     map str [''internet'', ''tv'', ''voice'', ''mobile'', ''offer'', ''special offer'',
              ''xfinity home offer'']"

definition includesAny :: "jstring \<Rightarrow> jstring list \<Rightarrow> bool" where
  "includesAny txt keywords = list_ex (\<lambda>k. str_includes txt k) keywords"

definition isButtonNode :: "(jstring \<Rightarrow> jstring) \<Rightarrow> FigmaNode \<Rightarrow> bool" where
  "isButtonNode lc n =
     (let lname = lc (nodeName n);
          nameCheck = (str_includes lname (str ''button'') \<or> str_includes lname (str ''cta''));
          frameCheck =
            (isContainerType n \<and> backgroundColor n \<and> hasTextChild n \<and>
             list_ex (\<lambda>t. let txt = lc (charactersOrEmpty t)
                          in includesAny txt buttonActionKeywords \<and> txt \<notin> set serviceKeywords)
                     (findAllTextNodes n))
      in nameCheck \<or> frameCheck)"

fun findAllButtonNodes :: "(jstring \<Rightarrow> jstring) \<Rightarrow> FigmaNode \<Rightarrow> FigmaNode list" where
  "findAllButtonNodes lc n =
     (if isButtonNode lc n then [n] else []) @ concat (map (findAllButtonNodes lc) (children n))"

declare findAllButtonNodes.simps [simp del]

definition extractButtonText :: "FigmaNode \<Rightarrow> jstring option" where
  "extractButtonText node =
     (case findAllTextNodes node of
        [] \<Rightarrow> None
      | t # ts \<Rightarrow> (if charactersOrEmpty t = [] then None else Some (charactersOrEmpty t)))"

text \<open>
  \<open>findItemContainerNodes\<close>: sibling item frames (\<open>findSiblingItemFrames\<close>) when there are at
  least two, else the candidate item containers (\<open>findCandidateItemContainers\<close>) without
  repetitions.
\<close>

fun collectParents :: "FigmaNode \<Rightarrow> FigmaNode list" where
  "collectParents n =
     (if 1 < length (children n) then [n] else []) @ concat (map collectParents (children n))"

declare collectParents.simps [simp del]

definition siblingActionKeywords :: "jstring list" where
  "siblingActionKeywords =
     map str [''add'', ''edit'', ''remove'', ''delete'', ''view'', ''learn more'', ''upgrade'',
              ''select'', ''choose'']"

definition qualifiesAsItemFrame :: "(jstring \<Rightarrow> jstring) \<Rightarrow> FigmaNode \<Rightarrow> bool" where
  "qualifiesAsItemFrame lc f =
     (let hasHeading = list_ex (\<lambda>t. 18 \<le> fontSizeOr0 t) (findAllTextNodes f);
          hasActionText =
            list_ex (\<lambda>t. includesAny (lc (charactersOrEmpty t)) siblingActionKeywords)
                    (findAllTextNodes f);
          hasButton = (0 < length (findAllButtonNodes lc f))
      in hasHeading \<and> (hasActionText \<or> hasButton))"

text \<open>\<open>qs.forEach(q => { if (!result.includes(q)) result.push(q) })\<close>\<close>

fun pushNew :: "'a list \<Rightarrow> 'a list \<Rightarrow> 'a list" where
  "pushNew result [] = result"
| "pushNew result (q # qs) = pushNew (if q \<in> set result then result else result @ [q]) qs"

definition findSiblingItemFrames :: "(jstring \<Rightarrow> jstring) \<Rightarrow> FigmaNode \<Rightarrow> FigmaNode list" where
  "findSiblingItemFrames lc rootNode =
     fold (\<lambda>parent result.
             let qualified = filter (qualifiesAsItemFrame lc)
                               (filter isContainerType (children parent))
             in if 2 \<le> length qualified then pushNew result qualified else result)
          (collectParents rootNode) []"

definition isCandidateContainer :: "(jstring \<Rightarrow> jstring) \<Rightarrow> FigmaNode \<Rightarrow> bool" where
  "isCandidateContainer lc n =
     (isContainerType n \<and> 0 < length (children n) \<and>
      (list_ex (\<lambda>c. nodeType c = str ''TEXT'' \<and> 18 \<le> fontSizeOr0 c) (children n) \<or>
       0 < length (findAllImageNodes lc n) \<or> 0 < length (findAllButtonNodes lc n)))"

fun collectCandidates :: "(jstring \<Rightarrow> jstring) \<Rightarrow> FigmaNode \<Rightarrow> FigmaNode list" where
  "collectCandidates lc n =
     (if isCandidateContainer lc n then [n] else []) @
     concat (map (collectCandidates lc) (children n))"

declare collectCandidates.simps [simp del]

text \<open>
  The size signature \<open>`${Math.round(width)}x${Math.round(height)}`\<close>, or \<open>nosize\<close>: two
  signatures are the same string exactly when the rounded numbers agree, so the pair of
  rounded numbers stands for the string.
\<close>

definition sizeSignature :: "FigmaNode \<Rightarrow> (int \<times> int) option" where
  "sizeSignature c =
     (case absoluteBoundingBox c of
        None \<Rightarrow> None
      | Some b \<Rightarrow> Some (Math_round (boxWidth b), Math_round (boxHeight b)))"

definition findCandidateItemContainers ::
  "(jstring \<Rightarrow> jstring) \<Rightarrow> FigmaNode \<Rightarrow> FigmaNode list" where
  "findCandidateItemContainers lc node =
     (let containers = collectCandidates lc node;
          signatures = distinctInOrder [] (map sizeSignature containers);
          groups = map (\<lambda>sig. filter (\<lambda>c. sizeSignature c = sig) containers) signatures
      in concat (filter (\<lambda>g. 2 \<le> length g) groups))"

definition findItemContainerNodes :: "(jstring \<Rightarrow> jstring) \<Rightarrow> FigmaNode \<Rightarrow> FigmaNode list" where
  "findItemContainerNodes lc rootNode =
     (let siblingGroups = findSiblingItemFrames lc rootNode
      in if 2 \<le> length siblingGroups then siblingGroups
         else pushNew [] (findCandidateItemContainers lc rootNode))"

text \<open>All nodes of a subtree, in the order the source's traversals visit them.\<close>

fun subtree :: "FigmaNode \<Rightarrow> FigmaNode list" where
  "subtree n = n # concat (map subtree (children n))"

declare subtree.simps [simp del]


section \<open>The analyzer: fields from the design nodes\<close>

text \<open>\<open>xs.map((x, index) => ...)\<close> and \<open>forEach\<close> with an index.\<close>

definition indexed :: "'a list \<Rightarrow> (nat \<times> 'a) list" where
  "indexed xs = zip [0..<length xs] xs"

datatype CtaRank = primary | secondary

record CTAButton =
  buttonText :: jstring
  rank :: CtaRank
  url :: jstring

definition rankOf :: "nat \<Rightarrow> CtaRank" where
  "rankOf i = (if i = 0 then primary else secondary)"

definition findMainHeading :: "FigmaNode list \<Rightarrow> FigmaNode option" where
  "findMainHeading textNodes =
     fold (\<lambda>node largest.
             let currentSize = fontSizeOr0 node;
                 largestSize = (case largest of None \<Rightarrow> 0 | Some l \<Rightarrow> fontSizeOr0 l)
             in if largestSize < currentSize then Some node else largest)
          textNodes None"

text \<open>
  \<^verbatim>\<open>/[\<bullet>\-*]\s+|^\d+\.\s+/m\<close> (the first class holds the bullet sign, the hyphen and
  the asterisk) and \<^verbatim>\<open>/^\d+\./\<close>; \<open>split('\n')\<close> cuts at every line feed.
\<close>

definition listMarkerPattern :: re where
  "listMarkerPattern =
     RAlt (seq [RSet False [CChar 8226, CChar 45, CChar 42], oneOrMore ws])
          (seq [RBol, oneOrMore (RSet False [CDigit]), RChr 46, oneOrMore ws])"

definition numberedPattern :: re where
  "numberedPattern = seq [RBol, oneOrMore (RSet False [CDigit]), RChr 46]"

fun splitLines :: "jstring \<Rightarrow> jstring list" where
  "splitLines [] = [[]]"
| "splitLines (c # cs) =
     (if c = 10 then [] # splitLines cs
      else (case splitLines cs of [] \<Rightarrow> [[c]] | l # ls \<Rightarrow> (c # l) # ls))"

fun joinLines :: "jstring list \<Rightarrow> jstring" where
  "joinLines [] = []"
| "joinLines [l] = l"
| "joinLines (l # m # ls) = l @ [10] @ joinLines (m # ls)"

definition longLines :: "jstring \<Rightarrow> jstring list" where
  "longLines allText = filter (\<lambda>line. 20 < length (trim line)) (splitLines allText)"

record TextContent =
  hasSimpleText :: bool
  hasRichText :: bool

definition findContainerTextContent :: "FigmaNode list \<Rightarrow> FigmaNode option \<Rightarrow> TextContent" where
  "findContainerTextContent textNodes mainHeading =
     (let otherTextNodes = filter (\<lambda>node. Some node \<noteq> mainHeading) textNodes
      in if otherTextNodes = [] then \<lparr>hasSimpleText = False, hasRichText = False\<rparr>
         else
           (let allText = joinLines (map charactersOrEmpty otherTextNodes);
                hasList = test mFlag listMarkerPattern allText;
                hasMultipleParagraphs = (1 < length (longLines allText));
                rich = (hasList \<or> hasMultipleParagraphs)
            in \<lparr>hasSimpleText = (\<not> rich \<and> 0 < length (trim allText)), hasRichText = rich\<rparr>))"

record StructuredText =
  hasList :: bool
  hasMultipleParagraphs :: bool
  hasSimpleContent :: bool

definition findStructuredTextContent :: "FigmaNode list \<Rightarrow> StructuredText" where
  "findStructuredTextContent textNodes =
     (let allText = joinLines (map charactersOrEmpty textNodes);
          listed =
            (test mFlag listMarkerPattern allText \<or>
             1 < length (filter (\<lambda>line. startsWith (trim line) [8226] \<or> startsWith (trim line) [45])
                           (splitLines allText)));
          multiple = (1 < length (longLines allText) \<and> \<not> listed)
      in \<lparr>hasList = listed, hasMultipleParagraphs = multiple,
          hasSimpleContent = (\<not> listed \<and> \<not> multiple \<and> 0 < length (trim allText))\<rparr>)"

definition findRepeatingHeadings :: "FigmaNode list \<Rightarrow> FigmaNode list" where
  "findRepeatingHeadings textNodes =
     filter (\<lambda>node.
               let txt = charactersOrEmpty node;
                   isLargerText = (14 < fontSizeOr0 node);
                   isBoldText = (500 \<le> fontWeightOr400 node);
                   isShortText = (length txt < 100);
                   isNotListItem = (\<not> startsWith txt [8226] \<and> \<not> startsWith txt [45] \<and>
                                    \<not> test noFlags numberedPattern txt)
               in (isLargerText \<or> isBoldText) \<and> isShortText \<and> isNotListItem)
            textNodes"

text \<open>The call-to-action buttons of the container and of the items.\<close>

definition semanticCtasOf :: "BlockAnalysis \<Rightarrow> SemanticCta list" where
  "semanticCtasOf analysis =
     (case debugCodeSignals analysis of
        None \<Rightarrow> []
      | Some cs \<Rightarrow> (case semanticCtas cs of None \<Rightarrow> [] | Some ctas \<Rightarrow> ctas))"

definition hrefOrHash :: "SemanticCta \<Rightarrow> jstring" where
  "hrefOrHash cta = (case href cta of None \<Rightarrow> str ''#'' | Some h \<Rightarrow> if h = [] then str ''#'' else h)"

definition fromSemantic :: "SemanticCta list \<Rightarrow> CTAButton list" where
  "fromSemantic ctas =
     map (\<lambda>(i, cta). \<lparr>buttonText = ctaText cta, rank = rankOf i, url = hrefOrHash cta\<rparr>)
         (indexed (take 2 ctas))"

definition loweredButtonText :: "(jstring \<Rightarrow> jstring) \<Rightarrow> FigmaNode \<Rightarrow> jstring" where
  "loweredButtonText lc b = (case extractButtonText b of None \<Rightarrow> [] | Some t \<Rightarrow> lc t)"

definition fromButtons :: "string \<Rightarrow> FigmaNode list \<Rightarrow> CTAButton list" where
  "fromButtons prefix buttons =
     map (\<lambda>(i, b). \<lparr>buttonText = (case extractButtonText b of
                                      None \<Rightarrow> str prefix @ decimal (i + 1)
                                    | Some t \<Rightarrow> t),
                      rank = rankOf i, url = str ''#''\<rparr>)
         (indexed (take 2 buttons))"

definition containerActionKeywords :: "jstring list" where
  "containerActionKeywords =
     map str [''add'', ''edit'', ''remove'', ''delete'', ''view'', ''upgrade'', ''select'',
              ''choose'', ''learn more'', ''subscribe'', ''sign up'', ''get started'']"

definition findContainerCTAs ::
  "(jstring \<Rightarrow> jstring) \<Rightarrow> FigmaNode list \<Rightarrow> BlockAnalysis \<Rightarrow> CTAButton list" where
  "findContainerCTAs lc buttonNodes analysis =
     (if 0 < length (semanticCtasOf analysis) then fromSemantic (semanticCtasOf analysis)
      else fromButtons ''CTA ''
             (filter (\<lambda>b. includesAny (loweredButtonText lc b) containerActionKeywords) buttonNodes))"

definition containerKeywords :: "jstring list" where
  "containerKeywords =
     map str [''view all'', ''see more'', ''get started'', ''learn more about us'', ''contact us'']"

definition itemActionKeywords :: "jstring list" where
  "itemActionKeywords =
     map str [''select'', ''choose'', ''add to cart'', ''buy now'', ''subscribe'', ''upgrade'',
              ''view details'']"

definition findItemCTAs ::
  "(jstring \<Rightarrow> jstring) \<Rightarrow> FigmaNode \<Rightarrow> BlockAnalysis \<Rightarrow> CTAButton list" where
  "findItemCTAs lc node analysis =
     (let itemSpecificCtas =
            filter (\<lambda>cta. \<not> includesAny (lc (ctaText cta)) containerKeywords)
                   (semanticCtasOf analysis)
      in if 0 < length itemSpecificCtas then fromSemantic itemSpecificCtas
         else fromButtons ''Item CTA ''
                (filter (\<lambda>b. includesAny (loweredButtonText lc b) itemActionKeywords)
                        (findAllButtonNodes lc node)))"

definition isCodeBasedListComponent :: "CodeSignals option \<Rightarrow> bool" where
  "isCodeBasedListComponent cso =
     (case cso of
        None \<Rightarrow> False
      | Some cs \<Rightarrow>
          (let hasNoCTAs = (case semanticCtas cs of None \<Rightarrow> True | Some ctas \<Rightarrow> ctas = []);
               hasListContainers =
                 list_ex (\<lambda>(n, c). str_includes n (str ''list'') \<or> str_includes n (str ''item''))
                         (repeatedContainerNames cs);
               hasMultipleHeadings = (2 \<le> length (distinctHeadings cs))
           in hasNoCTAs \<and> (hasListContainers \<or> hasMultipleHeadings)))"

text \<open>The fields.  A field is written as the object literal of the source.\<close>

definition field ::
  "jstring \<Rightarrow> jstring \<Rightarrow> string \<Rightarrow> bool \<Rightarrow> nat option \<Rightarrow> jstring option \<Rightarrow> BlockField" where
  "field n l c r m d =
     \<lparr>name = n, label = l, component = str c, valueType = str ''string'', required = r,
      maxLength = m, description = d\<rparr>"

definition imageBaseName :: "nat \<Rightarrow> jstring" where
  "imageBaseName i = (if i = 0 then str ''image'' else str ''image'' @ decimal i)"

definition imageFields :: "string \<Rightarrow> string \<Rightarrow> nat \<Rightarrow> BlockField list" where
  "imageFields labelPrefix desc i =
     [field (imageBaseName i) (str labelPrefix @ decimal (i + 1)) ''reference'' False None
        (Some (str desc)),
      field (imageBaseName i @ str ''Alt'') (str labelPrefix @ decimal (i + 1) @ str '' Alt Text'')
        ''text'' False (Some 150)
        (Some (str ''Alternative text for accessibility. Leave blank if decorative.''))]"

definition suffixOf :: "nat \<Rightarrow> string" where
  "suffixOf i = (if i = 0 then ''Primary'' else ''Secondary'')"

definition ctaFields :: "(jstring \<Rightarrow> jstring) \<Rightarrow> string \<Rightarrow> nat \<Rightarrow> BlockField list" where
  "ctaFields lc scope i =
     [field (lc (str (suffixOf i)) @ str ''Cta'') (str (suffixOf i) @ str '' CTA'') ''text'' False None
        (Some (str ''URL for the '' @ str scope @ str '' '' @ lc (str (suffixOf i)) @
               str '' call-to-action'')),
      field (lc (str (suffixOf i)) @ str ''CtaText'') (str (suffixOf i) @ str '' CTA Text'')
        ''text'' False (Some 50)
        (Some (str ''Display text for the '' @ str scope @ str '' '' @ lc (str (suffixOf i)) @
               str '' CTA''))]"

definition analyzeContainerFields ::
  "(jstring \<Rightarrow> jstring) \<Rightarrow> FigmaNode list \<Rightarrow> FigmaNode list \<Rightarrow> FigmaNode list \<Rightarrow>
   BlockAnalysis \<Rightarrow> BlockField list" where
  "analyzeContainerFields lc textNodes images buttonNodes analysis =
     (let isListBased = isCodeBasedListComponent (debugCodeSignals analysis);
          mainHeading = findMainHeading textNodes;
          headingFields =
            (case mainHeading of
               None \<Rightarrow> []
             | Some h \<Rightarrow>
                 [field (str ''heading'') (str ''Container Heading'') ''text'' True (Some 200)
                    (Some (str ''Main heading displayed above the items''))]);
          containerTextContent = findContainerTextContent textNodes mainHeading;
          textFields =
            (if hasSimpleText containerTextContent
             then [field (str ''text'') (str ''Container Text'') ''text'' False (Some 500)
                     (Some (str ''Descriptive text displayed with the container heading''))]
             else if hasRichText containerTextContent
             then [field (str ''richText'') (str ''Container Rich Text'') ''richtext'' False
                     (Some 1000)
                     (Some (str ''Rich text content with formatting, lists, or multiple paragraphs''))]
             else []);
          containerCTAs = (if \<not> isListBased then findContainerCTAs lc buttonNodes analysis else [])
      in headingFields @
         concat (map (\<lambda>(i, img). imageFields ''Container Image ''
                                     ''Image asset extracted from Figma design'' i)
                     (indexed images)) @
         textFields @
         concat (map (\<lambda>(i, cta). ctaFields lc ''container'' i) (indexed containerCTAs)))"

definition analyzeActualContent ::
  "(jstring \<Rightarrow> jstring) \<Rightarrow> FigmaNode \<Rightarrow> BlockAnalysis \<Rightarrow> FigmaNode list \<Rightarrow> BlockField list" where
  "analyzeActualContent lc node analysis images =
     (let textNodes = findAllTextNodes node;
          headingFields =
            (if 0 < length (findRepeatingHeadings textNodes)
             then [field (str ''heading'') (str ''Heading'') ''text'' True (Some 200)
                     (Some (str ''Heading text for this item''))]
             else []);
          textContent = findStructuredTextContent textNodes;
          textFields =
            (if hasList textContent \<or> hasMultipleParagraphs textContent
             then [field (str ''richContent'') (str ''Rich Content'') ''richtext'' False (Some 1000)
                     (Some (str ''Rich text content including lists, paragraphs, and structured text''))]
             else if hasSimpleContent textContent
             then [field (str ''simpleContent'') (str ''Simple Content'') ''text'' False (Some 500)
                     (Some (str ''Text content for this item''))]
             else []);
          itemCTAs = findItemCTAs lc node analysis
      in headingFields @
         concat (map (\<lambda>(i, img). imageFields ''Image '' ''Image asset for this item'' i)
                     (indexed images)) @
         textFields @
         concat (map (\<lambda>(i, cta). ctaFields lc ''item'' i) (indexed itemCTAs)))"

text \<open>\<open>analyzeItemStructure\<close> passes its arguments on to \<open>analyzeActualContent\<close>.\<close>

definition analyzeItemStructure ::
  "(jstring \<Rightarrow> jstring) \<Rightarrow> FigmaNode \<Rightarrow> BlockAnalysis \<Rightarrow> FigmaNode list \<Rightarrow> BlockField list" where
  "analyzeItemStructure lc node analysis itemImageNodes =
     analyzeActualContent lc node analysis itemImageNodes"

text \<open>\<open>`heading${index || ''}`\<close>: the index is left out when it is 0.\<close>

definition indexSuffix :: "nat \<Rightarrow> jstring" where
  "indexSuffix i = (if i = 0 then [] else decimal i)"

definition textField :: "nat \<Rightarrow> FigmaNode \<Rightarrow> BlockField" where
  "textField i node =
     (if 24 < fontSizeOr0 node
      then field (str ''heading'' @ indexSuffix i) (str ''Heading '' @ decimal (i + 1)) ''text'' True
             None None
      else field (str ''text'' @ indexSuffix i) (str ''Text '' @ decimal (i + 1)) ''richtext'' True
             None None)"

definition singleImageFields :: "nat \<Rightarrow> BlockField list" where
  "singleImageFields i =
     [field (str ''image'' @ indexSuffix i) (str ''Image '' @ decimal (i + 1)) ''reference'' False
        None None,
      field (str ''image'' @ indexSuffix i @ str ''Alt'')
        (str ''Image '' @ decimal (i + 1) @ str '' Alt Text'') ''text'' False (Some 150)
        (Some (str ''Alternative text for accessibility. Leave blank if decorative.''))]"

definition extractAllFields ::
  "FigmaNode list \<Rightarrow> FigmaNode list \<Rightarrow> FigmaNode list \<Rightarrow> BlockField list" where
  "extractAllFields textNodes images buttonNodes =
     map (\<lambda>(i, node). textField i node) (indexed textNodes) @
     concat (map (\<lambda>(i, node). singleImageFields i) (indexed images))"

definition findConfigurationOptions :: "(jstring \<Rightarrow> jstring) \<Rightarrow> FigmaNode \<Rightarrow> jstring list" where
  "findConfigurationOptions lc node =
     [str ''light'', str ''dark''] @
     (if str_includes (lc (nodeName node)) (str ''compact'') then [str ''compact''] else []) @
     (if str_includes (lc (nodeName node)) (str ''centered'') then [str ''centered''] else [])"


section \<open>The analyzer: fields from the markup\<close>

text \<open>
  \<open>parseRawCodeForMultiItemStructure\<close>.  \<open>stripHtml\<close> removes \<^verbatim>\<open>/<[^>]*>/g\<close>.  The patterns, in
  the order of the source; \<open>dataNamed r\<close> is \<^verbatim>\<open>data-name=["']r["']\<close> and \<open>paragraphOpen\<close> is
  \<^verbatim>\<open><p[^<]*>\<close>.
\<close>

definition htmlTagPattern :: re where
  "htmlTagPattern = seq [RChr 60, star (noneOf ''>''), RChr 62]"

definition stripHtml :: "jstring \<Rightarrow> jstring" where
  "stripHtml html = replaceAll noFlags htmlTagPattern (\<lambda>mt. []) html"

definition dataNamed :: "re \<Rightarrow> re" where
  "dataNamed r = seq [lit ''data-name='', quoteMark, r, quoteMark]"

definition paragraphOpen :: re where
  "paragraphOpen = seq [lit ''<p'', star (noneOf ''<''), RChr 62]"

definition headingName :: re where
  "headingName = seq [lit ''Heading'', opt (seq [RChr 32, oneOrMore (RSet False [CDigit])])]"

text \<open>
  \<^verbatim>\<open>/data-name=["']CardTitle["'][\s\S]*?<p[^<]*>(.*?)<\/p>/i\<close>,
  \<^verbatim>\<open>/data-name=["']CardTitle["'][\s\S]*?<img[^>]*src=(?:"[^"]+"|{[^}]+})[^>]*>/i\<close>,
  \<^verbatim>\<open>/data-name=["']CardTitle["'][\s\S]*?data-name=["']Icon["'][^>]*>\s*<img/i\<close>,
  \<^verbatim>\<open>/data-name=["']Header(?:\s*\+\s*Body)?["'][\s\S]*?<p[^<]*>(.*?)<\/p>/i\<close>,
  \<^verbatim>\<open>/data-name=["'](?:Container|Card|Products)["']/i\<close>,
  \<^verbatim>\<open>/<p[^>]*>([A-Z][^<]{8,180})<\/p>/\<close> and
  \<^verbatim>\<open>/(Enhanced [A-Za-z0-9 ]{3,120}|Features? [A-Za-z0-9 ]{3,120}|[A-Z][a-z]+ [A-Z][a-z]+)/\<close>.
\<close>

definition cardTitlePattern :: re where
  "cardTitlePattern =
     seq [dataNamed (lit ''CardTitle''), lazyStar anyUnit, paragraphOpen, RGrp 1 (lazyStar RAny),
          lit ''</p>'']"

definition cardTitleIconPattern :: re where
  "cardTitleIconPattern =
     seq [dataNamed (lit ''CardTitle''), lazyStar anyUnit, lit ''<img'', star (noneOf ''>''),
          lit ''src='',
          RAlt (seq [RChr 34, oneOrMore (RSet True [CChar 34]), RChr 34])
               (seq [RChr 123, oneOrMore (noneOf ''}''), RChr 125]),
          star (noneOf ''>''), RChr 62]"

definition cardTitleIconWrapperPattern :: re where
  "cardTitleIconWrapperPattern =
     seq [dataNamed (lit ''CardTitle''), lazyStar anyUnit, dataNamed (lit ''Icon''),
          star (noneOf ''>''), RChr 62, star ws, lit ''<img'']"

definition headerPattern :: re where
  "headerPattern =
     seq [dataNamed (seq [lit ''Header'', opt (seq [star ws, RChr 43, star ws, lit ''Body''])]),
          lazyStar anyUnit, paragraphOpen, RGrp 1 (lazyStar RAny), lit ''</p>'']"

definition itemContainerPattern :: re where
  "itemContainerPattern =
     dataNamed (RAlt (lit ''Container'') (RAlt (lit ''Card'') (lit ''Products'')))"

definition capitalizedParagraphPattern :: re where
  "capitalizedParagraphPattern =
     seq [lit ''<p'', star (noneOf ''>''), RChr 62,
          RGrp 1 (seq [RSet False [CRange 65 90], RRep (noneOf ''<'') 8 (Some 180) True]),
          lit ''</p>'']"

definition wordUnit :: re where
  "wordUnit = RSet False [CRange 65 90, CRange 97 122, CRange 48 57, CChar 32]"

definition capitalizedWord :: re where
  "capitalizedWord = seq [RSet False [CRange 65 90], oneOrMore (RSet False [CRange 97 122])]"

definition phrasePattern :: re where
  "phrasePattern =
     RGrp 1 (RAlt (seq [lit ''Enhanced '', RRep wordUnit 3 (Some 120) True])
            (RAlt (seq [lit ''Feature'', opt (RChr 115), RChr 32, RRep wordUnit 3 (Some 120) True])
                  (seq [capitalizedWord, RChr 32, capitalizedWord])))"

text \<open>
  \<^verbatim>\<open>/<div[^>]*data-name=["']Card["'][^>]*>/gi\<close>, \<^verbatim>\<open>/<Card\s+/gi\<close>,
  \<^verbatim>\<open>/title=["']([^"']+)["']/\<close> (and the same for \<open>text\<close>), \<^verbatim>\<open>/icon=\{/\<close>,
  \<^verbatim>\<open>/data-name=["'](?:Heading(?: \d+)?|Title|Text|Paragraph)["']/\<close>,
  \<^verbatim>\<open>/data-name=["']Heading(?: \d+)?["'][^>]*>[\s\S]*?<p[^<]*>([\s\S]*?)<\/p>/i\<close> (and the same
  for \<open>Title\<close>),
  \<^verbatim>\<open>/<p[^<]*class="[^"]*(?:font-(?:bold|medium|semibold)|text-(?:xl|2xl|3xl|4xl)|heading)[^"]*"[^<]*>([\s\S]*?)<\/p>/i\<close>,
  \<^verbatim>\<open>/data-name=["']Paragraph["'][\s\S]{0,800}?<p[^<]*>([\s\S]*?)<\/p>/i\<close> (and the same for
  \<open>Text\<close>), \<^verbatim>\<open>/data-name=["']Image["']/\<close>, \<^verbatim>\<open>/data-name=["']Icon["']/\<close>, \<^verbatim>\<open>/<img[^>]*src=/\<close>,
  \<^verbatim>\<open>/<p[^<]*>([^<]*\<bullet>[^<]*)<\/p>/g\<close>, \<^verbatim>\<open>/^\<bullet>\s*/\<close> and
  \<^verbatim>\<open>/data-name=["'][^"']*(?:Button|Type=Primary)[^"']*["']/\<close>.
\<close>

definition cardDivPattern :: re where
  "cardDivPattern =
     seq [lit ''<div'', star (noneOf ''>''), dataNamed (lit ''Card''), star (noneOf ''>''), RChr 62]"

definition cardComponentPattern :: re where
  "cardComponentPattern = seq [lit ''<Card'', oneOrMore ws]"

definition propPattern :: "string \<Rightarrow> re" where
  "propPattern prop = seq [lit prop, RChr 61, quoteMark, RGrp 1 (oneOrMore nonQuote), quoteMark]"

definition iconPropPattern :: re where
  "iconPropPattern = lit ''icon={''"

definition headingOrParaPattern :: re where
  "headingOrParaPattern =
     dataNamed (RAlt headingName (RAlt (lit ''Title'') (RAlt (lit ''Text'') (lit ''Paragraph''))))"

definition cardHeadingPattern :: "re \<Rightarrow> re" where
  "cardHeadingPattern elementName =
     seq [dataNamed elementName, star (noneOf ''>''), RChr 62, lazyStar anyUnit, paragraphOpen,
          RGrp 1 (lazyStar anyUnit), lit ''</p>'']"

definition genericHeadingPattern :: re where
  "genericHeadingPattern =
     seq [lit ''<p'', star (noneOf ''<''), lit ''class='', RChr 34, star (RSet True [CChar 34]),
          RAlt (seq [lit ''font-'', RAlt (lit ''bold'') (RAlt (lit ''medium'') (lit ''semibold''))])
               (RAlt (seq [lit ''text-'',
                           RAlt (lit ''xl'') (RAlt (lit ''2xl'') (RAlt (lit ''3xl'') (lit ''4xl'')))])
                     (lit ''heading'')),
          star (RSet True [CChar 34]), RChr 34, star (noneOf ''<''), RChr 62,
          RGrp 1 (lazyStar anyUnit), lit ''</p>'']"

definition descriptionPattern :: "string \<Rightarrow> re" where
  "descriptionPattern elementName =
     seq [dataNamed (lit elementName), RRep anyUnit 0 (Some 800) False, paragraphOpen,
          RGrp 1 (lazyStar anyUnit), lit ''</p>'']"

definition imgSrcPattern :: re where
  "imgSrcPattern = seq [lit ''<img'', star (noneOf ''>''), lit ''src='']"

definition bulletParagraphPattern :: re where
  "bulletParagraphPattern =
     seq [paragraphOpen, RGrp 1 (seq [star (noneOf ''<''), RChr 8226, star (noneOf ''<'')]),
          lit ''</p>'']"

definition leadingBulletPattern :: re where
  "leadingBulletPattern = seq [RBol, RChr 8226, star ws]"

definition buttonElementPattern :: re where
  "buttonElementPattern =
     seq [lit ''data-name='', quoteMark, star nonQuote,
          RAlt (lit ''Button'') (lit ''Type=Primary''), star nonQuote, quoteMark]"

text \<open>
  \<^verbatim>\<open>/<div[^>]*data-name=["']Container["'][^>]*>([\s\S]*?)<\/div>/gi\<close>,
  \<^verbatim>\<open>/data-name=["']Heading(?: \d+)?["'][\s\S]*?<p[^<]*>(.*?)<\/p>/i\<close> and
  \<^verbatim>\<open>/<p[^<]*>(\s*\<bullet>\s*[^<]{2,200})<\/p>/g\<close>.
\<close>

definition containerBlockPattern :: re where
  "containerBlockPattern =
     seq [lit ''<div'', star (noneOf ''>''), dataNamed (lit ''Container''), star (noneOf ''>''),
          RChr 62, RGrp 1 (lazyStar anyUnit), lit ''</div>'']"

definition containerHeadingPattern :: re where
  "containerHeadingPattern =
     seq [dataNamed headingName, lazyStar anyUnit, paragraphOpen, RGrp 1 (lazyStar RAny),
          lit ''</p>'']"

definition globalBulletPattern :: re where
  "globalBulletPattern =
     seq [paragraphOpen,
          RGrp 1 (seq [star ws, RChr 8226, star ws, RRep (noneOf ''<'') 2 (Some 200) True]),
          lit ''</p>'']"

text \<open>
  The result of the extraction.  \<open>containerHeading\<close> is optional; the source tests it for
  truthiness, which an absent and an empty heading both fail.
\<close>

record Extracted =
  containerHeading :: "jstring option"
  containerIconPresent :: bool
  itemHeadings :: "jstring list"
  itemDescriptions :: "jstring list"
  itemLists :: "jstring list list"
  itemIconsPresent :: bool
  hasItemCTAs :: bool

definition truthy :: "jstring option \<Rightarrow> bool" where
  "truthy s = (case s of None \<Rightarrow> False | Some t \<Rightarrow> t \<noteq> [])"

text \<open>\<open>this.stripHtml(m[1]).trim()\<close> of a match, when there is one.\<close>

definition strippedGroup :: "rmatch option \<Rightarrow> jstring option" where
  "strippedGroup mo = (case mo of None \<Rightarrow> None | Some m \<Rightarrow> Some (trim (stripHtml (groupOrEmpty 1 m))))"

definition preItems :: "jstring \<Rightarrow> jstring" where
  "preItems rawCode =
     (case firstMatch iFlag itemContainerPattern rawCode of
        None \<Rightarrow> rawCode
      | Some m \<Rightarrow> take (pos (fst m)) rawCode)"

definition extractContainerHeading :: "jstring \<Rightarrow> jstring option" where
  "extractContainerHeading rawCode =
     (let h1 = strippedGroup (firstMatch iFlag cardTitlePattern rawCode);
          h2 = (if truthy h1 then h1
                else (case firstMatch iFlag headerPattern rawCode of
                        None \<Rightarrow> h1
                      | Some m \<Rightarrow> strippedGroup (Some m)))
      in if truthy h2 then h2
         else
           (let h3 = (case firstMatch noFlags capitalizedParagraphPattern (preItems rawCode) of
                        None \<Rightarrow> h2
                      | Some m \<Rightarrow> strippedGroup (Some m))
            in if truthy h3 then h3
               else (case firstMatch noFlags phrasePattern rawCode of
                       None \<Rightarrow> h3
                     | Some m \<Rightarrow> Some (trim (groupOrEmpty 1 m)))))"

definition extractContainerIcon :: "jstring \<Rightarrow> bool" where
  "extractContainerIcon rawCode =
     (test iFlag cardTitleIconPattern rawCode \<or> test iFlag cardTitleIconWrapperPattern rawCode)"

text \<open>The four lists the loops of the source push to.\<close>

record ItemAcc =
  headingsAcc :: "jstring list"
  descriptionsAcc :: "jstring list"
  listsAcc :: "jstring list list"
  iconsAcc :: "bool list"

definition pushHeading :: "jstring option \<Rightarrow> ItemAcc \<Rightarrow> ItemAcc" where
  "pushHeading heading acc =
     (case heading of
        None \<Rightarrow> acc
      | Some h \<Rightarrow> if h \<noteq> [] \<and> length h \<le> 150 then acc\<lparr>headingsAcc := headingsAcc acc @ [h]\<rparr>
                  else acc)"

definition pushNewHeading :: "jstring option \<Rightarrow> ItemAcc \<Rightarrow> ItemAcc" where
  "pushNewHeading heading acc =
     (case heading of
        None \<Rightarrow> acc
      | Some h \<Rightarrow> if h \<noteq> [] \<and> length h \<le> 150 \<and> h \<notin> set (headingsAcc acc)
                  then acc\<lparr>headingsAcc := headingsAcc acc @ [h]\<rparr>
                  else acc)"

definition pushDescription :: "jstring option \<Rightarrow> ItemAcc \<Rightarrow> ItemAcc" where
  "pushDescription desc acc =
     (case desc of
        None \<Rightarrow> acc
      | Some d \<Rightarrow> if d \<noteq> [] \<and> 20 \<le> length d \<and> length d \<le> 500
                  then acc\<lparr>descriptionsAcc := descriptionsAcc acc @ [d]\<rparr>
                  else acc)"

definition bulletsOf :: "re \<Rightarrow> jstring \<Rightarrow> jstring list" where
  "bulletsOf r segment =
     filter (\<lambda>bullet. bullet \<noteq> [])
       (map (\<lambda>b. replaceFirst noFlags leadingBulletPattern (\<lambda>mt. [])
                   (trim (stripHtml (groupOrEmpty 1 b))))
            (allMatches noFlags r segment))"

definition pushBullets :: "jstring list \<Rightarrow> ItemAcc \<Rightarrow> ItemAcc" where
  "pushBullets bullets acc =
     (if 0 < length bullets then acc\<lparr>listsAcc := listsAcc acc @ [bullets]\<rparr> else acc)"

definition cardComponentStep :: "jstring \<Rightarrow> rmatch \<Rightarrow> ItemAcc \<Rightarrow> ItemAcc" where
  "cardComponentStep rawCode mt acc =
     (let segment = take 800 (drop (pos (fst mt)) rawCode);
          a1 = (case firstMatch noFlags (propPattern ''title'') segment of
                  None \<Rightarrow> acc
                | Some m \<Rightarrow> pushHeading (Some (groupOrEmpty 1 m)) acc);
          a2 = (case firstMatch noFlags (propPattern ''text'') segment of
                  None \<Rightarrow> a1
                | Some m \<Rightarrow> pushDescription (Some (groupOrEmpty 1 m)) a1)
      in if test noFlags iconPropPattern segment then a2\<lparr>iconsAcc := iconsAcc a2 @ [True]\<rparr>
         else a2)"

definition cardSegment :: "jstring \<Rightarrow> rmatch \<Rightarrow> jstring" where
  "cardSegment rawCode mt = take 2000 (drop (pos (snd mt)) rawCode)"

definition cardHeading :: "jstring \<Rightarrow> jstring option" where
  "cardHeading segment =
     (case firstMatch iFlag (cardHeadingPattern headingName) segment of
        Some m \<Rightarrow> strippedGroup (Some m)
      | None \<Rightarrow>
          (case firstMatch iFlag (cardHeadingPattern (lit ''Title'')) segment of
             Some m \<Rightarrow> strippedGroup (Some m)
           | None \<Rightarrow> strippedGroup (firstMatch iFlag genericHeadingPattern segment)))"

definition cardDescription :: "jstring \<Rightarrow> jstring option" where
  "cardDescription segment =
     (case firstMatch iFlag (descriptionPattern ''Paragraph'') segment of
        Some m \<Rightarrow> strippedGroup (Some m)
      | None \<Rightarrow> strippedGroup (firstMatch iFlag (descriptionPattern ''Text'') segment))"

definition cardDivStep :: "jstring \<Rightarrow> rmatch \<Rightarrow> ItemAcc \<Rightarrow> ItemAcc" where
  "cardDivStep rawCode mt acc =
     (let segment = cardSegment rawCode mt
      in if \<not> test noFlags headingOrParaPattern segment then acc
         else
           (let a1 = pushHeading (cardHeading segment) acc;
                a2 = pushDescription (cardDescription segment) a1;
                hasIcon = (test noFlags (dataNamed (lit ''Image'')) segment \<or>
                           test noFlags (dataNamed (lit ''Icon'')) segment \<or>
                           test noFlags imgSrcPattern segment);
                a3 = a2\<lparr>iconsAcc := iconsAcc a2 @ [hasIcon]\<rparr>
            in pushBullets (bulletsOf bulletParagraphPattern segment) a3))"

definition containerStep :: "rmatch \<Rightarrow> ItemAcc \<Rightarrow> ItemAcc" where
  "containerStep cMatch acc =
     (let segment = groupOrEmpty 1 cMatch;
          a1 = pushNewHeading (strippedGroup (firstMatch iFlag containerHeadingPattern segment)) acc
      in pushBullets (bulletsOf bulletParagraphPattern segment) a1)"

definition parseRawCodeForMultiItemStructure :: "jstring \<Rightarrow> Extracted" where
  "parseRawCodeForMultiItemStructure rawCode =
     (let cardDivMatches = allMatches iFlag cardDivPattern rawCode;
          cardComponentMatches = allMatches iFlag cardComponentPattern rawCode;
          componentBranch = (0 < length cardComponentMatches \<and> length cardDivMatches \<le> 1);
          empty = \<lparr>headingsAcc = [], descriptionsAcc = [], listsAcc = [], iconsAcc = []\<rparr>;
          a1 = (if componentBranch then fold (cardComponentStep rawCode) cardComponentMatches empty
                else fold (cardDivStep rawCode) cardDivMatches empty);
          ctas = (if componentBranch then True
                  else list_ex (\<lambda>mt. test noFlags buttonElementPattern (cardSegment rawCode mt))
                               cardDivMatches);
          a2 = fold containerStep (allMatches iFlag containerBlockPattern rawCode) a1;
          a3 = (if headingsAcc a2 = []
                then fold (\<lambda>g. pushNewHeading (strippedGroup (Some g)))
                          (allMatches iFlag containerHeadingPattern rawCode) a2
                else a2);
          a4 = (if \<not> list_ex (\<lambda>l. 0 < length l) (listsAcc a3)
                then pushBullets (bulletsOf globalBulletPattern rawCode) a3
                else a3)
      in \<lparr>containerHeading = extractContainerHeading rawCode,
          containerIconPresent = extractContainerIcon rawCode,
          itemHeadings = headingsAcc a4,
          itemDescriptions = descriptionsAcc a4,
          itemLists = listsAcc a4,
          itemIconsPresent = (0 < length (iconsAcc a4) \<and> list_ex (\<lambda>hasIcon. hasIcon) (iconsAcc a4)),
          hasItemCTAs = ctas\<rparr>)"


section \<open>The analyzer: content structure and analysis\<close>

text \<open>
  \<open>analyzeContentStructure\<close>.  With a multi-item block and markup of more than 40 units the
  fields come from the markup alone; otherwise they come from the design nodes.  The source
  writes into the analysis; the model returns the content structure it leaves there.
\<close>

definition iconFields :: "string \<Rightarrow> string \<Rightarrow> BlockField list" where
  "iconFields iconLabel desc =
     [field (str ''icon'') (str iconLabel) ''reference'' False None (Some (str desc)),
      field (str ''iconAlt'') (str ''Icon Alt Text'') ''text'' False (Some 120)
        (Some (str ''Alt text for the icon (leave blank if purely decorative).''))]"

definition rawContainerFields :: "Extracted \<Rightarrow> BlockField list" where
  "rawContainerFields extracted =
     (if truthy (containerHeading extracted)
      then [field (str ''heading'') (str ''Container Heading'') ''text'' True (Some 200)
              (Some (str ''Primary heading for the list group''))]
      else []) @
     (if containerIconPresent extracted
      then iconFields ''Container Icon'' ''Icon image associated with container heading''
      else [])"

definition rawItemFields :: "Extracted \<Rightarrow> BlockField list" where
  "rawItemFields extracted =
     (if 0 < length (itemHeadings extracted)
      then [field (str ''heading'') (str ''Item Heading'') ''text'' True (Some 150)
              (Some (str ''Heading text for each item''))]
      else []) @
     (if itemIconsPresent extracted then iconFields ''Item Icon'' ''Icon image for the item''
      else []) @
     (if 0 < length (itemDescriptions extracted)
      then [field (str ''description'') (str ''Item Description'') ''text'' False (Some 500)
              (Some (str ''Descriptive text for each item''))]
      else []) @
     (if list_ex (\<lambda>l. 0 < length l) (itemLists extracted)
      then [field (str ''richContent'') (str ''Item List Content'') ''richtext'' False (Some 1000)
              (Some (str ''List or rich content associated with each item''))]
      else []) @
     (if hasItemCTAs extracted
      then [field (str ''cta'') (str ''CTA URL'') ''text'' False None
              (Some (str ''URL for the item call-to-action button'')),
            field (str ''ctaText'') (str ''CTA Button Text'') ''text'' False (Some 50)
              (Some (str ''Display text for the CTA button''))]
      else [])"

definition hasRichtext :: "BlockField list \<Rightarrow> bool" where
  "hasRichtext fs = list_ex (\<lambda>f. component f = str ''richtext'') fs"

definition isCarouselBlock :: "jstring \<Rightarrow> bool" where
  "isCarouselBlock blockNameLower =
     (str_includes blockNameLower (str ''carousel'') \<or> str_includes blockNameLower (str ''slider'') \<or>
      str_includes blockNameLower (str ''gallery''))"

definition isCardBlock :: "jstring \<Rightarrow> bool" where
  "isCardBlock blockNameLower = str_includes blockNameLower (str ''card'')"

text \<open>The choice of the pattern on the markup path (\<open>carousel > cards > decorated\<close>).\<close>

definition rawJsPattern :: "jstring \<Rightarrow> BlockField list \<Rightarrow> JsPattern" where
  "rawJsPattern blockNameLower items =
     (if isCarouselBlock blockNameLower then carousel
      else if isCardBlock blockNameLower then cards
      else if hasRichtext items then decorated else cards)"

text \<open>
  The choice of the pattern on the node path:
  \<open>isCardBlock ? 'cards' : (hasRichtext ? 'decorated' : 'cards')\<close>.
\<close>

definition nodeJsPattern :: "jstring \<Rightarrow> BlockField list \<Rightarrow> JsPattern" where
  "nodeJsPattern blockNameLower items =
     (if isCardBlock blockNameLower then cards
      else if hasRichtext items then decorated else cards)"

text \<open>
  \<open>analysis.blockType === 'multi-item' && rawCode && rawCode.length > 40\<close>: the markup the
  markup path works on, when it is taken.
\<close>

definition rawPathCode :: "BlockAnalysis \<Rightarrow> jstring option \<Rightarrow> jstring option" where
  "rawPathCode analysis rawCode =
     (case rawCode of
        None \<Rightarrow> None
      | Some raw \<Rightarrow> if blockType analysis = multi_item \<and> 40 < length raw then Some raw else None)"

text \<open>
  The images below the item containers, each once and in the order met
  (\<open>markDescendantImages\<close>), and the other images.
\<close>

definition itemImagesOf :: "FigmaNode list \<Rightarrow> FigmaNode list \<Rightarrow> FigmaNode list" where
  "itemImagesOf allImageNodes itemContainerNodes =
     pushNew [] (filter (\<lambda>n. n \<in> set allImageNodes) (concat (map subtree itemContainerNodes)))"

definition analyzeContentStructure ::
  "(jstring \<Rightarrow> jstring) \<Rightarrow> FigmaNode \<Rightarrow> BlockAnalysis \<Rightarrow> jstring option \<Rightarrow> ContentStructure" where
  "analyzeContentStructure lc node analysis rawCode =
     (case rawPathCode analysis rawCode of
        Some raw \<Rightarrow>
          (let extracted = parseRawCodeForMultiItemStructure raw;
               items = rawItemFields extracted
           in \<lparr>containerFields = rawContainerFields extracted,
               itemFields = Some items,
               configurationOptions = findConfigurationOptions lc node,
               jsPattern = rawJsPattern (lc (sanitizeBlockName lc (nodeName node))) items\<rparr>)
      | None \<Rightarrow>
        (let textNodes = findAllTextNodes node;
             allImageNodes = findAllImageNodes lc node;
             buttonNodes = findAllButtonNodes lc node
         in if blockType analysis = multi_item
            then
              (let itemImageNodes = itemImagesOf allImageNodes (findItemContainerNodes lc node);
                   containerImageNodes = filter (\<lambda>n. n \<notin> set itemImageNodes) allImageNodes;
                   items = analyzeItemStructure lc node analysis itemImageNodes
               in \<lparr>containerFields =
                     analyzeContainerFields lc textNodes containerImageNodes buttonNodes analysis,
                   itemFields = Some items,
                   configurationOptions = findConfigurationOptions lc node,
                   jsPattern = nodeJsPattern (lc (blockName analysis)) items\<rparr>)
            else
              (contentStructure analysis)
                \<lparr>containerFields := extractAllFields textNodes allImageNodes buttonNodes,
                 configurationOptions := findConfigurationOptions lc node\<rparr>))"

text \<open>
  \<open>analyze\<close>.  Markup of more than 100 units is simplified first.  The steps after
  \<open>analyzeContentStructure\<close> (design tokens, interactions, accessibility) write components of
  the analysis that are not kept here and leave the four kept ones as they are.
\<close>

definition processedCode :: "jstring option \<Rightarrow> jstring option" where
  "processedCode rawCode =
     (case rawCode of
        None \<Rightarrow> None
      | Some raw \<Rightarrow> if 100 < length raw then Some (simplify raw) else Some raw)"

definition initialAnalysis :: "(jstring \<Rightarrow> jstring) \<Rightarrow> FigmaNode \<Rightarrow> CodeSignals \<Rightarrow> BlockAnalysis" where
  "initialAnalysis lc node signals =
     \<lparr>blockType = (if multiItemLikely signals then multi_item else single),
      blockName = sanitizeBlockName lc (nodeName node),
      contentStructure =
        \<lparr>containerFields = [], itemFields = Some [], configurationOptions = [], jsPattern = cards\<rparr>,
      debug = Some \<lparr>codeSignals = Some signals\<rparr>\<rparr>"

definition analyze :: "(jstring \<Rightarrow> jstring) \<Rightarrow> FigmaNode \<Rightarrow> jstring option \<Rightarrow> BlockAnalysis" where
  "analyze lc node rawCode =
     (let code = processedCode rawCode;
          analysis = initialAnalysis lc node (parseCodeSignals lc code)
      in analysis\<lparr>contentStructure := analyzeContentStructure lc node analysis code\<rparr>)"


section \<open>The confidence scorer\<close>

text \<open>
  \<open>calculateConfidenceScore\<close> (analyzer-enhancements.ts).  The source updates four local
  variables in sequence; \<open>ScoreState\<close> holds them and each block of the source is one step.
\<close>

record ScoreState =
  bts :: int
  fes :: int
  reasonsAcc :: "jstring list"
  suggestionsAcc :: "jstring list"

definition scoreBlockType :: "CodeSignals option \<Rightarrow> ScoreState \<Rightarrow> ScoreState" where
  "scoreBlockType cso st =
     (case cso of
        Some cs \<Rightarrow>
          (let st1 = (if multiItemLikely cs
                      then st\<lparr>bts := bts st + 30,
                              reasonsAcc := reasonsAcc st @ [str ''Multi-item indicators found in code structure'']\<rparr>
                      else st)
           in if 0 < length (repeatedContainerNames cs)
              then st1\<lparr>bts := bts st1 + 20,
                       reasonsAcc := reasonsAcc st1 @ [str ''Repeated container patterns detected'']\<rparr>
              else st1)
      | None \<Rightarrow>
          st\<lparr>bts := bts st - 20,
             suggestionsAcc := suggestionsAcc st @ [str ''Provide generated code for better analysis'']\<rparr>)"

definition hasContainerFields :: "BlockAnalysis \<Rightarrow> bool" where
  "hasContainerFields analysis = (0 < length (containerFields (contentStructure analysis)))"

definition hasItemFields :: "BlockAnalysis \<Rightarrow> bool" where
  "hasItemFields analysis =
     (case itemFields (contentStructure analysis) of None \<Rightarrow> False | Some fs \<Rightarrow> 0 < length fs)"

definition itemFieldCount :: "BlockAnalysis \<Rightarrow> nat" where
  "itemFieldCount analysis =
     (case itemFields (contentStructure analysis) of None \<Rightarrow> 0 | Some fs \<Rightarrow> length fs)"

definition scoreContainerFields :: "BlockAnalysis \<Rightarrow> ScoreState \<Rightarrow> ScoreState" where
  "scoreContainerFields analysis st =
     (if hasContainerFields analysis
      then st\<lparr>fes := fes st + 20,
              reasonsAcc := reasonsAcc st @ [str ''Extracted '' @
                             decimal (length (containerFields (contentStructure analysis))) @
                             str '' container fields'']\<rparr>
      else if blockType analysis = multi_item
      then st\<lparr>fes := fes st - 30,
              suggestionsAcc := suggestionsAcc st @ [str ''No container fields found - may need manual review'']\<rparr>
      else st)"

definition scoreItemFields :: "BlockAnalysis \<Rightarrow> ScoreState \<Rightarrow> ScoreState" where
  "scoreItemFields analysis st =
     (if hasItemFields analysis
      then st\<lparr>fes := fes st + 30,
              reasonsAcc := reasonsAcc st @ [str ''Extracted '' @ decimal (itemFieldCount analysis) @
                             str '' item fields'']\<rparr>
      else if blockType analysis = multi_item
      then st\<lparr>fes := fes st - 40,
              suggestionsAcc := suggestionsAcc st @
                [str ''No item fields found - block may need manual field definition'']\<rparr>
      else st)"

definition hasCTAs :: "CodeSignals option \<Rightarrow> bool" where
  "hasCTAs cso =
     (case cso of
        None \<Rightarrow> False
      | Some cs \<Rightarrow> (case semanticCtas cs of None \<Rightarrow> False | Some l \<Rightarrow> 0 < length l))"

definition scoreCTAs :: "CodeSignals option \<Rightarrow> ScoreState \<Rightarrow> ScoreState" where
  "scoreCTAs cso st =
     (if hasCTAs cso
      then st\<lparr>fes := fes st + 10,
              reasonsAcc := reasonsAcc st @ [str ''Successfully detected CTA buttons from code'']\<rparr>
      else st)"

definition calculateConfidenceScore :: "BlockAnalysis \<Rightarrow> ConfidenceScore" where
  "calculateConfidenceScore analysis =
     (let st0 = \<lparr>bts = 50, fes = 50, reasonsAcc = [], suggestionsAcc = []\<rparr>;
          cso = debugCodeSignals analysis;
          st1 = scoreBlockType cso st0;
          st2 = scoreContainerFields analysis st1;
          st3 = scoreItemFields analysis st2;
          st4 = scoreCTAs cso st3;
          blockTypeScore' = max 0 (min 100 (bts st4));
          fieldExtractionScore' = max 0 (min 100 (fes st4))
      in \<lparr>overall = Math_round (of_int (blockTypeScore' + fieldExtractionScore') / 2),
          blockTypeScore = blockTypeScore',
          fieldExtractionScore = fieldExtractionScore',
          reasons = reasonsAcc st4,
          suggestions = suggestionsAcc st4\<rparr>)"


section \<open>The similarity matcher\<close>

text \<open>
  The corpus is a directory of block directories, each of which may hold a model document
  \<open>_<dir>.json\<close>.  \<open>findSimilarBlockPatterns\<close> reads it through \<open>fs.pathExists\<close>,
  \<open>fs.readdir\<close> and \<open>fs.readJSON\<close>; the file system is the value \<open>Corpus\<close>: the directory
  is missing, cannot be listed, or lists entries in the order \<open>readdir\<close> returns them, each
  without a model file, with one that does not parse, or with a model.  Of a model document
  the matcher reads the length of \<open>filters\<close> and the fields of \<open>models\<close>.
\<close>

record ModelField =
  fieldName :: jstring
  fieldLabel :: "jstring option"
  fieldComponent :: "jstring option"
  fieldValueType :: "jstring option"
  fieldRequired :: "bool option"
  fieldMaxLength :: "nat option"
  fieldDescription :: "jstring option"

record ModelDef =
  defFields :: "ModelField list option"

record ExistingModel =
  filtersLength :: "nat option"
  models :: "ModelDef list option"

datatype CorpusEntry = NoModelFile | Malformed | Model ExistingModel

datatype Corpus = Missing | Unreadable | Listing "(jstring \<times> CorpusEntry) list"

record SimilarBlockPattern =
  patternBlockName :: jstring
  similarity :: int
  sharedCharacteristics :: "jstring list"
  suggestedFields :: "BlockField list"

text \<open>
  \<open>levenshteinDistance\<close> fills a matrix with one row per code unit of \<open>str2\<close> and one column
  per code unit of \<open>str1\<close>.  \<open>levRow\<close> computes the cells 1.. of a row from the row above
  (\<open>prevRow\<close> from the cell diagonally above on) and the cell to the left.
\<close>

fun levRow :: "nat \<Rightarrow> jstring \<Rightarrow> nat list \<Rightarrow> nat \<Rightarrow> nat list" where
  "levRow c2 (c1 # cs) (dg # upv # prevRow) lft =
     (let v = (if c2 = c1 then dg else min (dg + 1) (min (lft + 1) (upv + 1)))
      in v # levRow c2 cs (upv # prevRow) v)"
| "levRow c2 cs prevRow lft = []"

fun levRows :: "jstring \<Rightarrow> jstring \<Rightarrow> nat \<Rightarrow> nat list \<Rightarrow> nat list" where
  "levRows str1 [] i row = row"
| "levRows str1 (c2 # cs2) i row = levRows str1 cs2 (Suc i) (Suc i # levRow c2 str1 row (Suc i))"

definition levenshteinDistance :: "jstring \<Rightarrow> jstring \<Rightarrow> nat" where
  "levenshteinDistance str1 str2 = last (levRows str1 str2 0 [0 ..< Suc (length str1)])"

definition stringSimilarity :: "jstring \<Rightarrow> jstring \<Rightarrow> rat" where
  "stringSimilarity str1 str2 =
     (let longer = (if length str2 < length str1 then str1 else str2);
          shorter = (if length str2 < length str1 then str2 else str1)
      in if length longer = 0 then 1
         else fdiv (of_nat (length longer) - of_nat (levenshteinDistance longer shorter))
                   (of_nat (length longer)))"

definition hasItems :: "ExistingModel \<Rightarrow> bool" where
  "hasItems m = (case filtersLength m of None \<Rightarrow> False | Some n \<Rightarrow> 0 < n)"

definition calculateSimilarity ::
  "jstring \<Rightarrow> jstring \<Rightarrow> jstring list \<Rightarrow> ExistingModel \<Rightarrow> int" where
  "calculateSimilarity blockName' existingBlockName characteristics existingModel =
     (let maxScore = 30 + 70;
          score0 = fadd 0 (fmul (stringSimilarity blockName' existingBlockName) 30);
          isCarousel = list_ex (\<lambda>c. str_includes c (str ''carousel'') \<or>
                                     str_includes c (str ''slider'')) characteristics;
          hasCarouselInName = (str_includes existingBlockName (str ''carousel'') \<or>
                               str_includes existingBlockName (str ''slider''));
          score1 = (if isCarousel \<and> hasCarouselInName then fadd score0 35 else score0);
          isCards = list_ex (\<lambda>c. str_includes c (str ''card'') \<or>
                                  str_includes c (str ''grid'')) characteristics;
          hasCardsInName = str_includes existingBlockName (str ''card'');
          score2 = (if isCards \<and> hasCardsInName then fadd score1 35 else score1);
          needsItems = list_ex (\<lambda>c. str_includes c (str ''multi-item'') \<or>
                                     str_includes c (str ''repeating'')) characteristics;
          score3 = (if hasItems existingModel \<and> needsItems then fadd score2 35 else score2)
      in Math_round (fmul (fdiv score3 maxScore) 100))"

definition modelFields :: "ExistingModel \<Rightarrow> ModelField list" where
  "modelFields m =
     (case models m of
        None \<Rightarrow> []
      | Some ds \<Rightarrow> concat (map (\<lambda>d. case defFields d of None \<Rightarrow> [] | Some fs \<Rightarrow> fs) ds))"

definition findSharedCharacteristics ::
  "(jstring \<Rightarrow> jstring) \<Rightarrow> jstring list \<Rightarrow> ExistingModel \<Rightarrow> jstring list" where
  "findSharedCharacteristics lc characteristics m =
     (let hasImages = list_ex (\<lambda>f. fieldComponent f = Some (str ''reference'')) (modelFields m);
          hasCTAs' = list_ex (\<lambda>f. str_includes (lc (fieldName f)) (str ''cta'')) (modelFields m)
      in (if list_ex (\<lambda>c. str_includes c (str ''multi-item'')) characteristics \<and> hasItems m
          then [str ''Multi-item structure''] else []) @
         (if list_ex (\<lambda>c. str_includes c (str ''image'')) characteristics \<and> hasImages
          then [str ''Image fields''] else []) @
         (if list_ex (\<lambda>c. str_includes c (str ''cta'') \<or> str_includes c (str ''button''))
               characteristics \<and> hasCTAs'
          then [str ''CTA buttons''] else []))"

text \<open>\<open>a || b\<close> on an optional string: \<open>b\<close> when \<open>a\<close> is absent or empty.\<close>

definition orElse :: "jstring option \<Rightarrow> jstring \<Rightarrow> jstring" where
  "orElse a b = (case a of None \<Rightarrow> b | Some v \<Rightarrow> (if v = [] then b else v))"

definition extractField :: "ModelField \<Rightarrow> BlockField" where
  "extractField f =
     \<lparr>name = fieldName f,
      label = orElse (fieldLabel f) (fieldName f),
      component = orElse (fieldComponent f) (str ''text''),
      valueType = orElse (fieldValueType f) (str ''string''),
      required = (case fieldRequired f of None \<Rightarrow> False | Some b \<Rightarrow> b),
      maxLength = fieldMaxLength f,
      description = fieldDescription f\<rparr>"

definition extractFieldsFromModel :: "ExistingModel \<Rightarrow> BlockField list" where
  "extractFieldsFromModel m = map extractField (modelFields m)"

text \<open>
  The loop over the directory listing.  A model file that does not parse makes
  \<open>readJSON\<close> throw; the \<open>catch\<close> around the loop ends it and keeps the patterns found so
  far.
\<close>

fun collectPatterns ::
  "(jstring \<Rightarrow> jstring) \<Rightarrow> jstring \<Rightarrow> jstring list \<Rightarrow> (jstring \<times> CorpusEntry) list \<Rightarrow>
   SimilarBlockPattern list \<Rightarrow> SimilarBlockPattern list" where
  "collectPatterns lc blockName' characteristics [] patterns = patterns"
| "collectPatterns lc blockName' characteristics ((dir, NoModelFile) # es) patterns =
     collectPatterns lc blockName' characteristics es patterns"
| "collectPatterns lc blockName' characteristics ((dir, Malformed) # es) patterns = patterns"
| "collectPatterns lc blockName' characteristics ((dir, Model m) # es) patterns =
     (let sim = calculateSimilarity blockName' dir characteristics m
      in collectPatterns lc blockName' characteristics es
           (if 40 < sim
            then patterns @
                 [\<lparr>patternBlockName = dir, similarity = sim,
                   sharedCharacteristics = findSharedCharacteristics lc characteristics m,
                   suggestedFields = extractFieldsFromModel m\<rparr>]
            else patterns))"

text \<open>
  \<open>patterns.sort((a, b) => b.similarity - a.similarity)\<close>: the host's sort is stable, and so
  is insertion sort on the negated similarity.
\<close>

definition sortBySimilarity :: "SimilarBlockPattern list \<Rightarrow> SimilarBlockPattern list" where
  "sortBySimilarity patterns = sort_key (\<lambda>p. - similarity p) patterns"

definition findSimilarBlockPatterns ::
  "(jstring \<Rightarrow> jstring) \<Rightarrow> jstring \<Rightarrow> jstring list \<Rightarrow> Corpus \<Rightarrow> SimilarBlockPattern list" where
  "findSimilarBlockPatterns lc blockName' characteristics blocksDir =
     (case blocksDir of
        Missing \<Rightarrow> []
      | Unreadable \<Rightarrow> sortBySimilarity []
      | Listing es \<Rightarrow> sortBySimilarity (collectPatterns lc blockName' characteristics es []))"


section \<open>The enhancement step\<close>

definition extractCharacteristics ::
  "(jstring \<Rightarrow> jstring) \<Rightarrow> BlockAnalysis \<Rightarrow> jstring \<Rightarrow> jstring list" where
  "extractCharacteristics lc analysis rawCode =
     (let lowerCode = lc rawCode
      in [case blockType analysis of single \<Rightarrow> str ''single'' | multi_item \<Rightarrow> str ''multi-item''] @
         (if str_includes (blockName analysis) (str ''carousel'')
          then [str ''carousel'', str ''slider'', str ''navigation''] else []) @
         (if str_includes (blockName analysis) (str ''card'')
          then [str ''cards'', str ''grid'', str ''multi-item''] else []) @
         (if str_includes (blockName analysis) (str ''offer'')
          then [str ''product'', str ''pricing'', str ''cta''] else []) @
         (if str_includes lowerCode (str ''chevron'') \<or> str_includes lowerCode (str ''arrow'')
          then [str ''navigation'', str ''carousel''] else []) @
         (if str_includes lowerCode (str ''indicator'') \<or> str_includes lowerCode (str ''dot'')
          then [str ''pagination'', str ''carousel''] else []) @
         (if str_includes lowerCode (str ''button'') \<or> str_includes lowerCode (str ''cta'')
          then [str ''cta'', str ''interactive''] else []) @
         (if str_includes lowerCode (str ''img'') \<or> str_includes lowerCode (str ''picture'')
          then [str ''images'', str ''media''] else []))"

record Enhanced =
  enhancedAnalysis :: BlockAnalysis
  confidence :: ConfidenceScore
  similarPatterns :: "SimilarBlockPattern list"

text \<open>The fields of the best match that the enhancement step offers as item fields.\<close>

definition borrowable :: "BlockField \<Rightarrow> bool" where
  "borrowable f =
     ((\<not> str_includes (name f) (str ''container'') \<and> \<not> str_includes (name f) (str ''heading''))
      \<or> str_includes (name f) (str ''item''))"

definition borrowSuggestion :: "SimilarBlockPattern \<Rightarrow> jstring" where
  "borrowSuggestion bestMatch =
     str ''Consider using field structure from similar block: '' @ patternBlockName bestMatch @
     str '' ('' @ decimal (nat (similarity bestMatch)) @ str ''% match)''"

text \<open>
  \<open>enhanceAnalysis\<close>.  \<open>blocksDir\<close> is optional: \<open>None\<close> is a call without it.  The test
  \<open>!analysis.contentStructure.itemFields\<close> holds for an absent list only; an empty array is
  truthy in the host language.
\<close>

definition enhanceAnalysis ::
  "(jstring \<Rightarrow> jstring) \<Rightarrow> BlockAnalysis \<Rightarrow> jstring \<Rightarrow> Corpus option \<Rightarrow> Enhanced" where
  "enhanceAnalysis lc analysis rawCode blocksDir =
     (let confidence0 = calculateConfidenceScore analysis;
          similar =
            (if overall confidence0 < 70
             then (case blocksDir of
                     None \<Rightarrow> []
                   | Some dir \<Rightarrow>
                       findSimilarBlockPatterns lc (blockName analysis)
                         (extractCharacteristics lc analysis rawCode) dir)
             else [])
      in case similar of
           [] \<Rightarrow> \<lparr>enhancedAnalysis = analysis, confidence = confidence0, similarPatterns = similar\<rparr>
         | bestMatch # others \<Rightarrow>
             (if fieldExtractionScore confidence0 < 50
              then \<lparr>enhancedAnalysis =
                      (if blockType analysis = multi_item \<and>
                          itemFields (contentStructure analysis) = None
                       then analysis\<lparr>contentStructure :=
                              (contentStructure analysis)\<lparr>itemFields :=
                                 Some (filter borrowable (suggestedFields bestMatch))\<rparr>\<rparr>
                       else analysis),
                    confidence =
                      confidence0\<lparr>suggestions :=
                        suggestions confidence0 @ [borrowSuggestion bestMatch]\<rparr>,
                    similarPatterns = similar\<rparr>
              else \<lparr>enhancedAnalysis = analysis, confidence = confidence0,
                    similarPatterns = similar\<rparr>))"


section \<open>Properties of the confidence scorer\<close>

text \<open>
  The adjustments as the specification lists them, and how many of them apply, each
  condition written on the components of the analysis.
\<close>

definition blockTypeAdjustment :: "BlockAnalysis \<Rightarrow> int" where
  "blockTypeAdjustment a =
     (case debugCodeSignals a of
        None \<Rightarrow> - 20
      | Some cs \<Rightarrow> (if multiItemLikely cs then 30 else 0) +
                  (if repeatedContainerNames cs = [] then 0 else 20))"

definition fieldExtractionAdjustment :: "BlockAnalysis \<Rightarrow> int" where
  "fieldExtractionAdjustment a =
     (if containerFields (contentStructure a) \<noteq> [] then 20
      else if blockType a = multi_item then - 30 else 0) +
     (if itemFields (contentStructure a) \<noteq> None \<and> itemFields (contentStructure a) \<noteq> Some []
      then 30
      else if blockType a = multi_item then - 40 else 0) +
     (case debugCodeSignals a of
        None \<Rightarrow> 0
      | Some cs \<Rightarrow> if semanticCtas cs \<noteq> None \<and> semanticCtas cs \<noteq> Some [] then 10 else 0)"

definition adjustmentCount :: "BlockAnalysis \<Rightarrow> nat" where
  "adjustmentCount a =
     (case debugCodeSignals a of
        None \<Rightarrow> 1
      | Some cs \<Rightarrow> (if multiItemLikely cs then 1 else 0) +
                  (if repeatedContainerNames cs = [] then 0 else 1)) +
     (if containerFields (contentStructure a) \<noteq> [] then 1
      else if blockType a = multi_item then 1 else 0) +
     (if itemFields (contentStructure a) \<noteq> None \<and> itemFields (contentStructure a) \<noteq> Some []
      then 1
      else if blockType a = multi_item then 1 else 0) +
     (case debugCodeSignals a of
        None \<Rightarrow> 0
      | Some cs \<Rightarrow> if semanticCtas cs \<noteq> None \<and> semanticCtas cs \<noteq> Some [] then 1 else 0)"

text \<open>The tests of the scorer, read on the data.\<close>

lemma hasContainerFields_data:
  "hasContainerFields a = (containerFields (contentStructure a) \<noteq> [])"
  by (simp add: hasContainerFields_def)

lemma hasItemFields_data:
  "hasItemFields a =
     (itemFields (contentStructure a) \<noteq> None \<and> itemFields (contentStructure a) \<noteq> Some [])"
  by (simp add: hasItemFields_def split: option.split)

lemma hasCTAs_data:
  "(if hasCTAs cso then x else y) =
     (case cso of
        None \<Rightarrow> y
      | Some cs \<Rightarrow> if semanticCtas cs \<noteq> None \<and> semanticCtas cs \<noteq> Some [] then x else y)"
  by (simp add: hasCTAs_def split: option.split)

lemma scoreBlockType_bts:
  "bts (scoreBlockType cso st) = bts st +
     (case cso of None \<Rightarrow> - 20
      | Some cs \<Rightarrow> (if multiItemLikely cs then 30 else 0) +
                  (if repeatedContainerNames cs = [] then 0 else 20))"
  by (simp add: scoreBlockType_def Let_def split: option.split)

lemma scoreBlockType_fes: "fes (scoreBlockType cso st) = fes st"
  by (simp add: scoreBlockType_def Let_def split: option.split)

lemma scoreBlockType_len:
  "length (reasonsAcc (scoreBlockType cso st)) + length (suggestionsAcc (scoreBlockType cso st)) =
     length (reasonsAcc st) + length (suggestionsAcc st) +
     (case cso of None \<Rightarrow> 1
      | Some cs \<Rightarrow> (if multiItemLikely cs then 1 else 0) +
                  (if repeatedContainerNames cs = [] then 0 else 1))"
  by (simp add: scoreBlockType_def Let_def split: option.split)

lemma scoreContainerFields_bts: "bts (scoreContainerFields a st) = bts st"
  by (simp add: scoreContainerFields_def)

lemma scoreContainerFields_fes:
  "fes (scoreContainerFields a st) = fes st +
     (if hasContainerFields a then 20 else if blockType a = multi_item then - 30 else 0)"
  by (simp add: scoreContainerFields_def)

lemma scoreContainerFields_len:
  "length (reasonsAcc (scoreContainerFields a st)) + length (suggestionsAcc (scoreContainerFields a st)) =
     length (reasonsAcc st) + length (suggestionsAcc st) +
     (if hasContainerFields a then 1 else if blockType a = multi_item then 1 else 0)"
  by (simp add: scoreContainerFields_def)

lemma scoreItemFields_bts: "bts (scoreItemFields a st) = bts st"
  by (simp add: scoreItemFields_def)

lemma scoreItemFields_fes:
  "fes (scoreItemFields a st) = fes st +
     (if hasItemFields a then 30 else if blockType a = multi_item then - 40 else 0)"
  by (simp add: scoreItemFields_def)

lemma scoreItemFields_len:
  "length (reasonsAcc (scoreItemFields a st)) + length (suggestionsAcc (scoreItemFields a st)) =
     length (reasonsAcc st) + length (suggestionsAcc st) +
     (if hasItemFields a then 1 else if blockType a = multi_item then 1 else 0)"
  by (simp add: scoreItemFields_def)

lemma scoreCTAs_bts: "bts (scoreCTAs cso st) = bts st"
  by (simp add: scoreCTAs_def)

lemma scoreCTAs_fes: "fes (scoreCTAs cso st) = fes st + (if hasCTAs cso then 10 else 0)"
  by (simp add: scoreCTAs_def)

lemma scoreCTAs_len:
  "length (reasonsAcc (scoreCTAs cso st)) + length (suggestionsAcc (scoreCTAs cso st)) =
     length (reasonsAcc st) + length (suggestionsAcc st) + (if hasCTAs cso then 1 else 0)"
  by (simp add: scoreCTAs_def)

lemma score_blockType_value:
  "blockTypeScore (calculateConfidenceScore a) = max 0 (min 100 (50 + blockTypeAdjustment a))"
  unfolding calculateConfidenceScore_def Let_def blockTypeAdjustment_def
  by (simp only: ConfidenceScore.select_convs ScoreState.select_convs scoreCTAs_bts
      scoreItemFields_bts scoreContainerFields_bts scoreBlockType_bts)

lemma score_fieldExtraction_value:
  "fieldExtractionScore (calculateConfidenceScore a) =
     max 0 (min 100 (50 + fieldExtractionAdjustment a))"
proof -
  have "fieldExtractionScore (calculateConfidenceScore a) =
     max 0 (min 100 (50 +
       ((if hasContainerFields a then 20 else if blockType a = multi_item then - 30 else 0) +
        (if hasItemFields a then 30 else if blockType a = multi_item then - 40 else 0) +
        (if hasCTAs (debugCodeSignals a) then 10 else 0))))"
    unfolding calculateConfidenceScore_def Let_def
    by (simp only: ConfidenceScore.select_convs ScoreState.select_convs scoreCTAs_fes
        scoreItemFields_fes scoreContainerFields_fes scoreBlockType_fes add.assoc)
  then show ?thesis
    by (simp only: fieldExtractionAdjustment_def hasContainerFields_data hasItemFields_data
        hasCTAs_data)
qed

lemma score_overall_value:
  "overall (calculateConfidenceScore a) =
     Math_round (of_int (blockTypeScore (calculateConfidenceScore a) +
                         fieldExtractionScore (calculateConfidenceScore a)) / 2)"
  unfolding calculateConfidenceScore_def Let_def
  by (simp only: ConfidenceScore.select_convs)

lemma score_trail_length:
  "length (reasons (calculateConfidenceScore a)) + length (suggestions (calculateConfidenceScore a))
     = adjustmentCount a"
proof -
  have "length (reasons (calculateConfidenceScore a)) +
        length (suggestions (calculateConfidenceScore a)) =
     (case debugCodeSignals a of
        None \<Rightarrow> 1
      | Some cs \<Rightarrow> (if multiItemLikely cs then 1 else 0) +
                  (if repeatedContainerNames cs = [] then 0 else 1)) +
     (if hasContainerFields a then 1 else if blockType a = multi_item then 1 else 0) +
     (if hasItemFields a then 1 else if blockType a = multi_item then 1 else 0) +
     (if hasCTAs (debugCodeSignals a) then 1 else 0)"
    unfolding calculateConfidenceScore_def Let_def
    by (simp only: ConfidenceScore.select_convs ScoreState.select_convs scoreCTAs_len
        scoreItemFields_len scoreContainerFields_len scoreBlockType_len list.size add_0)
  then show ?thesis
    by (simp only: adjustmentCount_def hasContainerFields_data hasItemFields_data hasCTAs_data)
qed

lemma Math_round_half: "Math_round (of_int n / 2) = (n + 1) div 2"
proof -
  have e: "(of_int n / 2 + 1 / 2 :: rat) = of_int (n + 1) / of_int 2"
    by (simp add: add_divide_distrib)
  show ?thesis
    unfolding Math_round_def e by (rule floor_divide_of_int_eq)
qed

text \<open>
  Claim C1.  Both sub-scores start at 50.  The block-type score gets +30 when the signal bag
  says multi-item, +20 when it holds repeated-container names, and -20 when there is no
  signal bag.  The field-extraction score gets +20 when the list of container fields is not
  empty (else -30 when the block is multi-item), +30 when the list of item fields is present
  and not empty (else -40 when multi-item) and +10 when the signal bag holds at least one
  CTA.  Both are clamped to 0..100, the overall score is the rounded average, and every
  adjustment appends one reason or suggestion.  \<open>blockTypeAdjustment\<close>,
  \<open>fieldExtractionAdjustment\<close> and \<open>adjustmentCount\<close> state the conditions on the analysis
  itself.
\<close>

theorem C1_confidence_score:
  "blockTypeScore (calculateConfidenceScore a) = max 0 (min 100 (50 + blockTypeAdjustment a)) \<and>
   fieldExtractionScore (calculateConfidenceScore a) =
     max 0 (min 100 (50 + fieldExtractionAdjustment a)) \<and>
   0 \<le> blockTypeScore (calculateConfidenceScore a) \<and>
   blockTypeScore (calculateConfidenceScore a) \<le> 100 \<and>
   0 \<le> fieldExtractionScore (calculateConfidenceScore a) \<and>
   fieldExtractionScore (calculateConfidenceScore a) \<le> 100 \<and>
   overall (calculateConfidenceScore a) =
     Math_round (of_int (blockTypeScore (calculateConfidenceScore a) +
                         fieldExtractionScore (calculateConfidenceScore a)) / 2) \<and>
   overall (calculateConfidenceScore a) =
     (blockTypeScore (calculateConfidenceScore a) +
      fieldExtractionScore (calculateConfidenceScore a) + 1) div 2 \<and>
   length (reasons (calculateConfidenceScore a)) +
     length (suggestions (calculateConfidenceScore a)) = adjustmentCount a"
proof -
  have bt: "blockTypeScore (calculateConfidenceScore a) =
      max 0 (min 100 (50 + blockTypeAdjustment a))"
    by (rule score_blockType_value)
  have fe: "fieldExtractionScore (calculateConfidenceScore a) =
      max 0 (min 100 (50 + fieldExtractionAdjustment a))"
    by (rule score_fieldExtraction_value)
  have ov: "overall (calculateConfidenceScore a) =
     Math_round (of_int (blockTypeScore (calculateConfidenceScore a) +
                         fieldExtractionScore (calculateConfidenceScore a)) / 2)"
    by (rule score_overall_value)
  have ov2: "overall (calculateConfidenceScore a) =
     (blockTypeScore (calculateConfidenceScore a) +
      fieldExtractionScore (calculateConfidenceScore a) + 1) div 2"
    unfolding ov by (rule Math_round_half)
  have b1: "0 \<le> blockTypeScore (calculateConfidenceScore a)" unfolding bt by simp
  have b2: "blockTypeScore (calculateConfidenceScore a) \<le> 100" unfolding bt by simp
  have f1: "0 \<le> fieldExtractionScore (calculateConfidenceScore a)" unfolding fe by simp
  have f2: "fieldExtractionScore (calculateConfidenceScore a) \<le> 100" unfolding fe by simp
  show ?thesis
    by (intro conjI bt fe b1 b2 f1 f2 ov ov2 score_trail_length)
qed


section \<open>Properties of the similarity matcher\<close>

lemma collectPatterns_above_40:
  "list_all (\<lambda>p. 40 < similarity p) acc \<Longrightarrow>
   list_all (\<lambda>p. 40 < similarity p) (collectPatterns lc n cs es acc)"
  by (induction lc n cs es acc rule: collectPatterns.induct) (simp_all add: Let_def)

text \<open>Every pattern the matcher returns scores above 40.\<close>

lemma findSimilar_above_40:
  "list_all (\<lambda>p. 40 < similarity p) (findSimilarBlockPatterns lc n cs d)"
proof (cases d)
  case (Listing es)
  have "list_all (\<lambda>p. 40 < similarity p) (collectPatterns lc n cs es [])"
    by (rule collectPatterns_above_40) simp
  then show ?thesis
    by (simp add: findSimilarBlockPatterns_def sortBySimilarity_def Listing list_all_iff)
qed (simp_all add: findSimilarBlockPatterns_def sortBySimilarity_def)

lemma sortBySimilarity_descending:
  "sorted_wrt (\<lambda>x y. y \<le> x) (map similarity (sortBySimilarity ps))"
proof -
  have "sorted (map (\<lambda>p. - similarity p) (sortBySimilarity ps))"
    unfolding sortBySimilarity_def by (rule sorted_sort_key)
  then have "sorted_wrt (\<lambda>x y. - x \<le> - y) (map similarity (sortBySimilarity ps))"
    by (simp add: sorted_wrt_map)
  then show ?thesis by simp
qed

text \<open>The returned list is in descending order of similarity.\<close>

lemma findSimilar_descending:
  "sorted_wrt (\<lambda>x y. y \<le> x) (map similarity (findSimilarBlockPatterns lc n cs d))"
  by (cases d) (simp_all add: findSimilarBlockPatterns_def sortBySimilarity_descending)

text \<open>
  A corpus with the single entry \<open>card-carousel\<close>, whose model document has one filter.
\<close>

definition carouselCorpus :: Corpus where
  "carouselCorpus =
     Listing [(str ''card-carousel'', Model \<lparr>filtersLength = Some 1, models = None\<rparr>)]"

text \<open>
  Claim C2.  Every pattern returned by \<open>findSimilar\<close> has a similarity above 40 and at most
  100, and the list is in descending order.  The lower bound and the order hold
  (\<open>findSimilar_above_40\<close>, \<open>findSimilar_descending\<close>); the upper bound does not.  The name
  gives up to 30 points and each of the three structural signals 35, and the sum is divided
  by a maximum of 100 without a cap: for the block name \<open>card-carousel\<close> with the
  characteristics \<open>multi-item\<close>, \<open>carousel\<close> and \<open>cards\<close>, the corpus entry of the same name
  scores 30 + 35 + 35 + 35 = 135.
\<close>

theorem C2_similarity_above_100:
  "map similarity
     (findSimilarBlockPatterns asciiLower (str ''card-carousel'')
        [str ''multi-item'', str ''carousel'', str ''cards''] carouselCorpus) = [135]"
  by code_simp


section \<open>Properties of the enhancement step\<close>

text \<open>An item-field list that is present, empty or not, is never replaced.\<close>

lemma enhance_present_itemFields:
  "itemFields (contentStructure a) = Some fs \<Longrightarrow>
   enhancedAnalysis (enhanceAnalysis lc a rawCode blocksDir) = a"
  by (simp add: enhanceAnalysis_def Let_def split: list.split)

text \<open>An absent item-field list of a multi-item block is filled from the best match.\<close>

lemma enhance_absent_itemFields:
  "itemFields (contentStructure a) = None \<Longrightarrow> blockType a = multi_item \<Longrightarrow>
   fieldExtractionScore (calculateConfidenceScore a) < 50 \<Longrightarrow>
   similarPatterns (enhanceAnalysis lc a rawCode blocksDir) = best # others \<Longrightarrow>
   itemFields (contentStructure (enhancedAnalysis (enhanceAnalysis lc a rawCode blocksDir))) =
     Some (filter borrowable (suggestedFields best))"
  by (auto simp add: enhanceAnalysis_def Let_def split: list.splits if_splits option.splits)

text \<open>
  A multi-item analysis as \<open>analyze\<close> builds it when the field deriver finds nothing: both
  field lists are empty arrays.  The corpus holds one block, \<open>cards\<close>, with a filter and a
  \<open>title\<close> field.
\<close>

definition emptyCardsAnalysis :: BlockAnalysis where
  "emptyCardsAnalysis =
     \<lparr>blockType = multi_item, blockName = str ''feature-cards'',
      contentStructure = \<lparr>containerFields = [], itemFields = Some [],
                           configurationOptions = [str ''light'', str ''dark''],
                           jsPattern = cards\<rparr>,
      debug = Some \<lparr>codeSignals = Some
                \<lparr>repeatedContainerNames = [(str ''card'', 2)], distinctHeadings = [],
                 actionButtonCount = 0, itemLikeContainerCount = 0, multiItemLikely = True,
                 semanticCtas = Some []\<rparr>\<rparr>\<rparr>"

definition cardsCorpus :: Corpus where
  "cardsCorpus = Listing [(str ''cards'', Model
     \<lparr>filtersLength = Some 1,
      models = Some [\<lparr>defFields = Some
        [\<lparr>fieldName = str ''title'', fieldLabel = Some (str ''Title''),
          fieldComponent = Some (str ''text''), fieldValueType = Some (str ''string''),
          fieldRequired = None, fieldMaxLength = None, fieldDescription = None\<rparr>]\<rparr>]\<rparr>)]"

text \<open>
  Claim C5.  When the overall confidence is below 70, the field-extraction score below 50, a
  similar pattern survives and the analysis is multi-item with an empty item-field list, the
  enhancement step fills the item-field list from the top match's fields and appends a
  suggestion that names the source.  On \<open>emptyCardsAnalysis\<close> every condition holds (overall
  50, field extraction 0, the match \<open>cards\<close> offers the field \<open>title\<close>), the suggestion is
  appended, and the item-field list stays empty: the step tests
  \<open>!analysis.contentStructure.itemFields\<close>, which is false for an empty array.
\<close>

theorem C5_empty_itemFields_not_populated:
  "overall (calculateConfidenceScore emptyCardsAnalysis) < 70 \<and>
   fieldExtractionScore (calculateConfidenceScore emptyCardsAnalysis) < 50 \<and>
   blockType emptyCardsAnalysis = multi_item \<and>
   itemFields (contentStructure emptyCardsAnalysis) = Some [] \<and>
   map (\<lambda>p. map name (filter borrowable (suggestedFields p)))
     (similarPatterns (enhanceAnalysis asciiLower emptyCardsAnalysis [] (Some cardsCorpus))) =
     [[str ''title'']] \<and>
   itemFields (contentStructure
     (enhancedAnalysis (enhanceAnalysis asciiLower emptyCardsAnalysis [] (Some cardsCorpus)))) =
     Some [] \<and>
   last (suggestions (confidence (enhanceAnalysis asciiLower emptyCardsAnalysis []
     (Some cardsCorpus)))) =
     str ''Consider using field structure from similar block: cards (82% match)''"
  by code_simp


section \<open>Properties of the block name\<close>

text \<open>
  A greedy quantifier over a pattern that matches one unit of a class takes the whole run
  of such units.
\<close>

lemma clearCaps_nil [simp]: "clearCaps [] x = x"
  by (cases x) (simp add: clearCaps_def case_prod_beta)

lemma star_unit:
  assumes U: "\<And>k x. matcher fg (FRe a # k) x =
      (case rest x of [] \<Rightarrow> None
       | d # ds \<Rightarrow> if P d then matcher fg k (St (Suc (pos x)) (Some d) ds (caps x)) else None)"
    and G: "groupsOf a = []"
  shows "matcher fg [FRe (RRep a 0 None True)] (St p pr rs cs) =
     Some (St (p + length (takeWhile P rs))
              (if takeWhile P rs = [] then pr else Some (last (takeWhile P rs)))
              (dropWhile P rs) cs)"
proof (induction rs arbitrary: p pr)
  case Nil
  show ?case by (simp add: U G decMax_def)
next
  case (Cons d ds)
  show ?case
  proof (cases "P d")
    case True
    then show ?thesis using Cons.IH [of "Suc p" "Some d"]
      by (simp add: U G decMax_def)
  next
    case False
    then show ?thesis by (simp add: U G decMax_def)
  qed
qed

lemma plus_unit:
  assumes U: "\<And>k x. matcher fg (FRe a # k) x =
      (case rest x of [] \<Rightarrow> None
       | d # ds \<Rightarrow> if P d then matcher fg k (St (Suc (pos x)) (Some d) ds (caps x)) else None)"
    and G: "groupsOf a = []"
  shows "matchAt fg (oneOrMore a) (St p pr rs cs) =
     (case rs of [] \<Rightarrow> None
      | d # ds \<Rightarrow>
          if P d
          then Some (St (Suc p + length (takeWhile P ds))
                        (if takeWhile P ds = [] then Some d else Some (last (takeWhile P ds)))
                        (dropWhile P ds) [])
          else None)"
proof (cases rs)
  case Nil
  then show ?thesis by (simp add: matchAt_def oneOrMore_def U G decMax_def)
next
  case (Cons d ds)
  then show ?thesis
    using star_unit [OF U G, of "Suc p" "Some d" ds "[]"]
    by (simp add: matchAt_def oneOrMore_def U G decMax_def)
qed

lemma unit_RChr:
  "matcher noFlags (FRe (RChr c) # k) x =
     (case rest x of [] \<Rightarrow> None
      | d # ds \<Rightarrow> if d = c then matcher noFlags k (St (Suc (pos x)) (Some d) ds (caps x)) else None)"
  by (cases "rest x") (simp_all add: canon_def noFlags_def)

lemma unit_RSet:
  "matcher fg (FRe (RSet neg items) # k) x =
     (case rest x of [] \<Rightarrow> None
      | d # ds \<Rightarrow> if classHas fg neg items d
                  then matcher fg k (St (Suc (pos x)) (Some d) ds (caps x)) else None)"
  by simp


text \<open>
  What the replacements of \<open>sanitizeBlockName\<close> compute: \<open>collapseRuns P h\<close> puts one \<open>h\<close> for
  every maximal run of units in \<open>P\<close>, and the last replacement drops one leading and one
  trailing hyphen.
\<close>

function collapseRuns :: "(nat \<Rightarrow> bool) \<Rightarrow> nat \<Rightarrow> jstring \<Rightarrow> jstring" where
  "collapseRuns P h [] = []"
| "collapseRuns P h (d # ds) =
     (if P d then h # collapseRuns P h (dropWhile P ds) else d # collapseRuns P h ds)"
  by pat_completeness auto
termination
  by (relation "measure (\<lambda>(P, h, s). length s)") (auto simp: length_dropWhile_le less_Suc_eq_le)

lemma replace_unit_removed:
  "replaceFrom fg (RSet neg items) (\<lambda>mt. []) (St p pr rs cs) =
     filter (\<lambda>d. \<not> classHas fg neg items d) rs"
proof (induction rs arbitrary: p pr cs)
  case Nil
  show ?case by (simp add: replaceFrom.simps [of _ _ _ "St p pr [] cs"] matchAt_def)
next
  case (Cons d ds)
  show ?case
    by (simp add: replaceFrom.simps [of _ _ _ "St p pr (d # ds) cs"] matchAt_def Cons.IH)
qed

lemma replace_runs_collapsed:
  assumes U: "\<And>k x. matcher fg (FRe a # k) x =
      (case rest x of [] \<Rightarrow> None
       | d # ds \<Rightarrow> if P d then matcher fg k (St (Suc (pos x)) (Some d) ds (caps x)) else None)"
    and G: "groupsOf a = []"
  shows "replaceFrom fg (oneOrMore a) (\<lambda>mt. [h]) (St p pr rs cs) = collapseRuns P h rs"
proof (induction "length rs" arbitrary: rs p pr cs rule: less_induct)
  case less
  show ?case
  proof (cases rs)
    case Nil
    then show ?thesis
      by (simp add: replaceFrom.simps [of _ _ _ "St p pr [] cs"] plus_unit [OF U G])
  next
    case (Cons d ds)
    show ?thesis
    proof (cases "P d")
      case True
      have "length (dropWhile P ds) < length rs"
        using Cons by (simp add: length_dropWhile_le less_Suc_eq_le)
      from less [OF this] True show ?thesis
        by (simp add: Cons replaceFrom.simps [of _ _ _ "St p pr (d # ds) cs"] plus_unit [OF U G])
    next
      case False
      have "length ds < length rs" using Cons by simp
      from less [OF this] False show ?thesis
        by (simp add: Cons replaceFrom.simps [of _ _ _ "St p pr (d # ds) cs"] plus_unit [OF U G])
    qed
  qed
qed


definition dropLeadingHyphen :: "jstring \<Rightarrow> jstring" where
  "dropLeadingHyphen s = (case s of [] \<Rightarrow> [] | d # ds \<Rightarrow> if d = 45 then ds else d # ds)"

definition dropTrailingHyphen :: "jstring \<Rightarrow> jstring" where
  "dropTrailingHyphen s = (if s \<noteq> [] \<and> last s = 45 then butlast s else s)"

lemma matchAt_edgeHyphen:
  "matchAt noFlags edgeHyphen (St p pr rs cs) =
     (case rs of
        [] \<Rightarrow> None
      | d # ds \<Rightarrow>
          if p = 0 \<and> d = 45 then Some (St (Suc p) (Some 45) ds [])
          else if d = 45 \<and> ds = [] then Some (St (Suc p) (Some 45) [] [])
          else None)"
  by (cases rs)
     (auto simp: matchAt_def edgeHyphen_def atLineStart_def atLineEnd_def noFlags_def canon_def
           split: list.splits)

lemma replace_edge_nil:
  "replaceFrom noFlags edgeHyphen (\<lambda>mt. []) (St p pr [] cs) = []"
  by (simp add: replaceFrom.simps [of _ _ _ "St p pr [] cs"] matchAt_edgeHyphen)

lemma replace_edge_later:
  "0 < p \<Longrightarrow> replaceFrom noFlags edgeHyphen (\<lambda>mt. []) (St p pr rs cs) = dropTrailingHyphen rs"
proof (induction rs arbitrary: p pr cs)
  case Nil
  show ?case
    by (simp add: replaceFrom.simps [of _ _ _ "St p pr [] cs"] matchAt_edgeHyphen
        dropTrailingHyphen_def)
next
  case (Cons d ds)
  have later: "replaceFrom noFlags edgeHyphen (\<lambda>mt. []) (St (Suc p) (Some d) ds []) =
      dropTrailingHyphen ds"
    by (rule Cons.IH) simp
  from Cons.prems show ?case
    by (simp add: replaceFrom.simps [of _ _ _ "St p pr (d # ds) cs"] matchAt_edgeHyphen
        later replace_edge_nil dropTrailingHyphen_def)
qed

lemma replace_edge:
  "replaceAll noFlags edgeHyphen (\<lambda>mt. []) s = dropTrailingHyphen (dropLeadingHyphen s)"
proof (cases s)
  case Nil
  then show ?thesis
    by (simp add: replaceAll_def start_def replaceFrom.simps [of _ _ _ "St 0 None [] []"]
        matchAt_edgeHyphen dropTrailingHyphen_def dropLeadingHyphen_def)
next
  case (Cons d ds)
  have l1: "\<And>q. replaceFrom noFlags edgeHyphen (\<lambda>mt. []) (St (Suc 0) q ds []) =
      dropTrailingHyphen ds"
    by (rule replace_edge_later) simp
  show ?thesis
    by (simp add: Cons replaceAll_def start_def
        replaceFrom.simps [of _ _ _ "St 0 None (d # ds) []"] matchAt_edgeHyphen l1
        replace_edge_nil dropLeadingHyphen_def dropTrailingHyphen_def)
qed


text \<open>The units of a block name, and \<open>String.prototype.endsWith\<close>.\<close>

definition nameChar :: "nat \<Rightarrow> bool" where
  "nameChar c = ((97 \<le> c \<and> c \<le> 122) \<or> (48 \<le> c \<and> c \<le> 57) \<or> c = 45)"

definition endsWith :: "jstring \<Rightarrow> jstring \<Rightarrow> bool" where
  "endsWith s p = startsWith (rev s) (rev p)"

fun noAdjacent :: "nat \<Rightarrow> jstring \<Rightarrow> bool" where
  "noAdjacent h (a # b # xs) = (\<not> (a = h \<and> b = h) \<and> noAdjacent h (b # xs))"
| "noAdjacent h xs = True"

lemma startsWith_single: "startsWith r [h] = (r \<noteq> [] \<and> hd r = h)"
  by (cases r) auto

lemma str_includes_pair: "str_includes r [h, h] = (\<not> noAdjacent h r)"
  by (induction h r rule: noAdjacent.induct) (auto simp: startsWith_single)

lemma collapseRuns_all:
  "list_all Q rs \<Longrightarrow> list_all (\<lambda>d. d = h \<or> (Q d \<and> \<not> P d)) (collapseRuns P h rs)"
proof (induction P h rs rule: collapseRuns.induct)
  case (1 P h)
  show ?case by simp
next
  case (2 P h d ds)
  have "list_all Q (dropWhile P ds)"
    using "2.prems" set_dropWhileD [of _ P ds] by (auto simp: list_all_iff)
  with 2 show ?case by auto
qed

lemma collapseRuns_start:
  "rs = [] \<or> hd rs \<noteq> h \<Longrightarrow>
   collapseRuns (\<lambda>d. d = h) h rs = [] \<or> hd (collapseRuns (\<lambda>d. d = h) h rs) \<noteq> h"
  by (cases rs) auto

lemma noAdjacent_Cons:
  "noAdjacent h xs \<Longrightarrow> xs = [] \<or> hd xs \<noteq> h \<or> a \<noteq> h \<Longrightarrow> noAdjacent h (a # xs)"
  by (cases xs) auto

lemma collapseRuns_noAdjacent: "noAdjacent h (collapseRuns (\<lambda>d. d = h) h rs)"
proof (induction "length rs" arbitrary: rs rule: less_induct)
  case less
  show ?case
  proof (cases rs)
    case Nil
    then show ?thesis by simp
  next
    case (Cons d ds)
    show ?thesis
    proof (cases "d = h")
      case True
      let ?t = "dropWhile (\<lambda>d. d = h) ds"
      have "length ?t < length rs"
        using Cons by (simp add: length_dropWhile_le less_Suc_eq_le)
      then have ih: "noAdjacent h (collapseRuns (\<lambda>d. d = h) h ?t)" by (rule less)
      have "?t = [] \<or> hd ?t \<noteq> h"
        using hd_dropWhile [of "\<lambda>d. d = h" ds] by auto
      then have "collapseRuns (\<lambda>d. d = h) h ?t = [] \<or> hd (collapseRuns (\<lambda>d. d = h) h ?t) \<noteq> h"
        by (rule collapseRuns_start)
      with ih have "noAdjacent h (h # collapseRuns (\<lambda>d. d = h) h ?t)"
        by (intro noAdjacent_Cons) auto
      with True Cons show ?thesis by simp
    next
      case False
      have "length ds < length rs" using Cons by simp
      then have "noAdjacent h (collapseRuns (\<lambda>d. d = h) h ds)" by (rule less)
      with False have "noAdjacent h (d # collapseRuns (\<lambda>d. d = h) h ds)"
        by (intro noAdjacent_Cons) auto
      with False Cons show ?thesis by simp
    qed
  qed
qed

lemma noAdjacent_tl: "noAdjacent h (a # xs) \<Longrightarrow> noAdjacent h xs"
  by (cases xs) auto

lemma noAdjacent_butlast: "noAdjacent h xs \<Longrightarrow> noAdjacent h (butlast xs)"
  by (induction h xs rule: noAdjacent.induct) (auto split: if_splits)

lemma noAdjacent_last:
  "noAdjacent h xs \<Longrightarrow> xs \<noteq> [] \<Longrightarrow> last xs = h \<Longrightarrow> butlast xs = [] \<or> last (butlast xs) \<noteq> h"
  by (induction h xs rule: noAdjacent.induct) (auto split: if_splits)

lemma dropLeading_props:
  assumes "noAdjacent 45 s" "list_all nameChar s"
  shows "noAdjacent 45 (dropLeadingHyphen s)" "list_all nameChar (dropLeadingHyphen s)"
    "dropLeadingHyphen s = [] \<or> hd (dropLeadingHyphen s) \<noteq> 45"
  using assms by (cases s; cases "tl s"; auto simp: dropLeadingHyphen_def)+

lemma dropTrailing_props:
  assumes "noAdjacent 45 t" "list_all nameChar t" "t = [] \<or> hd t \<noteq> 45"
  shows "noAdjacent 45 (dropTrailingHyphen t)" "list_all nameChar (dropTrailingHyphen t)"
    "dropTrailingHyphen t = [] \<or> hd (dropTrailingHyphen t) \<noteq> 45"
    "dropTrailingHyphen t = [] \<or> last (dropTrailingHyphen t) \<noteq> 45"
proof -
  show "noAdjacent 45 (dropTrailingHyphen t)"
    using assms(1) by (simp add: dropTrailingHyphen_def noAdjacent_butlast)
  show "list_all nameChar (dropTrailingHyphen t)"
    using assms(2) by (auto simp: dropTrailingHyphen_def list_all_iff dest: in_set_butlastD)
  show "dropTrailingHyphen t = [] \<or> hd (dropTrailingHyphen t) \<noteq> 45"
    using assms(3) by (cases t; cases "tl t"; auto simp: dropTrailingHyphen_def)
  show "dropTrailingHyphen t = [] \<or> last (dropTrailingHyphen t) \<noteq> 45"
    using noAdjacent_last [OF assms(1)] by (auto simp: dropTrailingHyphen_def)
qed

lemma space_class: "classHas noFlags False [CSpace] d = isSpace d"
  by (simp add: classHas_def noFlags_def)

lemma unit_ws:
  "matcher noFlags (FRe (RSet False [CSpace]) # k) x =
     (case rest x of [] \<Rightarrow> None
      | d # ds \<Rightarrow> if isSpace d then matcher noFlags k (St (Suc (pos x)) (Some d) ds (caps x))
                  else None)"
  by (cases "rest x") (simp_all add: space_class)

lemma nameUnit_class:
  "(\<not> classHas noFlags True [CRange 97 122, CRange 48 57, CSpace, CChar 45] d) =
     (nameChar d \<or> isSpace d)"
  by (auto simp: classHas_def noFlags_def nameChar_def)

lemma sanitize_eq:
  "sanitizeBlockName lc n =
     dropTrailingHyphen (dropLeadingHyphen
       (collapseRuns (\<lambda>d. d = 45) 45
         (collapseRuns isSpace 45 (filter (\<lambda>d. nameChar d \<or> isSpace d) (lc n)))))"
proof -
  have hy: "\<And>s. replaceAll noFlags (oneOrMore (RChr 45)) (\<lambda>mt. [45]) s =
      collapseRuns (\<lambda>d. d = 45) 45 s"
    unfolding replaceAll_def start_def
    by (rule replace_runs_collapsed [OF unit_RChr]) simp
  have sp: "\<And>s. replaceAll noFlags (oneOrMore ws) (\<lambda>mt. [45]) s = collapseRuns isSpace 45 s"
    unfolding replaceAll_def start_def ws_def
    by (rule replace_runs_collapsed [OF unit_ws]) simp
  have nu: "\<And>s. replaceAll noFlags nameUnit (\<lambda>mt. []) s =
      filter (\<lambda>d. nameChar d \<or> isSpace d) s"
    unfolding replaceAll_def start_def nameUnit_def
    by (simp add: replace_unit_removed nameUnit_class)
  show ?thesis
    by (simp only: sanitizeBlockName_def replace_edge hy sp nu)
qed

text \<open>
  Claim C10.  For every node name, the block name of the analysis (\<open>sanitizeBlockName\<close> of
  the node name, whatever the lowering function) consists of lower-case ASCII letters, digits
  and hyphens only, has no two hyphens in a row, and neither starts nor ends with a hyphen.
\<close>

theorem C10_blockName_shape:
  "list_all nameChar (sanitizeBlockName lc n) \<and>
   \<not> str_includes (sanitizeBlockName lc n) (str ''--'') \<and>
   \<not> startsWith (sanitizeBlockName lc n) (str ''-'') \<and>
   \<not> endsWith (sanitizeBlockName lc n) (str ''-'')"
proof -
  let ?s1 = "filter (\<lambda>d. nameChar d \<or> isSpace d) (lc n)"
  let ?s2 = "collapseRuns isSpace 45 ?s1"
  let ?s3 = "collapseRuns (\<lambda>d. d = 45) 45 ?s2"
  let ?t = "dropLeadingHyphen ?s3"
  have a1: "list_all (\<lambda>d. nameChar d \<or> isSpace d) ?s1" by (simp add: list_all_iff)
  have "list_all (\<lambda>d. d = 45 \<or> ((nameChar d \<or> isSpace d) \<and> \<not> isSpace d)) ?s2"
    using a1 by (rule collapseRuns_all)
  then have a2: "list_all nameChar ?s2" by (auto simp: list_all_iff nameChar_def)
  have "list_all (\<lambda>d. d = 45 \<or> (nameChar d \<and> \<not> d = 45)) ?s3"
    using a2 by (rule collapseRuns_all)
  then have a3: "list_all nameChar ?s3" by (auto simp: list_all_iff nameChar_def)
  have n3: "noAdjacent 45 ?s3" by (rule collapseRuns_noAdjacent)
  note lead = dropLeading_props [OF n3 a3]
  note trail = dropTrailing_props [OF lead]
  have e: "sanitizeBlockName lc n = dropTrailingHyphen ?t" by (rule sanitize_eq)
  have p1: "list_all nameChar (sanitizeBlockName lc n)" unfolding e by (rule trail(2))
  have p2: "\<not> str_includes (sanitizeBlockName lc n) (str ''--'')"
    unfolding e using trail(1) by (simp add: str_def str_includes_pair)
  have p3: "\<not> startsWith (sanitizeBlockName lc n) (str ''-'')"
    unfolding e using trail(3) by (auto simp: str_def startsWith_single)
  have p4: "\<not> endsWith (sanitizeBlockName lc n) (str ''-'')"
    unfolding e using trail(4) by (auto simp: str_def endsWith_def startsWith_single hd_rev)
  show ?thesis by (intro conjI p1 p2 p3 p4)
qed


section \<open>Running the model\<close>

text \<open>
  The definitions a run on a concrete input unfolds.  The simplifier evaluates a \<open>case\<close> or
  an \<open>if\<close> only after its condition, so a run follows the branch the program takes.
\<close>

lemmas rx_eval = replaceAll_def firstMatch_def replaceFirst_def allMatches_def test_def start_def
  matchAt_def lit_def seq_def oneOrMore_def star_def lazyStar_def opt_def oneOf_def noneOf_def
  ws_def anyUnit_def noFlags_def iFlag_def mFlag_def str_def asciiLower_def asciiLowerUnit_def
  canon_def classHas_def isSpace_def isLineTerminator_def atLineStart_def atLineEnd_def
  clearCaps_def setCap_def decMax_def groupOrEmpty_def group_def matched_def swapCase_def trim_def
  allFrom.simps replaceFrom.simps quoteMark_def nonQuote_def

lemmas simplifier_eval = simplify_def extractJSX_def convertReactToHTML_def
  removeClassAttributes_def removeInlineStyles_def collapseLayoutWrappers_def collapseNamed_def
  collapseSemantic_def simplifyImages_def normalizeWhitespace_def returnStatement_def outerDiv_def
  templateLiteral_def imageVariable_def classAttribute_def styleObject_def styleAttribute_def
  namedDivWrapper_def semanticWrapper_def namedContainer_def imgTag_def firstImage_def
  vectorWrapper_def

lemmas signals_eval = countContainerNames_def containerNamePatterns_def
  containerNameRegex_def headingPattern_def tagPattern_def stripTags_def headingGroup_def
  headingTexts_def actionKeywords_def actionPattern_def countActionButtons_def buttonPattern_def
  buttonCta_def linkPattern_def linkAdmitted_def linkCta_def divButtonPattern_def
  paragraphPattern_def spanPattern_def bareTextPattern_def divButtonText_def divButtonCta_def
  collectCtas_def itemLikePattern_def genericContainerPattern_def smallHeadingPattern_def
  bulletPattern_def genericContainerCount_def smallHeadingCount_def bulletCount_def
  genericContainerMultiItemSignal_def hasRepeatedContainers_def Let_def



section \<open>Properties of the normalizer\<close>

lemma search_None_replace:
  "searchFrom fg r p pr rs = None \<Longrightarrow> replaceFrom fg r f (St p pr rs cs) = rs"
proof (induction rs arbitrary: p pr cs)
  case Nil
  then show ?case
    by (simp add: replaceFrom.simps [of _ _ _ "St p pr [] cs"] matchAt_def split: option.splits)
next
  case (Cons d ds)
  from Cons.prems have a: "matchAt fg r (St p pr (d # ds) cs) = None"
    and b: "searchFrom fg r (Suc p) (Some d) ds = None"
    by (simp_all add: matchAt_def split: option.splits)
  from Cons.IH [OF b] a show ?case
    by (simp add: replaceFrom.simps [of _ _ _ "St p pr (d # ds) cs"])
qed

lemma no_test_firstMatch: "\<not> test fg r s \<Longrightarrow> firstMatch fg r s = None"
  by (simp add: test_def split: option.splits)

lemma no_test_replaceAll: "\<not> test fg r s \<Longrightarrow> replaceAll fg r f s = s"
  by (simp add: replaceAll_def start_def search_None_replace no_test_firstMatch [unfolded firstMatch_def])

text \<open>
  The patterns of the normalizer, in the order it applies them, and the inputs none of them
  matches.
\<close>

definition simplifierPatterns :: "re list" where
  "simplifierPatterns =
     [returnStatement, outerDiv, lit ''className='', templateLiteral, imageVariable,
      classAttribute, styleObject, styleAttribute, namedDivWrapper, semanticWrapper,
      namedContainer ''Icon'', namedContainer ''Image'', vectorWrapper,
      RRep ws 2 None True, seq [lit ''>'', oneOrMore ws, lit ''<''], lit ''</div>'',
      RRep (RChr 10) 3 None True]"

definition noPatternMatches :: "jstring \<Rightarrow> bool" where
  "noPatternMatches x = list_all (\<lambda>r. \<not> test noFlags r x) simplifierPatterns"

text \<open>A template literal inside a template literal.\<close>

definition nestedTemplate :: jstring where
  "nestedTemplate = str ''{`{`a`}`}''"

text \<open>
  Claim C7, as stated: \<open>normalize (normalize x) = normalize x\<close> for every input \<open>x\<close>.  It fails
  on \<open>nestedTemplate\<close>: one pass unwraps the inner template literal only, the next pass the
  outer one.
\<close>

theorem C7_not_idempotent: "simplify (simplify nestedTemplate) \<noteq> simplify nestedTemplate"
proof -
  have a: "simplify nestedTemplate = str ''{`a`}''"
    unfolding nestedTemplate_def by (simp add: rx_eval simplifier_eval)
  have b: "simplify (str ''{`a`}'') = str ''a''"
    by (simp add: rx_eval simplifier_eval)
  show ?thesis unfolding a b by (simp add: str_def)
qed

lemma simplify_unmatched:
  assumes "noPatternMatches x" "trim x = x"
  shows "simplify x = x"
proof -
  note n = assms(1) [unfolded noPatternMatches_def simplifierPatterns_def, simplified]
  have e: "extractJSX x = x"
    using n by (simp add: extractJSX_def no_test_firstMatch)
  have c: "convertReactToHTML x = x"
    using n by (simp add: convertReactToHTML_def no_test_replaceAll)
  have r: "removeClassAttributes x = x"
    using n by (simp add: removeClassAttributes_def no_test_replaceAll)
  have i: "removeInlineStyles x = x"
    using n by (simp add: removeInlineStyles_def no_test_replaceAll)
  have l: "collapseLayoutWrappers x = x"
    using n by (simp add: collapseLayoutWrappers_def collapseNamed_def collapseSemantic_def
        no_test_replaceAll)
  have s: "simplifyImages x = x"
    using n by (simp add: simplifyImages_def no_test_replaceAll)
  have w: "normalizeWhitespace x = x"
    using n assms(2) by (simp add: normalizeWhitespace_def no_test_replaceAll)
  show ?thesis by (simp add: simplify_def e c r i l s w)
qed

text \<open>
  Claim C7, amended.  \<open>normalize\<close> returns a string for every input.  On an input that none of
  its patterns matches and that has no white space at either end, it returns the input
  unchanged; on such an input a second pass changes nothing either.
\<close>

theorem C7_unmatched_input_unchanged:
  "noPatternMatches x \<Longrightarrow> trim x = x \<Longrightarrow> simplify x = x \<and> simplify (simplify x) = simplify x"
  by (simp add: simplify_unmatched)

theorem C7_unmatched_witness:
  "noPatternMatches (str ''<p>Hi</p>'') \<and> trim (str ''<p>Hi</p>'') = str ''<p>Hi</p>'' \<and>
   simplify (str ''<p>Hi</p>'') = str ''<p>Hi</p>'' \<and>
   simplify (simplify (str ''<p>Hi</p>'')) = simplify (str ''<p>Hi</p>'')"
proof -
  have a: "noPatternMatches (str ''<p>Hi</p>'')"
    by (simp add: rx_eval simplifier_eval noPatternMatches_def simplifierPatterns_def)
  have b: "trim (str ''<p>Hi</p>'') = str ''<p>Hi</p>''"
    by (simp add: rx_eval)
  from a b C7_unmatched_input_unchanged [OF a b] show ?thesis by simp
qed


section \<open>Properties of the signal extractor\<close>

text \<open>
  The destination and the text of a link element, the entry it makes, and the final list of
  the bag.
\<close>

definition linkHref :: "rmatch \<Rightarrow> jstring" where
  "linkHref mt = groupOrEmpty 1 mt"

definition linkText :: "rmatch \<Rightarrow> jstring" where
  "linkText mt = trim (stripTags (groupOrEmpty 2 mt))"

definition linkEntry :: "rmatch \<Rightarrow> SemanticCta" where
  "linkEntry mt = \<lparr>ctaText = linkText mt, href = Some (linkHref mt), ctaType = link\<rparr>"

definition extractedCtas :: "(jstring \<Rightarrow> jstring) \<Rightarrow> jstring option \<Rightarrow> SemanticCta list" where
  "extractedCtas lc rawCode =
     (case semanticCtas (parseCodeSignals lc rawCode) of None \<Rightarrow> [] | Some l \<Rightarrow> l)"

text \<open>
  The admission rule in the words of the claim (a destination that is not empty, not \<open>#\<close> and
  not a \<open>javascript:\<close> pseudo-URL), and the rule the code applies (a destination of at least
  two units that is not a \<open>javascript:\<close> pseudo-URL).
\<close>

definition realDestination :: "jstring \<Rightarrow> bool" where
  "realDestination h = (h \<noteq> [] \<and> h \<noteq> str ''#'' \<and> \<not> startsWith h (str ''javascript:''))"

definition claimedLinkAdmission :: "jstring \<Rightarrow> jstring \<Rightarrow> bool" where
  "claimedLinkAdmission t h = (t \<noteq> [] \<and> length t \<le> 100 \<and> realDestination h)"

definition amendedLinkAdmission :: "jstring \<Rightarrow> jstring \<Rightarrow> bool" where
  "amendedLinkAdmission t h =
     (t \<noteq> [] \<and> length t \<le> 100 \<and> 2 \<le> length h \<and> \<not> startsWith h (str ''javascript:''))"

text \<open>A navigation link to the site root, in 40 units of markup.\<close>

definition rootLinkMarkup :: jstring where
  "rootLinkMarkup = str ''<nav><a href=\"/\">Home</a></nav><p>hi</p>''"

lemma extractedCtas_eq:
  "extractedCtas lc (Some raw) =
     (if length raw < 40 then [] else dedupCtas lc [] (collectCtas raw (lc raw)))"
  by (simp add: extractedCtas_def parseCodeSignals_def emptySignals_def Let_def)

lemma linkAdmitted_amended: "linkAdmitted t h = amendedLinkAdmission t h"
  by (cases h; cases "tl h") (auto simp: linkAdmitted_def amendedLinkAdmission_def str_def)

lemma linkCta_entry:
  "linkCta mt = (if amendedLinkAdmission (linkText mt) (linkHref mt) then [linkEntry mt] else [])"
  by (simp add: linkCta_def Let_def linkAdmitted_amended linkText_def linkHref_def linkEntry_def)

lemma buttonCta_type: "c \<in> set (buttonCta mt) \<Longrightarrow> ctaType c = button"
  by (auto simp: buttonCta_def Let_def split: if_splits)

lemma divButtonCta_type: "c \<in> set (divButtonCta mt) \<Longrightarrow> ctaType c = button"
  by (auto simp: divButtonCta_def Let_def split: if_splits option.splits)

lemma buttonCta_text: "c \<in> set (buttonCta mt) \<Longrightarrow> ctaText c \<noteq> [] \<and> length (ctaText c) \<le> 100"
  by (auto simp: buttonCta_def Let_def split: if_splits)

lemma divButtonCta_text:
  "c \<in> set (divButtonCta mt) \<Longrightarrow> ctaText c \<noteq> [] \<and> length (ctaText c) \<le> 100"
  by (auto simp: divButtonCta_def Let_def split: if_splits option.splits)

lemma linkCta_text: "c \<in> set (linkCta mt) \<Longrightarrow> ctaText c \<noteq> [] \<and> length (ctaText c) \<le> 100"
  by (auto simp: linkCta_entry linkEntry_def amendedLinkAdmission_def split: if_splits)

lemma collected_text:
  "c \<in> set (collectCtas raw code) \<Longrightarrow> ctaText c \<noteq> [] \<and> length (ctaText c) \<le> 100"
  unfolding collectCtas_def
  using buttonCta_text divButtonCta_text linkCta_text by fastforce

lemma collected_link:
  "c \<in> set (collectCtas raw code) \<Longrightarrow> ctaType c = link \<Longrightarrow>
   \<exists>mt \<in> set (allMatches noFlags linkPattern code).
      c = linkEntry mt \<and> amendedLinkAdmission (linkText mt) (linkHref mt)"
  unfolding collectCtas_def
  using buttonCta_type divButtonCta_type
  by (fastforce simp: linkCta_entry split: if_splits)

lemma linkEntry_collected:
  assumes "mt \<in> set (allMatches noFlags linkPattern code)"
  shows "(linkEntry mt \<in> set (collectCtas raw code)) =
     amendedLinkAdmission (linkText mt) (linkHref mt)"
proof
  assume "linkEntry mt \<in> set (collectCtas raw code)"
  moreover have "ctaType (linkEntry mt) = link" by (simp add: linkEntry_def)
  ultimately obtain mt' where "linkEntry mt = linkEntry mt'"
    and "amendedLinkAdmission (linkText mt') (linkHref mt')"
    using collected_link by blast
  then show "amendedLinkAdmission (linkText mt) (linkHref mt)"
    by (simp add: linkEntry_def)
next
  assume "amendedLinkAdmission (linkText mt) (linkHref mt)"
  then have "linkEntry mt \<in> set (linkCta mt)" by (simp add: linkCta_entry)
  with assms show "linkEntry mt \<in> set (collectCtas raw code)"
    unfolding collectCtas_def by auto
qed

lemma dedup_subset: "set (dedupCtas lc seen cs) \<subseteq> set cs"
  by (induction lc seen cs rule: dedupCtas.induct) auto

lemma dedup_fresh: "c \<in> set (dedupCtas lc seen cs) \<Longrightarrow> lc (ctaText c) \<notin> set seen"
  by (induction lc seen cs rule: dedupCtas.induct) (auto split: if_splits)

lemma dedup_distinct: "distinct (map (\<lambda>c. lc (ctaText c)) (dedupCtas lc seen cs))"
  by (induction lc seen cs rule: dedupCtas.induct) (auto dest: dedup_fresh)

lemma dedup_cover:
  "c \<in> set cs \<Longrightarrow>
   lc (ctaText c) \<in> set seen \<or> lc (ctaText c) \<in> set (map (\<lambda>c. lc (ctaText c)) (dedupCtas lc seen cs))"
  by (induction lc seen cs rule: dedupCtas.induct) (auto split: if_splits)


definition linkElements :: "jstring \<Rightarrow> (jstring \<times> jstring) list" where
  "linkElements code = map (\<lambda>mt. (linkText mt, linkHref mt)) (allMatches noFlags linkPattern code)"

definition linkCtaOf :: "jstring \<Rightarrow> jstring \<Rightarrow> SemanticCta" where
  "linkCtaOf t h = \<lparr>ctaText = t, href = Some h, ctaType = link\<rparr>"

definition subLinkMarkup :: jstring where
  "subLinkMarkup = str ''<nav><a href=\"/x\">Home</a></nav><p>h</p>''"

text \<open>
  Claim C8, as stated: a link element is admitted if and only if its text is non-empty and at
  most 100 units long and its destination is non-empty, not \<open>#\<close> and not a \<open>javascript:\<close>
  pseudo-URL.  The link \<open>Home\<close> to \<open>/\<close> meets all of that and is not admitted: the code also
  requires \<open>href.length > 1\<close>.
\<close>

theorem C8_root_link_rejected:
  "linkElements (asciiLower rootLinkMarkup) = [(str ''home'', str ''/'')] \<and>
   claimedLinkAdmission (str ''home'') (str ''/'') \<and>
   extractedCtas asciiLower (Some rootLinkMarkup) = []"
proof -
  have a: "linkElements (asciiLower rootLinkMarkup) = [(str ''home'', str ''/'')]"
    unfolding rootLinkMarkup_def linkElements_def linkText_def linkHref_def
    by (simp add: rx_eval signals_eval)
  have b: "claimedLinkAdmission (str ''home'') (str ''/'')"
    by (simp add: claimedLinkAdmission_def realDestination_def str_def)
  have c: "extractedCtas asciiLower (Some rootLinkMarkup) = []"
    unfolding extractedCtas_eq rootLinkMarkup_def
    by (simp add: rx_eval signals_eval)
  show ?thesis by (intro conjI a b c)
qed

text \<open>
  Claim C8, amended.  For markup of at least 40 units: a link element makes an entry exactly
  when its text is non-empty and at most 100 units long and its destination has at least
  two units and is no \<open>javascript:\<close> pseudo-URL; after the deduplication such a link is
  represented by an entry with the same text up to case, and a link that fails the rule has
  no entry; every entry of the final list (button, component marker or link) has a
  non-empty text of at most 100 units; and no two entries have the same lowered text.
\<close>

theorem C8_cta_admission:
  assumes "40 \<le> length raw"
  shows "(\<forall>(t, h) \<in> set (linkElements (lc raw)).
            (linkCtaOf t h \<in> set (collectCtas raw (lc raw))) = amendedLinkAdmission t h) \<and>
         (\<forall>(t, h) \<in> set (linkElements (lc raw)).
            if amendedLinkAdmission t h
            then lc t \<in> set (map (\<lambda>c. lc (ctaText c)) (extractedCtas lc (Some raw)))
            else linkCtaOf t h \<notin> set (extractedCtas lc (Some raw))) \<and>
         (\<forall>c \<in> set (extractedCtas lc (Some raw)).
            ctaText c \<noteq> [] \<and> length (ctaText c) \<le> 100 \<and>
            (ctaType c = link \<longrightarrow>
               (\<exists>h. href c = Some h \<and> 2 \<le> length h \<and>
                    \<not> startsWith h (str ''javascript:'')))) \<and>
         distinct (map (\<lambda>c. lc (ctaText c)) (extractedCtas lc (Some raw)))"
proof -
  let ?col = "collectCtas raw (lc raw)"
  have fin: "extractedCtas lc (Some raw) = dedupCtas lc [] ?col"
    using assms by (simp add: extractedCtas_eq)
  have sub: "set (extractedCtas lc (Some raw)) \<subseteq> set ?col"
    unfolding fin by (rule dedup_subset)
  have p1: "\<forall>(t, h) \<in> set (linkElements (lc raw)).
      (linkCtaOf t h \<in> set ?col) = amendedLinkAdmission t h"
    using linkEntry_collected [of _ "lc raw" raw]
    by (auto simp: linkElements_def linkCtaOf_def linkEntry_def)
  have p2: "\<forall>(t, h) \<in> set (linkElements (lc raw)).
      if amendedLinkAdmission t h
      then lc t \<in> set (map (\<lambda>c. lc (ctaText c)) (extractedCtas lc (Some raw)))
      else linkCtaOf t h \<notin> set (extractedCtas lc (Some raw))"
  proof (clarify, goal_cases)
    case (1 t h)
    show ?case
    proof (cases "amendedLinkAdmission t h")
      case True
      with p1 1 have "linkCtaOf t h \<in> set ?col" by blast
      from dedup_cover [OF this, of lc "[]"] True show ?thesis
        by (simp add: fin linkCtaOf_def)
    next
      case False
      with p1 1 have "linkCtaOf t h \<notin> set ?col" by blast
      with sub False show ?thesis by auto
    qed
  qed
  have p3: "\<forall>c \<in> set (extractedCtas lc (Some raw)).
      ctaText c \<noteq> [] \<and> length (ctaText c) \<le> 100 \<and>
      (ctaType c = link \<longrightarrow>
         (\<exists>h. href c = Some h \<and> 2 \<le> length h \<and> \<not> startsWith h (str ''javascript:'')))"
  proof (intro ballI conjI impI)
    fix c assume c: "c \<in> set (extractedCtas lc (Some raw))"
    then have cc: "c \<in> set ?col" using sub by blast
    from collected_text [OF cc] show "ctaText c \<noteq> []" and "length (ctaText c) \<le> 100"
      by simp_all
    assume "ctaType c = link"
    from collected_link [OF cc this]
    show "\<exists>h. href c = Some h \<and> 2 \<le> length h \<and> \<not> startsWith h (str ''javascript:'')"
      by (auto simp: linkEntry_def amendedLinkAdmission_def)
  qed
  have p4: "distinct (map (\<lambda>c. lc (ctaText c)) (extractedCtas lc (Some raw)))"
    unfolding fin by (rule dedup_distinct)
  show ?thesis by (intro conjI p1 p2 p3 p4)
qed

theorem C8_cta_admission_witness:
  "40 \<le> length subLinkMarkup \<and>
   linkElements (asciiLower subLinkMarkup) = [(str ''home'', str ''/x'')] \<and>
   amendedLinkAdmission (str ''home'') (str ''/x'') \<and>
   linkCtaOf (str ''home'') (str ''/x'') \<in> set (collectCtas subLinkMarkup (asciiLower subLinkMarkup)) \<and>
   extractedCtas asciiLower (Some subLinkMarkup) = [linkCtaOf (str ''home'') (str ''/x'')] \<and>
   distinct (map (\<lambda>c. asciiLower (ctaText c)) (extractedCtas asciiLower (Some subLinkMarkup)))"
proof -
  have len: "40 \<le> length subLinkMarkup"
    by (simp add: subLinkMarkup_def str_def)
  have el: "linkElements (asciiLower subLinkMarkup) = [(str ''home'', str ''/x'')]"
    unfolding subLinkMarkup_def linkElements_def linkText_def linkHref_def
    by (simp add: rx_eval signals_eval)
  have ad: "amendedLinkAdmission (str ''home'') (str ''/x'')"
    by (simp add: amendedLinkAdmission_def str_def)
  have ex: "extractedCtas asciiLower (Some subLinkMarkup) = [linkCtaOf (str ''home'') (str ''/x'')]"
    unfolding extractedCtas_eq subLinkMarkup_def linkCtaOf_def
    by (simp add: rx_eval signals_eval)
  note t = C8_cta_admission [OF len, of asciiLower]
  from t el ad have "linkCtaOf (str ''home'') (str ''/x'') \<in>
      set (collectCtas subLinkMarkup (asciiLower subLinkMarkup))"
    by auto
  moreover from t have
    "distinct (map (\<lambda>c. asciiLower (ctaText c)) (extractedCtas asciiLower (Some subLinkMarkup)))"
    by blast
  ultimately show ?thesis using len el ad ex by blast
qed

section \<open>Properties of the classification\<close>

text \<open>What \<open>analyze\<close> leaves in the block type, the block name and the signal bag.\<close>

lemma blockType_analyze:
  "blockType (analyze lc node rawCode) =
     (if multiItemLikely (parseCodeSignals lc (processedCode rawCode)) then multi_item else single)"
  by (simp add: analyze_def initialAnalysis_def Let_def)

lemma blockName_analyze: "blockName (analyze lc node rawCode) = sanitizeBlockName lc (nodeName node)"
  by (simp add: analyze_def initialAnalysis_def Let_def)

lemma debug_analyze:
  "debugCodeSignals (analyze lc node rawCode) = Some (parseCodeSignals lc (processedCode rawCode))"
  by (simp add: analyze_def initialAnalysis_def Let_def debugCodeSignals_def)

lemma multiItemLikely_parseCodeSignals:
  "multiItemLikely (parseCodeSignals lc code) =
     (hasRepeatedContainers (repeatedContainerNames (parseCodeSignals lc code)) \<or>
      2 \<le> length (distinctHeadings (parseCodeSignals lc code)) \<or>
      2 \<le> itemLikeContainerCount (parseCodeSignals lc code) \<or>
      (case code of
         None \<Rightarrow> False
       | Some raw \<Rightarrow> 40 \<le> length raw \<and> genericContainerMultiItemSignal (lc raw)))"
proof (cases code)
  case None
  then show ?thesis
    by (simp add: parseCodeSignals_def emptySignals_def hasRepeatedContainers_def)
next
  case (Some raw)
  show ?thesis
  proof (cases "length raw < 40")
    case True
    then show ?thesis
      unfolding Some by (simp add: parseCodeSignals_def emptySignals_def hasRepeatedContainers_def)
  next
    case False
    then show ?thesis
      unfolding Some by (simp add: parseCodeSignals_def Let_def)
  qed
qed

text \<open>
  The generic-container signal is the one condition that is read off the markup and not off
  the bag.  It needs two matches of \<^verbatim>\<open>data-name=["']container["']\<close>, 21 units each, so text of
  fewer than 42 units never carries it: a match of a pattern is at least as long as the
  pattern's minimal length \<open>minLen\<close>.
\<close>

fun minLen :: "re \<Rightarrow> nat" where
  "minLen (RChr c) = 1"
| "minLen (RSet neg items) = 1"
| "minLen RAny = 1"
| "minLen (RCat a b) = minLen a + minLen b"
| "minLen (RAlt a b) = min (minLen a) (minLen b)"
| "minLen (RRep a mn mx g) = (case mx of None \<Rightarrow> mn | Some m \<Rightarrow> min mn m) * minLen a"
| "minLen (RGrp i a) = minLen a"
| "minLen r = 0"

fun frameMin :: "frame \<Rightarrow> nat" where
  "frameMin (FRe r) = minLen r"
| "frameMin (FClose i s) = 0"
| "frameMin (FLoop p chk r) = minLen r"

lemma minLen_step:
  assumes "0 < mn" and "mx \<noteq> Some 0"
  shows "minLen (RRep a mn mx g) = minLen a + minLen (RRep a (mn - 1) (decMax mx) g)"
proof (cases mx)
  case None
  with assms show ?thesis by (cases mn) (simp_all add: decMax_def)
next
  case (Some m)
  with assms show ?thesis by (cases mn; cases m) (simp_all add: decMax_def)
qed

lemma minLen_zero: "minLen (RRep a 0 mx g) = 0"
  by (cases mx) simp_all

lemma matcher_min:
  "matcher fg k x = Some y \<Longrightarrow> pos x + sum_list (map frameMin k) \<le> pos y"
proof (induction fg k x arbitrary: y rule: matcher.induct)
  case (8 fg a mn mx g k x)
  show ?case
  proof (cases "mx = Some 0")
    case True
    with 8 show ?thesis by simp
  next
    case nz: False
    show ?thesis
    proof (cases "0 < mn")
      case True
      from "8.prems" nz True
      have m: "matcher fg (FRe a # FLoop (pos x) False (RRep a (mn - 1) (decMax mx) g) # k)
                 (clearCaps (groupsOf a) x) = Some y"
        by simp
      from "8.IH"(2) [OF nz True m] minLen_step [OF True nz, of a g] show ?thesis
        by (simp add: clearCaps_def del: minLen.simps)
    next
      case False
      then have mn0: "mn = 0" by simp
      show ?thesis
      proof (cases g)
        case True
        show ?thesis
        proof (cases "matcher fg (FRe a # FLoop (pos x) True (RRep a 0 (decMax mx) g) # k)
                        (clearCaps (groupsOf a) x)")
          case None
          with "8.prems" nz mn0 True have "matcher fg k x = Some y" by simp
          from "8.IH"(4) [OF nz False True None this] mn0 show ?thesis
            by (simp add: minLen_zero del: minLen.simps)
        next
          case (Some z)
          with "8.prems" nz mn0 True have zy: "z = y" by simp
          from "8.IH"(3) [OF nz False True] Some zy mn0 show ?thesis
            by (simp add: clearCaps_def minLen_zero del: minLen.simps)
        qed
      next
        case gf: False
        show ?thesis
        proof (cases "matcher fg k x")
          case None
          with "8.prems" nz mn0 gf
          have "matcher fg (FRe a # FLoop (pos x) True (RRep a 0 (decMax mx) g) # k)
                  (clearCaps (groupsOf a) x) = Some y" by simp
          from "8.IH"(6) [OF nz False gf None this] mn0 show ?thesis
            by (simp add: clearCaps_def minLen_zero del: minLen.simps)
        next
          case (Some z)
          with "8.prems" nz mn0 gf have zy: "z = y" by simp
          from "8.IH"(5) [OF nz False gf] Some zy mn0 show ?thesis
            by (simp add: minLen_zero del: minLen.simps)
        qed
      qed
    qed
  qed
qed (auto simp: setCap_def split: list.splits if_splits option.splits)

lemma matchAt_min: "matchAt fg r x = Some y \<Longrightarrow> pos x + minLen r \<le> pos y"
  using matcher_min [of fg "[FRe r]" "St (pos x) (prev x) (rest x) []" y]
  by (simp add: matchAt_def)

lemma matchAt_rest:
  "matchAt fg r x = Some y \<Longrightarrow> length (rest y) + minLen r \<le> length (rest x)"
  using matcher_total_length [of fg "[FRe r]" "St (pos x) (prev x) (rest x) []" y]
        matchAt_min [of fg r x y]
  by (simp add: matchAt_def)

lemma allFrom_min:
  "0 < minLen r \<Longrightarrow> length (allFrom fg r x) * minLen r \<le> length (rest x)"
proof (induction fg r x rule: allFrom.induct)
  case (1 fg r x)
  show ?case
  proof (cases "matchAt fg r x")
    case None
    show ?thesis
    proof (cases "rest x")
      case Nil
      with None show ?thesis by (subst allFrom.simps) simp
    next
      case (Cons d ds)
      with None 1 show ?thesis by (subst allFrom.simps) (simp add: le_SucI)
    qed
  next
    case (Some y)
    from matchAt_min [OF Some] 1(4) have ne: "pos y \<noteq> pos x" by simp
    from 1(3) [OF Some ne 1(4)] matchAt_rest [OF Some] Some ne show ?thesis
      by (subst allFrom.simps) simp
  qed
qed

lemma allMatches_min: "0 < minLen r \<Longrightarrow> length (allMatches fg r s) * minLen r \<le> length s"
  using allFrom_min [of r fg "start s"] by (simp add: allMatches_def start_def)

lemma minLen_seq: "minLen (seq rs) = sum_list (map minLen rs)"
  by (induction rs) (simp_all add: seq_def)

lemma minLen_lit: "minLen (lit s) = length s"
  by (induction s) (simp_all add: lit_def seq_def)

lemma minLen_genericContainer: "minLen genericContainerPattern = 21"
  by (simp add: genericContainerPattern_def minLen_seq minLen_lit quoteMark_def)

lemma generic_signal_needs_42: "genericContainerMultiItemSignal code \<Longrightarrow> 42 \<le> length code"
  using allMatches_min [of genericContainerPattern noFlags code]
  by (simp add: genericContainerMultiItemSignal_def genericContainerCount_def
        minLen_genericContainer)

text \<open>
  Claim C3.  For every node and every markup, the block is classified \<open>multi-item\<close> exactly
  when the flag \<open>multiItemLikely\<close> of the signal bag extracted from the (processed) markup is
  true, and \<open>single\<close> otherwise, and that bag is the one the analysis carries; and for every
  markup, present or absent, the flag of its bag is true exactly when some repeated-container
  name of the bag has a count of at least 2, or the bag has at least 2 distinct headings, or
  its item-like container count is at least 2, or the markup reaches the extractor and its
  lowered text holds at least 2 generic containers together with at least 2 small headings
  or at least 4 bullet markers.
\<close>

theorem C3_classification:
  "blockType (analyze lc node rawCode) =
     (if multiItemLikely (parseCodeSignals lc (processedCode rawCode)) then multi_item else single) \<and>
   debugCodeSignals (analyze lc node rawCode) = Some (parseCodeSignals lc (processedCode rawCode)) \<and>
   multiItemLikely (parseCodeSignals lc code) =
     (list_ex (\<lambda>(containerName, n). 2 \<le> n) (repeatedContainerNames (parseCodeSignals lc code)) \<or>
      2 \<le> length (distinctHeadings (parseCodeSignals lc code)) \<or>
      2 \<le> itemLikeContainerCount (parseCodeSignals lc code) \<or>
      (case code of
         None \<Rightarrow> False
       | Some raw \<Rightarrow>
           40 \<le> length raw \<and>
           2 \<le> length (allMatches noFlags genericContainerPattern (lc raw)) \<and>
           (2 \<le> length (allMatches noFlags smallHeadingPattern (lc raw)) \<or>
            4 \<le> length (allMatches noFlags bulletPattern (lc raw)))))"
proof -
  have a: "blockType (analyze lc node rawCode) =
     (if multiItemLikely (parseCodeSignals lc (processedCode rawCode)) then multi_item else single)"
    by (rule blockType_analyze)
  have b: "debugCodeSignals (analyze lc node rawCode) =
     Some (parseCodeSignals lc (processedCode rawCode))"
    by (rule debug_analyze)
  have c: "multiItemLikely (parseCodeSignals lc code) =
     (list_ex (\<lambda>(containerName, n). 2 \<le> n) (repeatedContainerNames (parseCodeSignals lc code)) \<or>
      2 \<le> length (distinctHeadings (parseCodeSignals lc code)) \<or>
      2 \<le> itemLikeContainerCount (parseCodeSignals lc code) \<or>
      (case code of
         None \<Rightarrow> False
       | Some raw \<Rightarrow>
           40 \<le> length raw \<and>
           2 \<le> length (allMatches noFlags genericContainerPattern (lc raw)) \<and>
           (2 \<le> length (allMatches noFlags smallHeadingPattern (lc raw)) \<or>
            4 \<le> length (allMatches noFlags bulletPattern (lc raw)))))"
    using multiItemLikely_parseCodeSignals [of lc code]
    by (simp only: hasRepeatedContainers_def genericContainerMultiItemSignal_def
        genericContainerCount_def smallHeadingCount_def bulletCount_def)
  from a b c show ?thesis by (simp only: simp_thms)
qed


section \<open>Properties of the analysis of short markup\<close>

text \<open>
  Markup is below the threshold of the signal extractor when it is absent or shorter than 40
  units.  The extractor then returns its zero-valued bag, and \<open>analyze\<close> stores that bag under
  \<open>debug.codeSignals\<close>: the scorer finds a bag there.
\<close>

definition belowThreshold :: "jstring option \<Rightarrow> bool" where
  "belowThreshold rawCode = (case rawCode of None \<Rightarrow> True | Some raw \<Rightarrow> length raw < 40)"

lemma short_signals:
  "belowThreshold rawCode \<Longrightarrow> parseCodeSignals lc (processedCode rawCode) = emptySignals"
  by (cases rawCode) (simp_all add: belowThreshold_def processedCode_def parseCodeSignals_def)

lemma scoreBlockType_suggestions:
  "suggestionsAcc (scoreBlockType (Some cs) st) = suggestionsAcc st"
  by (simp add: scoreBlockType_def Let_def)

lemma scoreContainerFields_suggestions:
  "blockType a = single \<Longrightarrow> suggestionsAcc (scoreContainerFields a st) = suggestionsAcc st"
  by (simp add: scoreContainerFields_def)

lemma scoreItemFields_suggestions:
  "blockType a = single \<Longrightarrow> suggestionsAcc (scoreItemFields a st) = suggestionsAcc st"
  by (simp add: scoreItemFields_def)

lemma scoreCTAs_suggestions: "suggestionsAcc (scoreCTAs cso st) = suggestionsAcc st"
  by (simp add: scoreCTAs_def)

lemma single_with_signals_no_suggestion:
  assumes "debugCodeSignals a = Some cs" and "blockType a = single"
  shows "suggestions (calculateConfidenceScore a) = []"
  unfolding calculateConfidenceScore_def Let_def assms(1)
  by (simp only: ConfidenceScore.select_convs ScoreState.select_convs scoreCTAs_suggestions
        scoreItemFields_suggestions [OF assms(2)] scoreContainerFields_suggestions [OF assms(2)]
        scoreBlockType_suggestions)

lemma short_markup_signals:
  "belowThreshold rawCode \<Longrightarrow> debugCodeSignals (analyze lc node rawCode) = Some emptySignals"
  by (simp add: debug_analyze short_signals)

lemma short_markup_single:
  "belowThreshold rawCode \<Longrightarrow> blockType (analyze lc node rawCode) = single"
  by (simp add: blockType_analyze short_signals emptySignals_def)

text \<open>
  For every node and every markup below the threshold the block-type score is the baseline
  50 and the list of suggestions is empty.
\<close>

lemma short_markup_blockTypeScore:
  "belowThreshold rawCode \<Longrightarrow>
     blockTypeScore (calculateConfidenceScore (analyze lc node rawCode)) = 50"
  by (simp add: score_blockType_value blockTypeAdjustment_def short_markup_signals emptySignals_def)

lemma short_markup_suggestions:
  "belowThreshold rawCode \<Longrightarrow> suggestions (calculateConfidenceScore (analyze lc node rawCode)) = []"
  by (rule single_with_signals_no_suggestion [OF short_markup_signals short_markup_single])

text \<open>The root node the server passes to \<open>analyze\<close> (server.ts), and a markup of 10 units.\<close>

definition stubNode :: FigmaNode where
  "stubNode =
     FigmaNode (str ''design-context-root'') (str ''Design Context Root'') (str ''FRAME'') []
       None None None None False"

definition shortMarkup :: jstring where
  "shortMarkup = str ''<p>hi!</p>''"

lemma shortMarkup_below: "belowThreshold (Some shortMarkup)"
  by (simp add: belowThreshold_def shortMarkup_def str_def)

text \<open>
  Claim C6.  For markup below the minimum length the extractor returns its zero-valued bag
  with \<open>multiItemLikely = false\<close> and the block is classified \<open>single\<close>; the block-type score of
  the confidence score is reduced by 20 from the baseline 50 and a suggestion is present.
  The first two hold.  The last two do not: on the 10 units \<open><p>hi!</p>\<close> the block-type score
  is 50 and there is no suggestion, because the scorer lowers the score and suggests to
  provide code only when the analysis carries no bag, and \<open>analyze\<close> always stores one.
\<close>

theorem C6_short_markup_not_penalised:
  "length shortMarkup = 10 \<and>
   debugCodeSignals (analyze asciiLower stubNode (Some shortMarkup)) = Some emptySignals \<and>
   multiItemLikely emptySignals = False \<and>
   blockType (analyze asciiLower stubNode (Some shortMarkup)) = single \<and>
   blockTypeScore (calculateConfidenceScore (analyze asciiLower stubNode (Some shortMarkup))) = 50 \<and>
   suggestions (calculateConfidenceScore (analyze asciiLower stubNode (Some shortMarkup))) = []"
proof -
  have a: "length shortMarkup = 10"
    by (simp add: shortMarkup_def str_def)
  have b: "multiItemLikely emptySignals = False"
    by (simp add: emptySignals_def)
  from a b short_markup_signals [OF shortMarkup_below, of asciiLower stubNode]
    short_markup_single [OF shortMarkup_below, of asciiLower stubNode]
    short_markup_blockTypeScore [OF shortMarkup_below, of asciiLower stubNode]
    short_markup_suggestions [OF shortMarkup_below, of asciiLower stubNode]
  show ?thesis by (simp only: simp_thms)
qed


section \<open>Properties of the pattern choice\<close>

text \<open>Which item fields are rich text on the node path.\<close>

lemma not_richtext_text: "component (field n l ''text'' r m d) \<noteq> str ''richtext''"
  by (simp add: field_def str_def)

lemma not_richtext_reference: "component (field n l ''reference'' r m d) \<noteq> str ''richtext''"
  by (simp add: field_def str_def)

lemma hasRichtext_append: "hasRichtext (fs @ gs) = (hasRichtext fs \<or> hasRichtext gs)"
  by (simp add: hasRichtext_def)

lemma hasRichtext_Nil: "\<not> hasRichtext []"
  by (simp add: hasRichtext_def)

lemma hasRichtext_concat:
  "(\<And>x. x \<in> set xs \<Longrightarrow> \<not> hasRichtext (f x)) \<Longrightarrow> \<not> hasRichtext (concat (map f xs))"
  by (induction xs) (simp_all add: hasRichtext_Nil hasRichtext_append)

lemma hasRichtext_imageFields: "\<not> hasRichtext (imageFields p d i)"
  by (simp add: hasRichtext_def imageFields_def not_richtext_text not_richtext_reference)

lemma hasRichtext_ctaFields: "\<not> hasRichtext (ctaFields lc scope i)"
  by (simp add: hasRichtext_def ctaFields_def not_richtext_text)

lemma hasRichtext_images: "\<not> hasRichtext (concat (map (\<lambda>(i, img). imageFields p d i) xs))"
  by (rule hasRichtext_concat) (auto simp: hasRichtext_imageFields)

lemma hasRichtext_ctas: "\<not> hasRichtext (concat (map (\<lambda>(i, cta). ctaFields lc scope i) xs))"
  by (rule hasRichtext_concat) (auto simp: hasRichtext_ctaFields)

lemma hasRichtext_analyzeActualContent:
  "hasRichtext (analyzeActualContent lc node analysis images) =
     (hasList (findStructuredTextContent (findAllTextNodes node)) \<or>
      hasMultipleParagraphs (findStructuredTextContent (findAllTextNodes node)))"
  unfolding analyzeActualContent_def Let_def hasRichtext_append
  by (simp add: hasRichtext_images hasRichtext_ctas)
     (simp add: hasRichtext_def field_def str_def)

text \<open>
  The two paths of a multi-item analysis.  With processed markup of more than 40 units the
  fields come from the markup and the pattern follows the priority
  \<open>carousel > cards > decorated\<close> (\<open>rawJsPattern\<close>).  With processed markup of exactly 40 units,
  the only length at which the extractor runs and the markup path is not taken, the fields
  come from the nodes and the pattern is chosen without the carousel case.
\<close>

lemma raw_path_pattern:
  assumes "multiItemLikely (parseCodeSignals lc (processedCode rawCode))"
    and "processedCode rawCode = Some code" and "40 < length code"
  shows "jsPattern (contentStructure (analyze lc node rawCode)) =
           rawJsPattern (lc (sanitizeBlockName lc (nodeName node)))
             (rawItemFields (parseRawCodeForMultiItemStructure code))"
    and "itemFields (contentStructure (analyze lc node rawCode)) =
           Some (rawItemFields (parseRawCodeForMultiItemStructure code))"
  using assms
  by (simp_all add: analyze_def initialAnalysis_def analyzeContentStructure_def rawPathCode_def
        Let_def)

lemma node_path_pattern:
  assumes "multiItemLikely (parseCodeSignals lc (processedCode rawCode))"
    and "processedCode rawCode = Some code" and "length code \<le> 40"
  shows "jsPattern (contentStructure (analyze lc node rawCode)) =
           (if isCardBlock (lc (sanitizeBlockName lc (nodeName node))) then cards
            else if hasList (findStructuredTextContent (findAllTextNodes node)) \<or>
                    hasMultipleParagraphs (findStructuredTextContent (findAllTextNodes node))
                 then decorated else cards)"
  using assms
  by (simp add: analyze_def initialAnalysis_def analyzeContentStructure_def rawPathCode_def
        Let_def nodeJsPattern_def analyzeItemStructure_def hasRichtext_analyzeActualContent)

text \<open>A frame named \<open>Hero Carousel\<close> without children, and a markup of 40 units.\<close>

definition carouselNode :: FigmaNode where
  "carouselNode =
     FigmaNode (str ''1:2'') (str ''Hero Carousel'') (str ''FRAME'') [] None None None None False"

definition cardMarkup :: jstring where
  "cardMarkup = str ''<p class=card>Ab</p><p class=card>Cd</p>''"

lemma cardMarkup_length: "length cardMarkup = 40"
  by (simp add: cardMarkup_def str_def)

lemma cardMarkup_processed: "processedCode (Some cardMarkup) = Some cardMarkup"
  by (simp add: processedCode_def cardMarkup_length)

lemma cardMarkup_names: "countContainerNames (asciiLower cardMarkup) = [(str ''card'', 2)]"
  by (simp add: rx_eval countContainerNames_def containerNamePatterns_def containerNameRegex_def
        cardMarkup_def Let_def)

lemma cardMarkup_multi: "multiItemLikely (parseCodeSignals asciiLower (Some cardMarkup))"
  by (simp add: parseCodeSignals_def Let_def cardMarkup_length cardMarkup_names
        hasRepeatedContainers_def)

lemma carousel_name: "sanitizeBlockName asciiLower (nodeName carouselNode) = str ''hero-carousel''"
  by (simp add: rx_eval sanitizeBlockName_def nameUnit_def edgeHyphen_def carouselNode_def)

lemma carousel_lower: "asciiLower (str ''hero-carousel'') = str ''hero-carousel''"
  by (simp add: asciiLower_def asciiLowerUnit_def str_def)

lemma carousel_implied: "isCarouselBlock (str ''hero-carousel'')"
  by (simp add: isCarouselBlock_def str_def)

lemma carousel_not_card: "\<not> isCardBlock (str ''hero-carousel'')"
  by (simp add: isCardBlock_def str_def)

lemma carousel_texts: "findAllTextNodes carouselNode = []"
  by (simp add: findAllTextNodes.simps carouselNode_def str_def)

lemma no_text_structure:
  "findStructuredTextContent [] =
     \<lparr>hasList = False, hasMultipleParagraphs = False, hasSimpleContent = False\<rparr>"
  by (simp add: rx_eval findStructuredTextContent_def listMarkerPattern_def longLines_def Let_def)

text \<open>
  Claim C4.  For every multi-item analysis, from the markup path or from the node path,
  \<open>jsPattern\<close> is \<open>carousel\<close> if the block name implies carousel, slider or gallery, else \<open>cards\<close>
  if the name implies card, else \<open>decorated\<close> if an item field is rich text, else \<open>cards\<close>.
  The markup path does this (\<open>raw_path_pattern\<close>); the node path does not: for the node named
  \<open>Hero Carousel\<close> and the markup above the analysis is multi-item, the block name is
  \<open>hero-carousel\<close>, which implies carousel, and the pattern is \<open>cards\<close>.
\<close>

theorem C4_node_path_ignores_carousel:
  "blockType (analyze asciiLower carouselNode (Some cardMarkup)) = multi_item \<and>
   blockName (analyze asciiLower carouselNode (Some cardMarkup)) = str ''hero-carousel'' \<and>
   isCarouselBlock (asciiLower (blockName (analyze asciiLower carouselNode (Some cardMarkup)))) \<and>
   jsPattern (contentStructure (analyze asciiLower carouselNode (Some cardMarkup))) = cards"
proof -
  have multi: "multiItemLikely (parseCodeSignals asciiLower (processedCode (Some cardMarkup)))"
    by (simp add: cardMarkup_processed cardMarkup_multi)
  have a: "blockType (analyze asciiLower carouselNode (Some cardMarkup)) = multi_item"
    by (simp add: blockType_analyze multi)
  have b: "blockName (analyze asciiLower carouselNode (Some cardMarkup)) = str ''hero-carousel''"
    by (simp add: blockName_analyze carousel_name)
  have c: "isCarouselBlock
             (asciiLower (blockName (analyze asciiLower carouselNode (Some cardMarkup))))"
    by (simp add: b carousel_lower carousel_implied)
  have d: "jsPattern (contentStructure (analyze asciiLower carouselNode (Some cardMarkup))) = cards"
    using node_path_pattern [OF multi cardMarkup_processed, of carouselNode]
    by (simp add: cardMarkup_length carousel_name carousel_lower carousel_not_card
          carousel_texts no_text_structure)
  show ?thesis by (intro conjI a b c d)
qed


section \<open>Properties of the fields\<close>

text \<open>
  A field is a reference when its component is \<open>reference\<close>; \<open>g\<close> is the alternative text of
  \<open>f\<close> when it is a text field named as \<open>f\<close> followed by \<open>Alt\<close>.  The references of a list of
  fields are paired when each has its alternative text in the same list.
\<close>

definition isReference :: "BlockField \<Rightarrow> bool" where
  "isReference f = (component f = str ''reference'')"

definition altTextOf :: "BlockField \<Rightarrow> BlockField \<Rightarrow> bool" where
  "altTextOf f g = (name g = name f @ str ''Alt'' \<and> component g = str ''text'')"

definition referencesPaired :: "BlockField list \<Rightarrow> bool" where
  "referencesPaired fs = list_all (\<lambda>f. isReference f \<longrightarrow> list_ex (altTextOf f) fs) fs"

definition allReferencesPaired :: "ContentStructure \<Rightarrow> bool" where
  "allReferencesPaired cs =
     (referencesPaired (containerFields cs) \<and>
      (case itemFields cs of None \<Rightarrow> True | Some items \<Rightarrow> referencesPaired items))"

lemma referencesPaired_iff:
  "referencesPaired fs = (\<forall>f \<in> set fs. isReference f \<longrightarrow> (\<exists>g \<in> set fs. altTextOf f g))"
  by (simp add: referencesPaired_def list_all_iff list_ex_iff)

lemma referencesPaired_Nil: "referencesPaired []"
  by (simp add: referencesPaired_iff)

lemma referencesPaired_append:
  "referencesPaired fs \<Longrightarrow> referencesPaired gs \<Longrightarrow> referencesPaired (fs @ gs)"
  by (auto simp: referencesPaired_iff)

lemma referencesPaired_concat:
  "(\<And>fs. fs \<in> set fss \<Longrightarrow> referencesPaired fs) \<Longrightarrow> referencesPaired (concat fss)"
  by (induction fss) (simp_all add: referencesPaired_Nil referencesPaired_append)

lemma referencesPaired_plain:
  "(\<And>f. f \<in> set fs \<Longrightarrow> \<not> isReference f) \<Longrightarrow> referencesPaired fs"
  by (auto simp: referencesPaired_iff)

lemma text_not_reference: "\<not> isReference (field n l ''text'' r m d)"
  by (simp add: isReference_def field_def str_def)

lemma richtext_not_reference: "\<not> isReference (field n l ''richtext'' r m d)"
  by (simp add: isReference_def field_def str_def)

lemma referencesPaired_text: "referencesPaired [field n l ''text'' r m d]"
  by (rule referencesPaired_plain) (simp add: text_not_reference)

lemma referencesPaired_richtext: "referencesPaired [field n l ''richtext'' r m d]"
  by (rule referencesPaired_plain) (simp add: richtext_not_reference)

lemma referencesPaired_two_text:
  "referencesPaired [field n l ''text'' r m d, field n' l' ''text'' r' m' d']"
  by (rule referencesPaired_plain) (auto simp: text_not_reference)

lemma referencesPaired_pair:
  "referencesPaired [field n l ''reference'' r m d, field (n @ str ''Alt'') l' ''text'' r' m' d']"
  by (simp add: referencesPaired_iff altTextOf_def field_def isReference_def str_def)

lemma referencesPaired_imageFields: "referencesPaired (imageFields p d i)"
  unfolding imageFields_def by (rule referencesPaired_pair)

lemma referencesPaired_singleImageFields: "referencesPaired (singleImageFields i)"
  unfolding singleImageFields_def append_assoc [symmetric] by (rule referencesPaired_pair)

lemma referencesPaired_iconFields: "referencesPaired (iconFields l d)"
  using referencesPaired_pair [of "str ''icon''"] by (simp add: iconFields_def str_def)

lemma referencesPaired_ctaFields: "referencesPaired (ctaFields lc scope i)"
  unfolding ctaFields_def by (rule referencesPaired_plain) (auto simp: text_not_reference)

lemma referencesPaired_images:
  "referencesPaired (concat (map (\<lambda>(i, img). imageFields p d i) xs))"
  by (rule referencesPaired_concat) (auto simp: referencesPaired_imageFields)

lemma referencesPaired_ctas:
  "referencesPaired (concat (map (\<lambda>(i, cta). ctaFields lc scope i) xs))"
  by (rule referencesPaired_concat) (auto simp: referencesPaired_ctaFields)

lemma referencesPaired_analyzeContainerFields:
  "referencesPaired (analyzeContainerFields lc textNodes images buttonNodes analysis)"
  unfolding analyzeContainerFields_def Let_def
  by (intro referencesPaired_append referencesPaired_images referencesPaired_ctas)
     (simp_all add: referencesPaired_Nil referencesPaired_text referencesPaired_richtext
        split: option.split)

lemma referencesPaired_analyzeActualContent:
  "referencesPaired (analyzeActualContent lc node analysis images)"
  unfolding analyzeActualContent_def Let_def
  by (intro referencesPaired_append referencesPaired_images referencesPaired_ctas)
     (simp_all add: referencesPaired_Nil referencesPaired_text referencesPaired_richtext)

lemma textField_not_reference: "\<not> isReference (textField i node)"
  by (simp add: textField_def text_not_reference richtext_not_reference)

lemma referencesPaired_extractAllFields:
  "referencesPaired (extractAllFields textNodes images buttonNodes)"
proof -
  have "referencesPaired (map (\<lambda>(i, node). textField i node) (indexed textNodes))"
    by (rule referencesPaired_plain) (auto simp: textField_not_reference)
  moreover have "referencesPaired (concat (map (\<lambda>(i, node). singleImageFields i) (indexed images)))"
    by (rule referencesPaired_concat) (auto simp: referencesPaired_singleImageFields)
  ultimately show ?thesis
    unfolding extractAllFields_def by (rule referencesPaired_append)
qed

lemma referencesPaired_rawContainerFields: "referencesPaired (rawContainerFields extracted)"
  unfolding rawContainerFields_def
  by (intro referencesPaired_append)
     (simp_all add: referencesPaired_Nil referencesPaired_text referencesPaired_iconFields)

lemma referencesPaired_rawItemFields: "referencesPaired (rawItemFields extracted)"
  unfolding rawItemFields_def
  by (intro referencesPaired_append)
     (simp_all add: referencesPaired_Nil referencesPaired_text referencesPaired_richtext
        referencesPaired_iconFields referencesPaired_two_text)

text \<open>
  Claim C9.  In every analysis result, every field with component \<open>reference\<close> in the
  container fields or in the item fields is accompanied, in the same list, by a text field
  whose name is the name of the reference field followed by \<open>Alt\<close>.
\<close>

theorem C9_reference_alt_pairing:
  "allReferencesPaired (contentStructure (analyze lc node rawCode))"
  by (simp add: allReferencesPaired_def analyze_def analyzeContentStructure_def Let_def
        initialAnalysis_def analyzeItemStructure_def
        referencesPaired_rawContainerFields referencesPaired_rawItemFields
        referencesPaired_analyzeContainerFields referencesPaired_analyzeActualContent
        referencesPaired_extractAllFields referencesPaired_Nil
        split: option.split)

text \<open>A frame that holds one rectangle with an image fill, analysed without markup.\<close>

definition photoNode :: FigmaNode where
  "photoNode =
     FigmaNode (str ''1:3'') (str ''Photo'') (str ''RECTANGLE'') [] None None (Some [str ''IMAGE''])
       None False"

definition heroNode :: FigmaNode where
  "heroNode =
     FigmaNode (str ''1:2'') (str ''Hero'') (str ''FRAME'') [photoNode] None None None None False"

lemma containerFields_without_code:
  "containerFields (contentStructure (analyze lc node None)) =
     extractAllFields (findAllTextNodes node) (findAllImageNodes lc node) (findAllButtonNodes lc node)"
  by (simp add: analyze_def initialAnalysis_def analyzeContentStructure_def rawPathCode_def
        processedCode_def parseCodeSignals_def emptySignals_def Let_def)

lemma hero_images: "findAllImageNodes asciiLower heroNode = [photoNode]"
  by (simp add: findAllImageNodes_def traverseImages.simps visitImage_def isVectorType_def
        heroNode_def photoNode_def asciiLower_def asciiLowerUnit_def str_def Let_def)

lemma hero_reference:
  "list_ex isReference (containerFields (contentStructure (analyze asciiLower heroNode None)))"
  by (simp add: containerFields_without_code hero_images extractAllFields_def indexed_def
        singleImageFields_def field_def isReference_def)

theorem C9_pairing_witness:
  "list_ex isReference (containerFields (contentStructure (analyze asciiLower heroNode None))) \<and>
   allReferencesPaired (contentStructure (analyze asciiLower heroNode None))"
  using C9_reference_alt_pairing [of asciiLower heroNode None] hero_reference
  by (simp only: simp_thms)

end
